(* ===== verification/Prelude.thy ===== *)
theory Prelude
  imports Complex_Main "HOL-Library.Sublist"
begin

text \<open>
  Shared vocabulary of the development: the named collections the component
  theories put their handler equations into, the JavaScript string predicates the
  scripts call (\<open>String.prototype.startsWith\<close> and the CSS suffix selector
  \<open>[attr$=...]\<close>), and the exponential-smoothing idiom
  \<open>x += (target - x) * k\<close> that \<^verbatim>\<open>src/script.js\<close> uses for the pointer, the camera
  and the cursor glow, with the facts about it that those components share.
  JavaScript numbers are modelled as \<^typ>\<open>real\<close> (exact arithmetic, no IEEE
  rounding); animation times of the GSAP timelines as \<^typ>\<open>int\<close> milliseconds,
  in which every literal of the sources is exact.
\<close>

named_theorems handler_defs "equations of the DOM event handlers of the components"
named_theorems smooth_simps "rewrite rules for the exponential smoothing step"

type_synonym ms = int

subsection \<open>JavaScript string predicates\<close>

text \<open>\<open>s.startsWith(p)\<close>: the characters of \<open>p\<close> open \<open>s\<close>.\<close>

fun starts_with :: "string \<Rightarrow> string \<Rightarrow> bool" where
  "starts_with s [] = True"
| "starts_with [] (c # cs) = False"
| "starts_with (d # ds) (c # cs) = (d = c \<and> starts_with ds cs)"

text \<open>The CSS attribute selector \<open>a[href$=".html"]\<close>: the value ends with the suffix.\<close>

definition ends_with :: "string \<Rightarrow> string \<Rightarrow> bool" where
  "ends_with s suf = starts_with (rev s) (rev suf)"

lemma starts_with_iff: "starts_with s p \<longleftrightarrow> prefix p s"
  by (induction s p rule: starts_with.induct) auto

lemma ends_with_iff: "ends_with s suf \<longleftrightarrow> suffix suf s"
  by (simp add: ends_with_def suffix_to_prefix starts_with_iff)

lemma starts_with_append [simp]: "starts_with (p @ r) p"
  by (simp add: starts_with_iff)

lemma ends_with_append [simp]: "ends_with (r @ suf) suf"
  by (simp add: ends_with_iff suffix_def)

subsection \<open>Tweens that do not overwrite each other\<close>

text \<open>
  GSAP 3 does not overwrite a running tween of the same property by default: tweens
  started one after another run side by side, each rendering its own value every
  frame, in the order they were created. Once all of them have finished, the
  property holds the end value of the tween that finished last (of two finishing
  together, the one created later). A tween is \<open>(start, duration, end value)\<close>;
  \<open>last_finished v e tws\<close> is the settled value, \<open>v\<close> being the value written by a
  tween finishing at \<open>e\<close> before the list.
\<close>

fun last_finished :: "'a \<Rightarrow> ms \<Rightarrow> (ms \<times> ms \<times> 'a) list \<Rightarrow> 'a" where
  "last_finished v e [] = v"
| "last_finished v e ((s, d, x) # tws) =
     (if e \<le> s + d then last_finished x (s + d) tws else last_finished v e tws)"

subsection \<open>Exponential smoothing\<close>

text \<open>
  \<open>x += (target - x) * k\<close>: one frame of exponential smoothing of \<open>x\<close> towards
  \<open>target\<close> with factor \<open>k\<close>.
\<close>

definition smooth_toward :: "real \<Rightarrow> real \<Rightarrow> real \<Rightarrow> real" where
  "smooth_toward k target x = x + (target - x) * k"

fun smooth_iter :: "nat \<Rightarrow> real \<Rightarrow> real \<Rightarrow> real \<Rightarrow> real" where
  "smooth_iter 0 k target x = x"
| "smooth_iter (Suc n) k target x = smooth_iter n k target (smooth_toward k target x)"

lemma last_finished_last:
  "e \<le> s + d \<Longrightarrow> list_all (\<lambda>(s', d', x'). s' + d' \<le> s + d) tws
   \<Longrightarrow> last_finished v e (tws @ [(s, d, x)]) = x"
  by (induction v e tws rule: last_finished.induct) auto

lemma last_finished_none:
  "list_all (\<lambda>(s', d', x'). s' + d' < e) tws \<Longrightarrow> last_finished v e tws = v"
  by (induction v e tws rule: last_finished.induct) auto

text \<open>A tween that finishes no earlier than every tween before it and strictly later
  than every tween after it gives the settled value.\<close>

lemma last_finished_dominant:
  "e \<le> s + d \<Longrightarrow> list_all (\<lambda>(s', d', x'). s' + d' \<le> s + d) pre
   \<Longrightarrow> list_all (\<lambda>(s', d', x'). s' + d' < s + d) post
   \<Longrightarrow> last_finished v e (pre @ (s, d, x) # post) = x"
  by (induction v e pre rule: last_finished.induct) (auto simp: last_finished_none)

lemma smooth_toward_gap [smooth_simps]:
  "target - smooth_toward k target x = (1 - k) * (target - x)"
  by (simp add: smooth_toward_def algebra_simps)

lemma smooth_iter_gap [smooth_simps]:
  "target - smooth_iter n k target x = (1 - k) ^ n * (target - x)"
  by (induction n arbitrary: x) (simp_all add: smooth_toward_gap)

lemma smooth_toward_fixed [simp]: "smooth_toward k target target = target"
  by (simp add: smooth_toward_def)

text \<open>For \<open>0 \<le> k \<le> 1\<close> the step is a convex combination of \<open>x\<close> and the target.\<close>

lemma smooth_toward_convex:
  "smooth_toward k target x = (1 - k) * x + k * target"
  by (simp add: smooth_toward_def algebra_simps)

lemma smooth_toward_between:
  assumes "0 \<le> k" "k \<le> 1" "lo \<le> x" "x \<le> hi" "lo \<le> target" "target \<le> hi"
  shows "lo \<le> smooth_toward k target x \<and> smooth_toward k target x \<le> hi"
proof -
  have "(1 - k) * lo + k * lo \<le> (1 - k) * x + k * target"
    using assms by (intro add_mono mult_left_mono) auto
  moreover have "(1 - k) * x + k * target \<le> (1 - k) * hi + k * hi"
    using assms by (intro add_mono mult_left_mono) auto
  ultimately show ?thesis
    by (simp add: smooth_toward_convex algebra_simps)
qed

lemma smooth_toward_abs_le:
  assumes "0 \<le> k" "k \<le> 1" "\<bar>x\<bar> \<le> b" "\<bar>target\<bar> \<le> b"
  shows "\<bar>smooth_toward k target x\<bar> \<le> b"
  using smooth_toward_between [of k "-b" x b target] assms by (simp add: abs_le_iff)

lemma smooth_gap_shrinks:
  assumes "0 < k" "k \<le> 1" "x \<noteq> target"
  shows "\<bar>target - smooth_toward k target x\<bar> < \<bar>target - x\<bar>"
  using assms by (simp add: smooth_toward_gap abs_mult)

end
