(* ===== verification/NavToggle.thy ===== *)
theory NavToggle
  imports Prelude
begin

text \<open>
  The navigation toggle of \<^verbatim>\<open>src/site.js\<close>. Its state is two DOM attributes:
  \<open>document.body.dataset.navOpen\<close> and the toggle's \<open>aria-expanded\<close>, both strings
  (or absent, before the script ran). A click is described by what the listeners
  observe of its target: whether it is an \<open>Element\<close>, whether the event passes
  through the toggle element \<open>navToggle\<close> on its way up (so that the toggle's own
  listener runs, before the document's one in the bubbling order), and which of the
  three \<open>closest\<close> queries of the document listener find an ancestor.
\<close>

record nav_dom =
  nav_open :: "string option"
  aria_expanded :: "string option"

record click_target =
  is_element :: bool
  on_toggle :: bool
  closest_nav_link :: bool
  closest_toggle :: bool
  closest_menu :: bool

datatype nav_event = Click click_target | KeyDown string

text \<open>What the DOM guarantees of a click target: an anchor inside \<open>.nav-links\<close> lies
  inside \<open>.nav-links\<close>, and an element inside \<open>navToggle\<close> has an ancestor carrying
  \<open>data-nav-toggle\<close>.\<close>

definition click_wf :: "click_target \<Rightarrow> bool" where
  "click_wf c \<longleftrightarrow> (closest_nav_link c \<longrightarrow> closest_menu c)
                \<and> (on_toggle c \<and> is_element c \<longrightarrow> closest_toggle c)"

subsection \<open>The handlers\<close>

definition closeNav :: "nav_dom \<Rightarrow> nav_dom" where
  "closeNav s = s\<lparr>nav_open := Some ''false'', aria_expanded := Some ''false''\<rparr>"

definition openNav :: "nav_dom \<Rightarrow> nav_dom" where
  "openNav s = s\<lparr>nav_open := Some ''true'', aria_expanded := Some ''true''\<rparr>"

definition isOpen :: "nav_dom \<Rightarrow> bool" where
  "isOpen s \<longleftrightarrow> nav_open s = Some ''true''"

definition toggle_click :: "nav_dom \<Rightarrow> nav_dom" where
  "toggle_click s = (if isOpen s then closeNav s else openNav s)"

definition keydown_handler :: "string \<Rightarrow> nav_dom \<Rightarrow> nav_dom" where
  "keydown_handler key s = (if key = ''Escape'' then closeNav s else s)"

definition document_click :: "click_target \<Rightarrow> nav_dom \<Rightarrow> nav_dom" where
  "document_click c s =
     (if \<not> is_element c then s
      else let s1 = (if closest_nav_link c then closeNav s else s)
           in if \<not> closest_toggle c \<and> \<not> closest_menu c \<and> isOpen s1 then closeNav s1 else s1)"

text \<open>One event, dispatched to every listener it reaches, in bubbling order.\<close>

fun nav_dispatch :: "nav_dom \<Rightarrow> nav_event \<Rightarrow> nav_dom" where
  "nav_dispatch s (Click c) = document_click c (if on_toggle c then toggle_click s else s)"
| "nav_dispatch s (KeyDown k) = keydown_handler k s"

text \<open>The script: without a \<open>[data-nav-toggle]\<close> element it returns before touching
  the DOM or registering a listener; otherwise it closes the menu and then reacts to
  every event.\<close>

definition site_nav_init :: "bool \<Rightarrow> nav_dom \<Rightarrow> nav_dom" where
  "site_nav_init has_toggle s = (if has_toggle then closeNav s else s)"

fun nav_run :: "nav_dom \<Rightarrow> nav_event list \<Rightarrow> nav_dom" where
  "nav_run s [] = s"
| "nav_run s (e # es) = nav_run (nav_dispatch s e) es"

definition site_nav :: "bool \<Rightarrow> nav_dom \<Rightarrow> nav_event list \<Rightarrow> nav_dom" where
  "site_nav has_toggle s es = (if has_toggle then nav_run (site_nav_init True s) es else s)"

declare closeNav_def [handler_defs] openNav_def [handler_defs] isOpen_def [handler_defs]
  toggle_click_def [handler_defs] keydown_handler_def [handler_defs]
  document_click_def [handler_defs]

subsection \<open>The invariant: a boolean flag, mirrored in \<open>aria-expanded\<close>\<close>

definition nav_inv :: "nav_dom \<Rightarrow> bool" where
  "nav_inv s \<longleftrightarrow> nav_open s \<in> {Some ''true'', Some ''false''} \<and> aria_expanded s = nav_open s"

subsection \<open>Reachable states\<close>

text \<open>Whatever the attributes were when the page was parsed, the script closes the
  menu, and every later state is reached by dispatching one event.\<close>

inductive nav_reachable :: "nav_dom \<Rightarrow> bool" where
  init: "nav_reachable (site_nav_init True s0)"
| step: "nav_reachable s \<Longrightarrow> nav_reachable (nav_dispatch s e)"

subsection \<open>The specification of section 4.7 as an abstract machine\<close>

text \<open>
  The specification describes the toggle as one boolean and a transition table over
  kinds of user action. \<open>classify_nav\<close> names the kind of action a concrete event is;
  events the table does not cover (a target that is not an \<open>Element\<close>, a toggle
  placed inside a navigation link, a second \<open>[data-nav-toggle]\<close> element outside the
  menu) are classified \<open>None\<close>.
\<close>

datatype nav_action = ToggleClick | EscapeKey | NavLinkClick | OutsideClick | MenuClick | OtherKey

fun spec_nav_step :: "bool \<Rightarrow> nav_action \<Rightarrow> bool" where
  "spec_nav_step b ToggleClick = (\<not> b)"
| "spec_nav_step b EscapeKey = False"
| "spec_nav_step b NavLinkClick = False"
| "spec_nav_step b OutsideClick = False"
| "spec_nav_step b MenuClick = b"
| "spec_nav_step b OtherKey = b"

fun classify_nav :: "nav_event \<Rightarrow> nav_action option" where
  "classify_nav (Click c) =
     (if \<not> is_element c then None
      else if on_toggle c then (if closest_nav_link c then None else Some ToggleClick)
      else if closest_nav_link c then Some NavLinkClick
      else if closest_menu c then Some MenuClick
      else if closest_toggle c then None
      else Some OutsideClick)"
| "classify_nav (KeyDown k) = Some (if k = ''Escape'' then EscapeKey else OtherKey)"

fun event_wf :: "nav_event \<Rightarrow> bool" where
  "event_wf (Click c) = click_wf c"
| "event_wf (KeyDown k) = True"

subsection \<open>Lemmas on the handlers\<close>

lemma nav_inv_closeNav [simp]: "nav_inv (closeNav s)"
  by (simp add: nav_inv_def closeNav_def)

lemma nav_inv_openNav [simp]: "nav_inv (openNav s)"
  by (simp add: nav_inv_def openNav_def)

lemma isOpen_closeNav [simp]: "\<not> isOpen (closeNav s)"
  by (simp add: isOpen_def closeNav_def)

lemma isOpen_openNav [simp]: "isOpen (openNav s)"
  by (simp add: isOpen_def openNav_def)

lemma nav_dispatch_inv: "nav_inv s \<Longrightarrow> nav_inv (nav_dispatch s e)"
  by (cases e) (auto simp: toggle_click_def keydown_handler_def document_click_def Let_def)

lemma nav_run_inv: "nav_inv s \<Longrightarrow> nav_inv (nav_run s es)"
  by (induction es arbitrary: s) (simp_all add: nav_dispatch_inv)

lemma nav_run_append: "nav_run s (xs @ ys) = nav_run (nav_run s xs) ys"
  by (induction xs arbitrary: s) simp_all

inductive_cases nav_reachable_cases: "nav_reachable s"

lemma nav_reachable_run: "nav_reachable s \<Longrightarrow> nav_reachable (nav_run s es)"
  by (induction es arbitrary: s) (auto intro: nav_reachable.step)

lemma site_nav_reachable: "nav_reachable (site_nav True s0 es)"
  unfolding site_nav_def by (auto intro: nav_reachable_run nav_reachable.init)

lemma nav_dispatch_refines:
  assumes "event_wf e" "classify_nav e = Some a"
  shows "isOpen (nav_dispatch s e) = spec_nav_step (isOpen s) a"
proof (cases e)
  case (Click c)
  with assms show ?thesis
    by (auto simp: click_wf_def document_click_def toggle_click_def Let_def split: if_splits)
next
  case (KeyDown k)
  with assms show ?thesis
    by (auto simp: keydown_handler_def split: if_splits)
qed

lemma nav_reachable_step_inv: "nav_reachable s \<Longrightarrow> nav_inv s"
proof (induction rule: nav_reachable.induct)
  case (init s0)
  show ?case by (simp add: site_nav_init_def)
next
  case (step s e)
  then show ?case by (simp add: nav_dispatch_inv)
qed

subsection \<open>Properties\<close>

text \<open>
  C1 (refinement). On every sequence of events that the transition table of the
  specification covers, the open/closed state that \<^verbatim>\<open>site.js\<close> keeps in
  \<open>data-nav-open\<close> is the state the abstract machine of section 4.7 computes: toggle
  clicks flip it; Escape, navigation-link clicks and outside clicks close it; clicks
  inside the menu and other keys leave it.
\<close>

theorem nav_run_refines_spec:
  assumes "list_all event_wf es" and "those (map classify_nav es) = Some acts"
  shows "isOpen (nav_run s es) = foldl spec_nav_step (isOpen s) acts"
  using assms
proof (induction es arbitrary: s acts)
  case Nil
  then show ?case by simp
next
  case (Cons e es)
  from Cons.prems(2) obtain a acts' where a: "classify_nav e = Some a"
    and rest: "those (map classify_nav es) = Some acts'" and acts: "acts = a # acts'"
    by (auto split: option.splits)
  from Cons.prems(1) have wf: "event_wf e" "list_all event_wf es" by simp_all
  have "isOpen (nav_run (nav_dispatch s e) es)
        = foldl spec_nav_step (isOpen (nav_dispatch s e)) acts'"
    using Cons.IH [OF wf(2) rest] .
  also have "isOpen (nav_dispatch s e) = spec_nav_step (isOpen s) a"
    using wf(1) a by (rule nav_dispatch_refines)
  finally show ?case by (simp add: acts)
qed

theorem nav_run_refines_spec_witness:
  "list_all event_wf
     [Click \<lparr>is_element = True, on_toggle = True, closest_nav_link = False,
             closest_toggle = True, closest_menu = False\<rparr>,
      Click \<lparr>is_element = True, on_toggle = False, closest_nav_link = False,
             closest_toggle = False, closest_menu = True\<rparr>,
      KeyDown ''Escape'']
   \<and> those (map classify_nav
     [Click \<lparr>is_element = True, on_toggle = True, closest_nav_link = False,
             closest_toggle = True, closest_menu = False\<rparr>,
      Click \<lparr>is_element = True, on_toggle = False, closest_nav_link = False,
             closest_toggle = False, closest_menu = True\<rparr>,
      KeyDown ''Escape'']) = Some [ToggleClick, MenuClick, EscapeKey]
   \<and> isOpen (nav_run \<lparr>nav_open = Some ''false'', aria_expanded = Some ''false''\<rparr>
     [Click \<lparr>is_element = True, on_toggle = True, closest_nav_link = False,
             closest_toggle = True, closest_menu = False\<rparr>,
      Click \<lparr>is_element = True, on_toggle = False, closest_nav_link = False,
             closest_toggle = False, closest_menu = True\<rparr>,
      KeyDown ''Escape''])
     = foldl spec_nav_step False [ToggleClick, MenuClick, EscapeKey]"
  using nav_run_refines_spec [of
     "[Click \<lparr>is_element = True, on_toggle = True, closest_nav_link = False,
             closest_toggle = True, closest_menu = False\<rparr>,
      Click \<lparr>is_element = True, on_toggle = False, closest_nav_link = False,
             closest_toggle = False, closest_menu = True\<rparr>,
      KeyDown ''Escape'']" "[ToggleClick, MenuClick, EscapeKey]"
     "\<lparr>nav_open = Some ''false'', aria_expanded = Some ''false''\<rparr>"]
  by (simp add: click_wf_def isOpen_def)

text \<open>
  C2 (invariant). In every state the script can reach, \<open>data-nav-open\<close> holds one of
  the two strings \<open>"true"\<close> and \<open>"false"\<close>, and the toggle's \<open>aria-expanded\<close>
  attribute carries the same value: the accessibility state never disagrees with the
  visual one.
\<close>

theorem nav_reachable_inv:
  assumes "nav_reachable s"
  shows "nav_open s \<in> {Some ''true'', Some ''false''} \<and> aria_expanded s = nav_open s"
  using nav_reachable_step_inv [OF assms] by (simp add: nav_inv_def)

theorem nav_reachable_inv_witness:
  "nav_reachable (nav_dispatch (site_nav_init True \<lparr>nav_open = None, aria_expanded = None\<rparr>)
                    (KeyDown ''Enter''))
   \<and> nav_open (nav_dispatch (site_nav_init True \<lparr>nav_open = None, aria_expanded = None\<rparr>)
                    (KeyDown ''Enter'')) \<in> {Some ''true'', Some ''false''}
   \<and> aria_expanded (nav_dispatch (site_nav_init True \<lparr>nav_open = None, aria_expanded = None\<rparr>)
                    (KeyDown ''Enter''))
     = nav_open (nav_dispatch (site_nav_init True \<lparr>nav_open = None, aria_expanded = None\<rparr>)
                    (KeyDown ''Enter''))"
proof -
  have r: "nav_reachable (nav_dispatch (site_nav_init True \<lparr>nav_open = None, aria_expanded = None\<rparr>)
                    (KeyDown ''Enter''))"
    by (intro nav_reachable.step nav_reachable.init)
  show ?thesis using r nav_reachable_inv [OF r] by blast
qed

text \<open>
  C3 (spec gap). A toggle element placed inside a navigation link can never open
  the menu: its own listener opens it, and the document listener, which runs next
  in the bubbling order, sees a click on a navigation link and closes it again.
\<close>

theorem toggle_inside_nav_link_never_opens:
  assumes "is_element c" and "on_toggle c" and "closest_nav_link c"
  shows "\<not> isOpen (nav_dispatch s (Click c))"
  using assms by (simp add: document_click_def Let_def)

theorem toggle_inside_nav_link_never_opens_witness:
  "is_element \<lparr>is_element = True, on_toggle = True, closest_nav_link = True,
               closest_toggle = True, closest_menu = True\<rparr>
   \<and> on_toggle \<lparr>is_element = True, on_toggle = True, closest_nav_link = True,
               closest_toggle = True, closest_menu = True\<rparr>
   \<and> closest_nav_link \<lparr>is_element = True, on_toggle = True, closest_nav_link = True,
               closest_toggle = True, closest_menu = True\<rparr>
   \<and> \<not> isOpen (nav_dispatch \<lparr>nav_open = Some ''false'', aria_expanded = Some ''false''\<rparr>
         (Click \<lparr>is_element = True, on_toggle = True, closest_nav_link = True,
                 closest_toggle = True, closest_menu = True\<rparr>))"
  using toggle_inside_nav_link_never_opens [of
      "\<lparr>is_element = True, on_toggle = True, closest_nav_link = True,
         closest_toggle = True, closest_menu = True\<rparr>"
      "\<lparr>nav_open = Some ''false'', aria_expanded = Some ''false''\<rparr>"]
  by simp

text \<open>
  C4 (spec divergence). A click on an element carrying \<open>data-nav-toggle\<close> that is
  not the first such element (the one \<open>querySelector\<close> returned and the listener
  was attached to), outside the menu, changes nothing, even while the menu is open:
  the document listener treats it as a click on the toggle, although that toggle
  has no listener, where the specification closes the menu on every click outside
  the toggle control and the menu.
\<close>

theorem other_toggle_click_keeps_state:
  assumes "\<not> on_toggle c" and "closest_toggle c" and "\<not> closest_nav_link c"
  shows "nav_dispatch s (Click c) = s"
  using assms by (simp add: document_click_def Let_def)

theorem other_toggle_click_keeps_state_witness:
  "\<not> on_toggle \<lparr>is_element = True, on_toggle = False, closest_nav_link = False,
                 closest_toggle = True, closest_menu = False\<rparr>
   \<and> closest_toggle \<lparr>is_element = True, on_toggle = False, closest_nav_link = False,
                 closest_toggle = True, closest_menu = False\<rparr>
   \<and> \<not> closest_nav_link \<lparr>is_element = True, on_toggle = False, closest_nav_link = False,
                 closest_toggle = True, closest_menu = False\<rparr>
   \<and> isOpen (nav_dispatch \<lparr>nav_open = Some ''true'', aria_expanded = Some ''true''\<rparr>
         (Click \<lparr>is_element = True, on_toggle = False, closest_nav_link = False,
                 closest_toggle = True, closest_menu = False\<rparr>))"
  using other_toggle_click_keeps_state [of
      "\<lparr>is_element = True, on_toggle = False, closest_nav_link = False,
         closest_toggle = True, closest_menu = False\<rparr>"
      "\<lparr>nav_open = Some ''true'', aria_expanded = Some ''true''\<rparr>"]
  by (simp add: isOpen_def)

text \<open>
  C5 (functional). Whatever \<open>data-nav-open\<close> and \<open>aria-expanded\<close> held when the page
  was parsed, the script starts with the menu closed and both attributes set to
  \<open>"false"\<close>; on a page without a \<open>[data-nav-toggle]\<close> element it leaves the DOM
  untouched whatever events arrive.
\<close>

theorem site_nav_initially_closed:
  "nav_open (site_nav True s []) = Some ''false''
   \<and> aria_expanded (site_nav True s []) = Some ''false''
   \<and> site_nav False s es = s"
  by (simp add: site_nav_def site_nav_init_def closeNav_def)

end
