(* ===== verification/MobileNav.thy ===== *)
theory MobileNav
  imports Prelude
begin

text \<open>
  The mobile navigation of \<^verbatim>\<open>src/script.js\<close> (\<open>initMobileNav\<close>, lines 593--612).
  Unlike the toggle of \<^verbatim>\<open>site.js\<close> it keeps no attribute of its own: its state is
  whether the class \<open>active\<close> is in the class list of the \<open>.nav-mobile\<close> menu and of
  the \<open>.nav-toggle\<close> button. A click on the toggle flips both class lists
  (\<open>classList.toggle\<close>); a click on a \<open>.nav-link\<close> inside the menu removes the class
  from both. The function never sets the classes at start-up: the initial state is
  whatever the markup says.
\<close>

record mobile_nav =
  menu_active :: bool
  toggle_active :: bool

datatype mobile_event = MobileToggleClick | MobileLinkClick | MobileOtherClick

definition mobile_toggle_click :: "mobile_nav \<Rightarrow> mobile_nav" where
  "mobile_toggle_click s =
     s\<lparr>menu_active := \<not> menu_active s, toggle_active := \<not> toggle_active s\<rparr>"

definition mobile_link_click :: "mobile_nav \<Rightarrow> mobile_nav" where
  "mobile_link_click s = s\<lparr>menu_active := False, toggle_active := False\<rparr>"

fun mobile_step :: "mobile_nav \<Rightarrow> mobile_event \<Rightarrow> mobile_nav" where
  "mobile_step s MobileToggleClick = mobile_toggle_click s"
| "mobile_step s MobileLinkClick = mobile_link_click s"
| "mobile_step s MobileOtherClick = s"

text \<open>Without both elements the function returns before registering a listener.\<close>

fun mobile_run :: "bool \<Rightarrow> mobile_nav \<Rightarrow> mobile_event list \<Rightarrow> mobile_nav" where
  "mobile_run present s [] = s"
| "mobile_run present s (e # es) = mobile_run present (if present then mobile_step s e else s) es"

definition initMobileNav :: "bool \<Rightarrow> bool \<Rightarrow> mobile_nav \<Rightarrow> mobile_event list \<Rightarrow> mobile_nav" where
  "initMobileNav has_toggle has_menu s es = mobile_run (has_toggle \<and> has_menu) s es"

definition classes_agree :: "mobile_nav \<Rightarrow> bool" where
  "classes_agree s \<longleftrightarrow> menu_active s = toggle_active s"

declare mobile_toggle_click_def [handler_defs] mobile_link_click_def [handler_defs]

lemma mobile_step_keeps_agree: "classes_agree s \<Longrightarrow> classes_agree (mobile_step s e)"
  by (cases e) (auto simp: classes_agree_def handler_defs)

lemma mobile_run_keeps_agree: "classes_agree s \<Longrightarrow> classes_agree (mobile_run p s es)"
  by (induction es arbitrary: s) (auto simp: mobile_step_keeps_agree)

lemma mobile_run_append: "mobile_run p s (xs @ ys) = mobile_run p (mobile_run p s xs) ys"
  by (induction xs arbitrary: s) simp_all

lemma mobile_run_absent: "mobile_run False s es = s"
  by (induction es) simp_all

subsection \<open>Properties\<close>

text \<open>
  C6 (invariant). If the markup starts the menu and the toggle button in the same
  state, they stay in the same state after any sequence of clicks: the button's
  \<open>active\<close> class always reflects whether the menu is open.
\<close>

theorem mobile_nav_classes_stay_in_sync:
  assumes "menu_active s = toggle_active s"
  shows "menu_active (initMobileNav t m s es) = toggle_active (initMobileNav t m s es)"
  using mobile_run_keeps_agree [of s] assms by (simp add: initMobileNav_def classes_agree_def)

theorem mobile_nav_classes_stay_in_sync_witness:
  "menu_active \<lparr>menu_active = False, toggle_active = False\<rparr>
     = toggle_active \<lparr>menu_active = False, toggle_active = False\<rparr>
   \<and> menu_active (initMobileNav True True \<lparr>menu_active = False, toggle_active = False\<rparr>
                    [MobileToggleClick, MobileOtherClick])
     = toggle_active (initMobileNav True True \<lparr>menu_active = False, toggle_active = False\<rparr>
                    [MobileToggleClick, MobileOtherClick])"
  using mobile_nav_classes_stay_in_sync [of "\<lparr>menu_active = False, toggle_active = False\<rparr>"
      True True "[MobileToggleClick, MobileOtherClick]"]
  by simp

text \<open>
  C7 (spec gap). Nothing resets the classes when the script starts, and the toggle
  flips the two class lists independently: markup that ships the menu \<open>active\<close> but
  not the button (or the reverse) keeps them out of step through every toggle click,
  until a click on a menu link clears both.
\<close>

theorem mobile_nav_desync_persists:
  assumes "menu_active s \<noteq> toggle_active s" and "MobileLinkClick \<notin> set es"
  shows "menu_active (initMobileNav True True s es) \<noteq> toggle_active (initMobileNav True True s es)"
  using assms
proof (induction es arbitrary: s)
  case Nil
  then show ?case by (simp add: initMobileNav_def)
next
  case (Cons e es)
  then have "menu_active (mobile_step s e) \<noteq> toggle_active (mobile_step s e)"
    by (cases e) (auto simp: handler_defs)
  with Cons show ?case by (simp add: initMobileNav_def)
qed

theorem mobile_nav_desync_persists_witness:
  "menu_active \<lparr>menu_active = True, toggle_active = False\<rparr>
     \<noteq> toggle_active \<lparr>menu_active = True, toggle_active = False\<rparr>
   \<and> MobileLinkClick \<notin> set [MobileToggleClick, MobileToggleClick, MobileToggleClick]
   \<and> menu_active (initMobileNav True True \<lparr>menu_active = True, toggle_active = False\<rparr>
                    [MobileToggleClick, MobileToggleClick, MobileToggleClick])
     \<noteq> toggle_active (initMobileNav True True \<lparr>menu_active = True, toggle_active = False\<rparr>
                    [MobileToggleClick, MobileToggleClick, MobileToggleClick])"
  using mobile_nav_desync_persists [of "\<lparr>menu_active = True, toggle_active = False\<rparr>"
      "[MobileToggleClick, MobileToggleClick, MobileToggleClick]"]
  by simp

end
