(* ===== verification/PageTransition.thy ===== *)
theory PageTransition
  imports Prelude
begin

text \<open>
  The page-transition overlay of \<^verbatim>\<open>src/script.js\<close> (\<open>initPageTransitions\<close>, lines
  284--317). A click listener is attached to every anchor matched by
  \<open>a[href$=".html"]\<close>, provided the page has a \<open>.page-transition\<close> element. The
  listener lets hrefs starting with \<open>http\<close> or \<open>#\<close> through to the browser's default
  navigation; for every other one it cancels the default and starts a 600 ms GSAP
  tween of the overlay whose \<open>onComplete\<close> assigns \<open>window.location.href\<close>.

  The model keeps the GSAP clock (in ms), the \<open>onComplete\<close> callbacks of the cover
  tweens still running (their completion time and the href they navigate to) and the
  location the page has been sent to. The ticker fires every tween whose end time
  has been reached, in the order they were started; GSAP's default \<open>overwrite: false\<close>
  lets several cover tweens run side by side. A default navigation is taken to
  happen at once.

  The overlay's vertical position (in per cent of its height) is written by the
  tweens of \<open>y\<close> started on it: the reveal that \<open>initPageTransitions\<close> plays on
  every page load, when \<open>initApp\<close> calls it after \<open>DOMContentLoaded\<close> (to
  \<open>-100%\<close>, over 600 ms after a 100 ms delay), and the cover
  tween of every intercepted click (to 0). A page that the browser restores from
  its back/forward cache (\<open>pageshow\<close> with \<open>persisted\<close>) comes back as it was left,
  and no \<open>DOMContentLoaded\<close> fires: the script has no \<open>pageshow\<close> listener.
\<close>

definition transition_duration :: ms where
  "transition_duration = 600"

definition has_link_listener :: "string \<Rightarrow> bool" where
  "has_link_listener href \<longleftrightarrow> ends_with href ''.html''"

definition skips_transition :: "string \<Rightarrow> bool" where
  "skips_transition href \<longleftrightarrow> starts_with href ''http'' \<or> starts_with href ''#''"

definition intercepted :: "bool \<Rightarrow> string \<Rightarrow> bool" where
  "intercepted has_transition href \<longleftrightarrow>
     has_transition \<and> has_link_listener href \<and> \<not> skips_transition href"

record page_state =
  clock :: ms
  pending :: "(ms \<times> string) list"
  location :: string
  ov_tweens :: "(ms \<times> ms \<times> real) list"

datatype page_event = PageLoad | LinkClick string | Tick ms | BfcacheRestore string

definition reveal_delay :: ms where
  "reveal_delay = 100"

text \<open>The reveal tween of \<open>initPageTransitions\<close>, without a \<open>.page-transition\<close>
  element nothing.\<close>

definition page_load_reveal :: "bool \<Rightarrow> page_state \<Rightarrow> page_state" where
  "page_load_reveal has_transition s =
     (if has_transition then s\<lparr>ov_tweens := ov_tweens s @ [(clock s + reveal_delay, transition_duration, -100)]\<rparr>
      else s)"

definition link_click :: "bool \<Rightarrow> string \<Rightarrow> page_state \<Rightarrow> page_state" where
  "link_click has_transition href s =
     (if intercepted has_transition href
      then s\<lparr>pending := pending s @ [(clock s + transition_duration, href)],
             ov_tweens := ov_tweens s @ [(clock s, transition_duration, 0)]\<rparr>
      else s\<lparr>location := href\<rparr>)"

fun fire_due :: "ms \<Rightarrow> (ms \<times> string) list \<Rightarrow> string \<Rightarrow> string" where
  "fire_due t [] loc = loc"
| "fire_due t ((d, h) # ps) loc = fire_due t ps (if d \<le> t then h else loc)"

definition tick :: "ms \<Rightarrow> page_state \<Rightarrow> page_state" where
  "tick dt s =
     (let t = clock s + dt
      in s\<lparr>clock := t, location := fire_due t (pending s) (location s),
           pending := filter (\<lambda>(d, h). t < d) (pending s)\<rparr>)"

fun page_step :: "bool \<Rightarrow> page_state \<Rightarrow> page_event \<Rightarrow> page_state" where
  "page_step ht s PageLoad = page_load_reveal ht s"
| "page_step ht s (LinkClick href) = link_click ht href s"
| "page_step ht s (Tick dt) = tick dt s"
| "page_step ht s (BfcacheRestore loc) = s\<lparr>location := loc\<rparr>"

fun page_run :: "bool \<Rightarrow> page_state \<Rightarrow> page_event list \<Rightarrow> page_state" where
  "page_run ht s [] = s"
| "page_run ht s (e # es) = page_run ht (page_step ht s e) es"

text \<open>Where the overlay rests once its tweens have finished, \<open>y0\<close> being its position
  before any of them.\<close>

definition overlay_settled :: "real \<Rightarrow> page_state \<Rightarrow> real" where
  "overlay_settled y0 s = last_finished y0 0 (ov_tweens s)"

declare link_click_def [handler_defs] tick_def [handler_defs]

lemma ticks_idle: "pending s = [] \<Longrightarrow> location (page_run ht s (map Tick ds)) = location s
                   \<and> pending (page_run ht s (map Tick ds)) = []"
  by (induction ds arbitrary: s) (simp_all add: tick_def Let_def)

lemma ticks_one_pending:
  assumes "pending s = [(D, h)]" and "clock s < D" and "list_all (\<lambda>d. 0 \<le> d) ds"
  shows "location (page_run ht s (map Tick ds))
         = (if clock s + sum_list ds < D then location s else h)"
  using assms
proof (induction ds arbitrary: s)
  case Nil
  then show ?case by simp
next
  case (Cons d ds)
  let ?s' = "tick d s"
  show ?case
  proof (cases "clock s + d < D")
    case True
    then have p: "pending ?s' = [(D, h)]" and l: "location ?s' = location s"
      and c: "clock ?s' = clock s + d"
      using Cons.prems by (simp_all add: tick_def Let_def)
    have "list_all (\<lambda>d. 0 \<le> d) ds" using Cons.prems(3) by simp
    with p c True have "location (page_run ht ?s' (map Tick ds))
        = (if clock ?s' + sum_list ds < D then location ?s' else h)"
      by (intro Cons.IH) simp_all
    with l c show ?thesis by (simp add: add.assoc)
  next
    case False
    then have "pending ?s' = []" "location ?s' = h"
      using Cons.prems by (simp_all add: tick_def Let_def)
    moreover have "0 \<le> sum_list ds"
      using Cons.prems(3) by (simp add: sum_list_nonneg list_all_iff)
    ultimately show ?thesis
      using False ticks_idle [of ?s' ht ds] by simp
  qed
qed

subsection \<open>Properties\<close>

text \<open>
  C8 (safety and liveness). A click on an intercepted link (a relative \<open>.html\<close> href,
  on a page with the overlay) does not navigate while the 600 ms cover animation
  runs, and navigates to that href as soon as the GSAP clock has advanced by
  600 ms: the location after any sequence of non-negative ticks is the old one
  while their sum is below 600 and the clicked href from then on.
\<close>

theorem intercepted_click_navigates_after_cover:
  assumes "intercepted True h" and "pending s = []" and "list_all (\<lambda>d. 0 \<le> d) ds"
  shows "location (page_run True s (LinkClick h # map Tick ds))
         = (if sum_list ds < 600 then location s else h)"
proof -
  let ?s1 = "link_click True h s"
  have "pending ?s1 = [(clock s + 600, h)]" "clock ?s1 = clock s" "location ?s1 = location s"
    using assms(1,2) by (simp_all add: link_click_def transition_duration_def)
  then show ?thesis
    using ticks_one_pending [of ?s1 "clock s + 600" h ds True] assms(3) by simp
qed

theorem intercepted_click_navigates_after_cover_witness:
  "intercepted True ''about.html''
   \<and> pending \<lparr>clock = 0, pending = [], location = ''index.html'', ov_tweens = []\<rparr> = []
   \<and> list_all (\<lambda>d. 0 \<le> d) [300 :: ms, 300]
   \<and> location (page_run True \<lparr>clock = 0, pending = [], location = ''index.html'', ov_tweens = []\<rparr>
        (LinkClick ''about.html'' # map Tick [300, 300])) = ''about.html''"
proof -
  have i: "intercepted True ''about.html''"
    by (simp add: intercepted_def has_link_listener_def skips_transition_def ends_with_def)
  show ?thesis
    using i intercepted_click_navigates_after_cover [OF i,
        of "\<lparr>clock = 0, pending = [], location = ''index.html'', ov_tweens = []\<rparr>" "[300, 300]"]
    by simp
qed

text \<open>
  Links whose href starts with \<open>http\<close> or \<open>#\<close> are left to the
  browser: the click navigates at once and starts no cover animation, whether or
  not the page has the overlay.
\<close>

theorem skipped_link_navigates_at_once:
  assumes "starts_with h ''http'' \<or> starts_with h ''#''"
  shows "location (page_step ht s (LinkClick h)) = h \<and> pending (page_step ht s (LinkClick h)) = pending s"
  using assms by (auto simp: link_click_def intercepted_def skips_transition_def)

theorem skipped_link_navigates_at_once_witness:
  "(starts_with ''#team'' ''http'' \<or> starts_with ''#team'' ''#'')
   \<and> location (page_step True \<lparr>clock = 5, pending = [], location = ''index.html'', ov_tweens = []\<rparr>
         (LinkClick ''#team'')) = ''#team''
   \<and> pending (page_step True \<lparr>clock = 5, pending = [], location = ''index.html'', ov_tweens = []\<rparr>
         (LinkClick ''#team'')) = []"
  using skipped_link_navigates_at_once [of "''#team''" True
      "\<lparr>clock = 5, pending = [], location = ''index.html'', ov_tweens = []\<rparr>"]
  by simp

text \<open>
  The interception test is a string test on the raw href, not a URL
  parse: a relative page whose name starts with \<open>http\<close> is not intercepted, a
  protocol-relative external link ending in \<open>.html\<close> is, and a page link with a
  query string or a fragment after \<open>.html\<close>, or an upper-case suffix, gets no
  listener at all.
\<close>

theorem interception_is_a_string_test:
  "\<not> intercepted True ''http-guide.html''
   \<and> intercepted True ''//cdn.example.com/offer.html''
   \<and> \<not> intercepted True ''about.html?ref=nav''
   \<and> \<not> intercepted True ''about.html#team''
   \<and> \<not> intercepted True ''ABOUT.HTML''
   \<and> intercepted True ''about.html''"
  by (simp add: intercepted_def has_link_listener_def skips_transition_def ends_with_def)

text \<open>
  C9 (safety, finding). A page left through an intercepted link and brought back
  from the back/forward cache stays covered: after the load reveal, a click at
  least 100 ms later, and the 600 ms cover, the browser is at the clicked href;
  once the old page is restored its overlay rests at \<open>y = 0\<close>, over the whole
  page, since only the \<open>DOMContentLoaded\<close> of a fresh load would play the reveal
  again. A click within the first 100 ms leaves the reveal finishing last.
\<close>

theorem bfcache_restore_leaves_overlay_covering:
  assumes "intercepted True h" and "pending s = []" and "ov_tweens s = []"
    and "0 \<le> clock s" and "0 \<le> d"
  shows "location (page_run True s [PageLoad, Tick d, LinkClick h, Tick 600]) = h
         \<and> (let s' = page_run True s [PageLoad, Tick d, LinkClick h, Tick 600, BfcacheRestore (location s)]
            in location s' = location s \<and> pending s' = []
               \<and> overlay_settled y0 s' = (if reveal_delay \<le> d then 0 else -100)
               \<and> overlay_settled y0 (page_step True s' PageLoad) = -100)"
  using assms
  by (simp add: page_load_reveal_def link_click_def tick_def Let_def overlay_settled_def
      reveal_delay_def transition_duration_def)

theorem bfcache_restore_leaves_overlay_covering_witness:
  "intercepted True ''about.html''
   \<and> location (page_run True \<lparr>clock = 0, pending = [], location = ''index.html'', ov_tweens = []\<rparr>
        [PageLoad, Tick 2000, LinkClick ''about.html'', Tick 600, BfcacheRestore ''index.html'']) = ''index.html''
   \<and> overlay_settled (-100) (page_run True \<lparr>clock = 0, pending = [], location = ''index.html'', ov_tweens = []\<rparr>
        [PageLoad, Tick 2000, LinkClick ''about.html'', Tick 600, BfcacheRestore ''index.html'']) = 0"
proof -
  have i: "intercepted True ''about.html''"
    by (simp add: intercepted_def has_link_listener_def skips_transition_def ends_with_def)
  show ?thesis
    using i bfcache_restore_leaves_overlay_covering [OF i,
        of "\<lparr>clock = 0, pending = [], location = ''index.html'', ov_tweens = []\<rparr>" 2000 "-100"]
    by (simp add: reveal_delay_def Let_def)
qed

end
