(* ===== verification/Timeline.thy ===== *)
theory Timeline
  imports Prelude
begin

text \<open>
  GSAP timelines as the scripts build them, and the two one-shot sequences of
  \<^verbatim>\<open>src/script.js\<close> written with them: the preloader (\<open>initPreloader\<close>, lines
  322--378) and the hero entrance (\<open>initHeroAnimations\<close>, lines 510--546).

  A timeline is a list of tweens appended with \<open>.to\<close> (or \<open>.set\<close>, a tween of
  duration 0). Each tween carries its position parameter: none (placed at the end
  of the timeline), \<open>'-=d'\<close> (d before the end) or \<open>'+=d'\<close> (d after the end), where
  the end is the latest end time of the tweens placed so far. A tween over \<open>n\<close>
  targets with a \<open>stagger\<close> of \<open>g\<close> starts its last target \<open>(n - 1) * g\<close> after its
  first. Times are integer milliseconds, so every literal of the source is exact.
  Placing a tween at a negative time (possible in the hero sequence when the
  eyebrow is missing) is left as the code writes it: what GSAP then does to its
  children is library behaviour outside this model.
\<close>

datatype position = AtEnd | EndMinus ms | EndPlus ms

datatype tl_target = PreloaderLogo | PreloaderText | PreloaderBarFill | PreloaderEl
  | HeroEyebrow | HeroBanner | HeroTitle | HeroTitleSpans | HeroSubtitle | HeroCta
  | ScrollIndicator

datatype tl_prop = Opacity | Width | YPercent | Scale | YOffset | Display

datatype tl_value = Num int | Pct int | Keyword string

record tween =
  tw_targets :: "tl_target list"
  tw_props :: "(tl_prop \<times> tl_value) list"
  tw_dur :: ms
  tw_pos :: position
  tw_count :: nat
  tw_stagger :: ms
  tw_text :: "string option"

definition to :: "tl_target list \<Rightarrow> (tl_prop \<times> tl_value) list \<Rightarrow> ms \<Rightarrow> position \<Rightarrow> tween" where
  "to ts ps d pos = \<lparr>tw_targets = ts, tw_props = ps, tw_dur = d, tw_pos = pos,
                     tw_count = 1, tw_stagger = 0, tw_text = None\<rparr>"

text \<open>Time from the first target's start to the last target's end.\<close>

definition span :: "tween \<Rightarrow> ms" where
  "span t = tw_dur t + int (tw_count t - 1) * tw_stagger t"

fun place :: "ms \<Rightarrow> position \<Rightarrow> ms" where
  "place e AtEnd = e"
| "place e (EndMinus d) = e - d"
| "place e (EndPlus d) = e + d"

text \<open>\<open>schedule e ts\<close>: the start time of each tween, \<open>e\<close> being the end of the
  timeline before them.\<close>

fun schedule :: "ms \<Rightarrow> tween list \<Rightarrow> (ms \<times> tween) list" where
  "schedule e [] = []"
| "schedule e (t # ts) =
     (let s = place e (tw_pos t) in (s, t) # schedule (max e (s + span t)) ts)"

fun tl_end :: "ms \<Rightarrow> tween list \<Rightarrow> ms" where
  "tl_end e [] = e"
| "tl_end e (t # ts) = tl_end (max e (place e (tw_pos t) + span t)) ts"

text \<open>The instants at which an \<open>onComplete\<close> writes the text of the preloader, with
  the string it writes.\<close>

definition text_writes :: "(ms \<times> tween) list \<Rightarrow> (ms \<times> string) list" where
  "text_writes sched =
     List.map_filter (\<lambda>(s, t). map_option (\<lambda>x. (s + span t, x)) (tw_text t)) sched"

subsection \<open>The preloader\<close>

definition loadingTexts :: "string list" where
  "loadingTexts = [''Descending...'', ''Awakening...'', ''Unearthing...'', ''Enter...'']"

definition fade_text_to :: "string \<Rightarrow> tween" where
  "fade_text_to txt = (to [PreloaderText] [(Opacity, Num 0)] 200 AtEnd)\<lparr>tw_text := Some txt\<rparr>"

definition bar_to :: "int \<Rightarrow> ms \<Rightarrow> tween" where
  "bar_to w d = to [PreloaderBarFill] [(Width, Pct w)] d AtEnd"

definition preloader_timeline :: "tween list" where
  "preloader_timeline =
     [to [PreloaderLogo] [(Opacity, Num 1)] 500 AtEnd,
      to [PreloaderText] [(Opacity, Num 1)] 400 (EndMinus 200),
      bar_to 25 800,
      fade_text_to (loadingTexts ! 1),
      to [PreloaderText] [(Opacity, Num 1)] 200 AtEnd,
      bar_to 50 600,
      fade_text_to (loadingTexts ! 2),
      to [PreloaderText] [(Opacity, Num 1)] 200 AtEnd,
      bar_to 80 500,
      fade_text_to (loadingTexts ! 3),
      to [PreloaderText] [(Opacity, Num 1)] 200 AtEnd,
      bar_to 100 300,
      to [PreloaderText, PreloaderLogo] [(Opacity, Num 0)] 400 (EndPlus 300),
      to [PreloaderEl] [(YPercent, Num (-100))] 1000 AtEnd,
      to [PreloaderEl] [(Display, Keyword ''none'')] 0 AtEnd]"

definition bar_widths :: "tween list \<Rightarrow> int list" where
  "bar_widths ts = List.map_filter (\<lambda>t. case tw_props t of [(Width, Pct w)] \<Rightarrow> Some w | _ \<Rightarrow> None) ts"

subsection \<open>The hero entrance\<close>

text \<open>Each tween is added only when its element exists; the title is animated word
  by word (its \<open>span\<close> children, staggered by 150 ms) when it has any, as one block
  otherwise. The timeline itself starts after a delay of 200 ms.\<close>

definition hero_delay :: ms where
  "hero_delay = 200"

definition hero_title_tween :: "nat \<Rightarrow> tween" where
  "hero_title_tween spans =
     (if spans \<noteq> 0
      then (to [HeroTitleSpans] [(Opacity, Num 1), (YOffset, Num 0)] 1000 (EndMinus 800))
             \<lparr>tw_count := spans, tw_stagger := 150\<rparr>
      else to [HeroTitle] [(Opacity, Num 1), (YOffset, Num 0)] 1000 (EndMinus 800))"

definition hero_timeline :: "bool \<Rightarrow> bool \<Rightarrow> bool \<Rightarrow> nat \<Rightarrow> bool \<Rightarrow> bool \<Rightarrow> bool \<Rightarrow> tween list" where
  "hero_timeline eyebrow banner title spans subtitle cta indicator =
     (if eyebrow then [to [HeroEyebrow] [(Opacity, Num 1), (YOffset, Num 0)] 800 AtEnd] else [])
     @ (if banner then [to [HeroBanner] [(Opacity, Num 1), (Scale, Num 1)] 1200 (EndMinus 400)] else [])
     @ (if title then [hero_title_tween spans] else [])
     @ (if subtitle then [to [HeroSubtitle] [(Opacity, Num 1), (YOffset, Num 0)] 800 (EndMinus 500)] else [])
     @ (if cta then [to [HeroCta] [(Opacity, Num 1), (YOffset, Num 0)] 600 (EndMinus 300)] else [])
     @ (if indicator then [to [ScrollIndicator] [(Opacity, Num 1)] 800 (EndMinus 200)] else [])"

text \<open>Two tweens conflict when they animate the same property of the same target
  during overlapping intervals.\<close>

definition conflict :: "ms \<times> tween \<Rightarrow> ms \<times> tween \<Rightarrow> bool" where
  "conflict a b \<longleftrightarrow>
     list_ex (\<lambda>x. x \<in> set (tw_targets (snd b))) (tw_targets (snd a))
     \<and> list_ex (\<lambda>p. p \<in> set (map fst (tw_props (snd b)))) (map fst (tw_props (snd a)))
     \<and> fst a < fst b + span (snd b) \<and> fst b < fst a + span (snd a)"

fun no_conflicts :: "(ms \<times> tween) list \<Rightarrow> bool" where
  "no_conflicts [] = True"
| "no_conflicts (a # as) = (list_all (\<lambda>b. \<not> conflict a b) as \<and> no_conflicts as)"

text \<open>How far before the current end a position parameter places a tween.\<close>

fun back_offset :: "position \<Rightarrow> ms" where
  "back_offset AtEnd = 0"
| "back_offset (EndMinus d) = d"
| "back_offset (EndPlus d) = - d"

declare to_def [simp] span_def [simp]

lemma place_back_offset: "place e p = e - back_offset p"
  by (cases p) simp_all

lemma schedule_tweens: "map snd (schedule e ts) = ts"
  by (induction ts arbitrary: e) (simp_all add: Let_def)

lemma schedule_start_ge: "(x, u) \<in> set (schedule e ts) \<Longrightarrow> e - back_offset (tw_pos u) \<le> x"
proof (induction ts arbitrary: e)
  case Nil
  then show ?case by simp
next
  case (Cons t ts)
  let ?e' = "max e (place e (tw_pos t) + span t)"
  from Cons.prems have "(x, u) = (place e (tw_pos t), t) \<or> (x, u) \<in> set (schedule ?e' ts)"
    by (simp add: Let_def del: span_def)
  then show ?case
  proof
    assume "(x, u) = (place e (tw_pos t), t)"
    then show ?thesis by (simp add: place_back_offset)
  next
    assume "(x, u) \<in> set (schedule ?e' ts)"
    from Cons.IH [OF this] show ?thesis by linarith
  qed
qed

text \<open>A timeline's tweens start in the order they were added when no tween is placed
  further back than the span of any tween added before it.\<close>

lemma schedule_sorted:
  "sorted_wrt (\<lambda>a b. back_offset (tw_pos b) \<le> span a) ts \<Longrightarrow> sorted (map fst (schedule e ts))"
proof (induction ts arbitrary: e)
  case Nil
  then show ?case by simp
next
  case (Cons t ts)
  let ?e' = "max e (place e (tw_pos t) + span t)"
  have "place e (tw_pos t) \<le> x" if "(x, u) \<in> set (schedule ?e' ts)" for x u
  proof -
    have "?e' - back_offset (tw_pos u) \<le> x" using schedule_start_ge [OF that] .
    moreover have "u \<in> set ts"
      using that schedule_tweens [of ?e' ts] by (metis image_eqI set_map snd_conv)
    then have "back_offset (tw_pos u) \<le> span t"
      using Cons.prems by simp
    ultimately show ?thesis by linarith
  qed
  then show ?case using Cons by (auto simp: Let_def simp del: span_def)
qed

lemma schedule_append:
  "schedule e (xs @ ys) = schedule e xs @ schedule (tl_end e xs) ys"
  by (induction xs arbitrary: e) (simp_all add: Let_def)

lemma tl_end_append: "tl_end e (xs @ ys) = tl_end (tl_end e xs) ys"
  by (induction xs arbitrary: e) simp_all

lemma preloader_timeline_end: "tl_end 0 preloader_timeline = 5800"
  by code_simp

subsection \<open>Properties\<close>

text \<open>
  The preloader timeline runs for 5.8 s, after which its
  \<open>onComplete\<close> calls the callback; its \<open>onComplete\<close> handlers write the status
  strings \<open>Awakening...\<close>, \<open>Unearthing...\<close> and \<open>Enter...\<close> at 1.7 s, 2.7 s and 3.6 s;
  the bar is widened to 25, 50, 80 and 100 per cent in that order; and no two of
  its tweens animate the same property of the same element at the same time.
\<close>

theorem preloader_sequence:
  "tl_end 0 preloader_timeline = 5800
   \<and> text_writes (schedule 0 preloader_timeline)
       = [(1700, ''Awakening...''), (2700, ''Unearthing...''), (3600, ''Enter...'')]
   \<and> bar_widths preloader_timeline = [25, 50, 80, 100]
   \<and> no_conflicts (schedule 0 preloader_timeline)"
  by code_simp

text \<open>
  The first of the four status strings,
  \<open>loadingTexts[0] = "Descending..."\<close>, is never written by the script: the
  text element shows whatever the markup holds until the first write at 1.7 s.
\<close>

theorem preloader_never_writes_first_text:
  "loadingTexts ! 0 \<notin> snd ` set (text_writes (schedule 0 preloader_timeline))"
  by code_simp

text \<open>
  C10 (safety, ordering). Whichever hero elements the page has and however many
  words the title is split into, the entrance tweens start in the order the code
  adds them (eyebrow, banner, title, subtitle, call to action, scroll indicator):
  the literal overlaps never make a later element start before an earlier one.
\<close>

theorem hero_entrance_in_order:
  "sorted (map fst (schedule 0 (hero_timeline eyebrow banner title spans subtitle cta indicator)))"
  by (rule schedule_sorted) (simp add: hero_timeline_def hero_title_tween_def sorted_wrt_append)

text \<open>
  C11 (functional). With every hero element present and the title split into
  \<open>n\<close> words, the entrance ends 3.2 s after the timeline is created (200 ms delay,
  then 3 s), plus 150 ms for each word after the first.
\<close>

theorem hero_entrance_duration:
  "hero_delay + tl_end 0 (hero_timeline True True True n True True True)
   = 3200 + 150 * int (n - 1)"
  by (simp add: hero_timeline_def hero_title_tween_def hero_delay_def)

end
