(* ===== verification/Boot.thy ===== *)
theory Boot
  imports Timeline
begin

text \<open>
  Start-up of \<^verbatim>\<open>src/script.js\<close>: the top-level first-load check (lines 672--680),
  \<open>initApp\<close> (649--670) and the control flow of \<open>initPreloader\<close> (322--344). The
  session storage is the one key \<open>visited\<close>; a page load reads it, writes it on a
  first load, and calls \<open>initApp\<close> at \<open>DOMContentLoaded\<close>. The effect of a load is
  its trace: the initialisers it calls, each with its time in ms after
  \<open>DOMContentLoaded\<close>. The four effects that wait for the preloader run from the
  timeline's \<open>onComplete\<close>, at its end time (\<open>tl_end 0 preloader_timeline\<close>).
\<close>

record session =
  visited :: "string option"

datatype init_call = InitLenis | InitThreeJS | InitCursor | InitMobileNav | InitResizeHandler
  | InitVisibilityHandler | PlayPreloader | InitScrollAnimations | InitHeroAnimations
  | InitMagneticButtons | InitPageTransitions

type_synonym boot_trace = "(ms \<times> init_call) list"

definition base_inits :: "init_call list" where
  "base_inits = [InitLenis, InitThreeJS, InitCursor, InitMobileNav, InitResizeHandler,
                 InitVisibilityHandler]"

definition deferred_inits :: "init_call list" where
  "deferred_inits = [InitScrollAnimations, InitHeroAnimations, InitMagneticButtons,
                     InitPageTransitions]"

text \<open>Without a \<open>.preloader\<close> element the callback runs at once; otherwise the
  timeline plays and calls it from its \<open>onComplete\<close>.\<close>

definition initPreloader :: "bool \<Rightarrow> init_call list \<Rightarrow> boot_trace" where
  "initPreloader has_preloader callback =
     (if \<not> has_preloader then map (Pair 0) callback
      else (0, PlayPreloader) # map (Pair (tl_end 0 preloader_timeline)) callback)"

definition initApp :: "bool \<Rightarrow> bool \<Rightarrow> boot_trace" where
  "initApp skipPreloader has_preloader =
     map (Pair 0) base_inits
     @ (if skipPreloader then map (Pair 0) deferred_inits
        else initPreloader has_preloader deferred_inits)"

text \<open>\<open>!sessionStorage.getItem('visited')\<close>: a missing key and the empty string are
  both falsy.\<close>

definition isFirstLoad :: "session \<Rightarrow> bool" where
  "isFirstLoad st \<longleftrightarrow> (case visited st of None \<Rightarrow> True | Some v \<Rightarrow> v = '''')"

definition page_load :: "session \<Rightarrow> bool \<Rightarrow> session \<times> boot_trace" where
  "page_load st has_preloader =
     (if \<not> isFirstLoad st then (st, initApp True has_preloader)
      else (st\<lparr>visited := Some ''true''\<rparr>, initApp False has_preloader))"

fun session_run :: "session \<Rightarrow> bool list \<Rightarrow> boot_trace list" where
  "session_run st [] = []"
| "session_run st (p # ps) = (let (st', tr) = page_load st p in tr # session_run st' ps)"

definition plays_preloader :: "boot_trace \<Rightarrow> bool" where
  "plays_preloader tr \<longleftrightarrow> (0, PlayPreloader) \<in> set tr"

subsection \<open>Exceptions\<close>

text \<open>
  Two things can throw during start-up. Reading \<open>sessionStorage\<close> raises a
  \<open>SecurityError\<close> where the browser denies storage to the page; the top-level
  code then stops before registering its \<open>DOMContentLoaded\<close> listener. An
  initialiser that dereferences a library global the page did not load raises a
  \<open>ReferenceError\<close>; the exception leaves the listener (or the timeline's
  \<open>onComplete\<close>) that called it, so the initialisers after it in the same call never
  run. \<open>init_globals\<close> lists, in evaluation order, the globals each initialiser
  dereferences unconditionally once its element guards have passed.
\<close>

datatype js_error = SecurityError | ReferenceError string

record page_env =
  globals :: "string list"
  has_canvas :: bool
  has_transition :: bool

definition init_globals :: "page_env \<Rightarrow> init_call \<Rightarrow> string list" where
  "init_globals env c =
     (case c of
        InitLenis \<Rightarrow> [''Lenis'', ''ScrollTrigger'', ''gsap'']
      | InitThreeJS \<Rightarrow> (if has_canvas env then [''THREE''] else [])
      | PlayPreloader \<Rightarrow> [''gsap'']
      | InitScrollAnimations \<Rightarrow> [''gsap'', ''ScrollTrigger'']
      | InitHeroAnimations \<Rightarrow> [''gsap'']
      | InitPageTransitions \<Rightarrow> (if has_transition env then [''gsap''] else [])
      | _ \<Rightarrow> [])"

definition call_init :: "page_env \<Rightarrow> init_call \<Rightarrow> js_error option" where
  "call_init env c = map_option ReferenceError (find (\<lambda>g. g \<notin> set (globals env)) (init_globals env c))"

text \<open>The calls of one callback, in order, up to the first that throws.\<close>

fun run_batch :: "page_env \<Rightarrow> (ms \<times> init_call) list \<Rightarrow> boot_trace \<times> js_error option" where
  "run_batch env [] = ([], None)"
| "run_batch env ((t, c) # cs) =
     (case call_init env c of
        Some e \<Rightarrow> ([], Some e)
      | None \<Rightarrow> (let (tr, err) = run_batch env cs in ((t, c) # tr, err)))"

text \<open>\<open>initApp\<close> with exceptions: the \<open>DOMContentLoaded\<close> callback, and, when the
  preloader plays, the timeline's \<open>onComplete\<close> as a second callback that runs
  only if the first one got as far as building the timeline. The result is the
  calls made and the exceptions raised (reported to the console).\<close>

definition initApp_checked :: "page_env \<Rightarrow> bool \<Rightarrow> bool \<Rightarrow> boot_trace \<times> js_error list" where
  "initApp_checked env skipPreloader has_preloader =
     (if skipPreloader \<or> \<not> has_preloader
      then (let (tr, err) = run_batch env (map (Pair 0) (base_inits @ deferred_inits))
            in (tr, case err of None \<Rightarrow> [] | Some e \<Rightarrow> [e]))
      else (case run_batch env (map (Pair 0) (base_inits @ [PlayPreloader])) of
              (tr, Some e) \<Rightarrow> (tr, [e])
            | (tr, None) \<Rightarrow>
                (let (tr2, err2) = run_batch env (map (Pair (tl_end 0 preloader_timeline)) deferred_inits)
                 in (tr @ tr2, case err2 of None \<Rightarrow> [] | Some e \<Rightarrow> [e]))))"

text \<open>A page load: \<open>Inl\<close> when the top-level code itself throws.\<close>

definition page_load_checked :: "page_env \<Rightarrow> bool \<Rightarrow> session \<Rightarrow> bool
                                  \<Rightarrow> js_error + session \<times> boot_trace \<times> js_error list" where
  "page_load_checked env storage_ok st has_preloader =
     (if \<not> storage_ok then Inl SecurityError
      else if \<not> isFirstLoad st then Inr (st, initApp_checked env True has_preloader)
      else Inr (st\<lparr>visited := Some ''true''\<rparr>, initApp_checked env False has_preloader))"

lemma visited_session_never_plays:
  "\<not> isFirstLoad st \<Longrightarrow> list_all (\<lambda>tr. \<not> plays_preloader tr) (session_run st ps)"
proof (induction ps)
  case Nil
  then show ?case by simp
next
  case (Cons p ps)
  then show ?case
    by (simp add: page_load_def initApp_def plays_preloader_def base_inits_def deferred_inits_def)
qed

lemma page_load_sets_visited: "\<not> isFirstLoad (fst (page_load st p))"
  by (simp add: page_load_def isFirstLoad_def split: option.splits)

lemma initApp_calls:
  "map snd (initApp skip p)
   = base_inits @ (if \<not> skip \<and> p then [PlayPreloader] else []) @ deferred_inits"
  by (simp add: initApp_def initPreloader_def comp_def)

lemma run_batch_ok:
  "list_all (\<lambda>(t, c). call_init env c = None) cs \<Longrightarrow> run_batch env cs = (cs, None)"
  by (induction cs) auto

lemma call_init_all_loaded:
  "set [''Lenis'', ''ScrollTrigger'', ''gsap'', ''THREE''] \<subseteq> set (globals env) \<Longrightarrow> call_init env c = None"
  by (cases c) (auto simp: call_init_def init_globals_def find_None_iff)

lemma initApp_checked_loaded:
  assumes "set [''Lenis'', ''ScrollTrigger'', ''gsap'', ''THREE''] \<subseteq> set (globals env)"
  shows "initApp_checked env skip p = (initApp skip p, [])"
proof -
  have "\<And>cs. run_batch env cs = (cs, None)"
    using call_init_all_loaded [OF assms] by (intro run_batch_ok) (simp add: list_all_iff split_beta)
  then show ?thesis by (simp add: initApp_checked_def initApp_def initPreloader_def)
qed

lemma initApp_checked_no_lenis:
  "''Lenis'' \<notin> set (globals env) \<Longrightarrow> initApp_checked env skip p = ([], [ReferenceError ''Lenis''])"
  by (simp add: initApp_checked_def base_inits_def call_init_def init_globals_def)

subsection \<open>Properties\<close>

text \<open>
  C12 (safety). Over any sequence of page loads in a fresh browsing session, the
  preloader plays at most once, and it plays exactly when the first page loaded has
  a \<open>.preloader\<close> element: the first load sets the flag whether or not it plays,
  so a session whose first page has no preloader never shows it.
\<close>

theorem preloader_once_per_session:
  "length (filter plays_preloader (session_run \<lparr>visited = None\<rparr> ps))
   = (if ps \<noteq> [] \<and> hd ps then 1 else 0)"
proof (cases ps)
  case Nil
  then show ?thesis by simp
next
  case (Cons p ps')
  let ?st = "fst (page_load \<lparr>visited = None\<rparr> p)"
  have rest: "filter plays_preloader (session_run ?st ps') = []"
    using visited_session_never_plays [OF page_load_sets_visited, of "\<lparr>visited = None\<rparr>" p ps']
    by (simp add: filter_empty_conv list_all_iff)
  have first: "plays_preloader (snd (page_load \<lparr>visited = None\<rparr> p)) \<longleftrightarrow> p"
    by (simp add: page_load_def isFirstLoad_def initApp_def initPreloader_def
                  plays_preloader_def base_inits_def deferred_inits_def)
  have "session_run \<lparr>visited = None\<rparr> ps
        = snd (page_load \<lparr>visited = None\<rparr> p) # session_run ?st ps'"
    using Cons by (simp add: case_prod_beta)
  then have "length (filter plays_preloader (session_run \<lparr>visited = None\<rparr> ps))
             = (if plays_preloader (snd (page_load \<lparr>visited = None\<rparr> p)) then 1 else 0)"
    using rest by simp
  then show ?thesis
    using Cons first by simp
qed

text \<open>
  C13 (functional). Every page load calls the six base initialisers, then the four
  scroll, hero, magnetic and page-transition initialisers exactly once each, in
  that order; these four run at \<open>DOMContentLoaded\<close> on a repeat visit or when the
  page has no preloader, and 5.8 s later, once the preloader timeline completes,
  on a first visit to a page with one.
\<close>

theorem page_load_trace:
  "map snd (snd (page_load st p))
     = base_inits @ (if isFirstLoad st \<and> p then [PlayPreloader] else []) @ deferred_inits
   \<and> filter (\<lambda>(t, c). c \<in> set deferred_inits) (snd (page_load st p))
     = map (Pair (if isFirstLoad st \<and> p then 5800 else 0)) deferred_inits"
  by (simp add: page_load_def initApp_calls initApp_def initPreloader_def preloader_timeline_end
                base_inits_def deferred_inits_def)

text \<open>
  C14 (error). Start-up under failure. Where the browser denies session storage,
  loading a page raises a \<open>SecurityError\<close> at the top level and no initialiser
  ever runs. With Lenis, ScrollTrigger, GSAP and Three.js loaded nothing throws
  and the load is exactly the one of \<open>page_load\<close>. Without the Lenis library the
  first initialiser throws a \<open>ReferenceError\<close>, so nothing at all is initialised
  (not even the mobile menu, which needs no library), while a first load has
  still marked the session visited: the preloader is lost for the session.
\<close>

theorem boot_exceptions:
  "page_load_checked env False st p = Inl SecurityError
   \<and> (set [''Lenis'', ''ScrollTrigger'', ''gsap'', ''THREE''] \<subseteq> set (globals env)
      \<longrightarrow> page_load_checked env True st p = Inr (fst (page_load st p), snd (page_load st p), []))
   \<and> (''Lenis'' \<notin> set (globals env)
      \<longrightarrow> page_load_checked env True st p = Inr (fst (page_load st p), [], [ReferenceError ''Lenis'']))"
  by (simp add: page_load_checked_def page_load_def initApp_checked_loaded initApp_checked_no_lenis)

theorem boot_exceptions_witness:
  "''Lenis'' \<notin> set (globals \<lparr>globals = [''gsap'', ''ScrollTrigger'', ''THREE''], has_canvas = True, has_transition = True\<rparr>)
   \<and> page_load_checked \<lparr>globals = [''gsap'', ''ScrollTrigger'', ''THREE''], has_canvas = True, has_transition = True\<rparr>
       True \<lparr>visited = None\<rparr> True = Inr (\<lparr>visited = Some ''true''\<rparr>, [], [ReferenceError ''Lenis''])"
  using boot_exceptions [of "\<lparr>globals = [''gsap'', ''ScrollTrigger'', ''THREE''], has_canvas = True, has_transition = True\<rparr>"
      "\<lparr>visited = None\<rparr>" True]
  by (simp add: page_load_def isFirstLoad_def)

end
