(* ===== verification/FrameLoop.thy ===== *)
theory FrameLoop
  imports Prelude
begin

text \<open>
  The render loop of \<^verbatim>\<open>src/script.js\<close> and the handlers that feed it: the pointer
  listener of \<open>initThreeJS\<close> (lines 162--165), one call of \<open>animateThreeJS\<close>
  (171--203), the resize handler (617--631) and the visibility handler (636--644).
  The module-level variables they share (\<open>time\<close>, \<open>mouse\<close>, the camera, the
  particle and ring rotations, the shader uniforms, the renderer's size) form one
  record; \<open>window.innerWidth\<close>, \<open>innerHeight\<close> and \<open>devicePixelRatio\<close> are part of it
  because the handlers read them. JavaScript numbers are \<^typ>\<open>real\<close>s. The loop
  reschedules itself with \<open>requestAnimationFrame\<close> on every frame and never stops,
  so a run is any finite interleaving of frames and browser events; \<open>three_ready\<close>
  records whether \<open>initThreeJS\<close> found the canvas and created the camera and the
  renderer, which the resize handler checks.
\<close>

record frame_state =
  time :: real
  mouse_x :: real
  mouse_y :: real
  target_x :: real
  target_y :: real
  cam_x :: real
  cam_y :: real
  u_time :: real
  u_mouse :: "real \<times> real"
  rot_x :: real
  rot_y :: real
  ring_rot :: "real list"
  inner_w :: real
  inner_h :: real
  dpr :: real
  three_ready :: bool
  cam_aspect :: real
  render_size :: "real \<times> real"
  pixel_ratio :: real
  u_pixel_ratio :: real
  st_refreshes :: nat
  ticker_awake :: bool

datatype frame_event = Frame | MouseMove real real | Resize real real real | Visibility bool

definition mouse_smoothing :: real where "mouse_smoothing = 0.04"
definition camera_smoothing :: real where "camera_smoothing = 0.015"
definition clock_step :: real where "clock_step = 0.005"

definition mousemove_handler :: "real \<Rightarrow> real \<Rightarrow> frame_state \<Rightarrow> frame_state" where
  "mousemove_handler cx cy s =
     s\<lparr>target_x := cx / inner_w s * 2 - 1, target_y := - (cy / inner_h s) * 2 + 1\<rparr>"

definition ring_direction :: "nat \<Rightarrow> real" where
  "ring_direction i = (if i mod 2 = 0 then 1 else -1)"

definition animateThreeJS :: "frame_state \<Rightarrow> frame_state" where
  "animateThreeJS s =
     (let t = time s + clock_step;
          mx = smooth_toward mouse_smoothing (target_x s) (mouse_x s);
          my = smooth_toward mouse_smoothing (target_y s) (mouse_y s)
      in s\<lparr>time := t, mouse_x := mx, mouse_y := my,
           u_time := t, u_mouse := (mx, my),
           rot_y := t * 0.03, rot_x := sin (t * 0.08) * 0.08,
           cam_x := smooth_toward camera_smoothing (mx * 0.4) (cam_x s),
           cam_y := smooth_toward camera_smoothing (my * 0.25) (cam_y s),
           ring_rot := map (\<lambda>i. t * 0.05 * ring_direction i) [0..<length (ring_rot s)]\<rparr>)"

definition resize_handler :: "real \<Rightarrow> real \<Rightarrow> real \<Rightarrow> frame_state \<Rightarrow> frame_state" where
  "resize_handler w h r s =
     (let s1 = s\<lparr>inner_w := w, inner_h := h, dpr := r\<rparr>;
          s2 = (if three_ready s1
                then s1\<lparr>cam_aspect := w / h, render_size := (w, h), pixel_ratio := min r 2,
                        u_pixel_ratio := min r 2\<rparr>
                else s1)
      in s2\<lparr>st_refreshes := Suc (st_refreshes s2)\<rparr>)"

definition visibility_handler :: "bool \<Rightarrow> frame_state \<Rightarrow> frame_state" where
  "visibility_handler hidden s = s\<lparr>ticker_awake := \<not> hidden\<rparr>"

fun frame_step :: "frame_state \<Rightarrow> frame_event \<Rightarrow> frame_state" where
  "frame_step s Frame = animateThreeJS s"
| "frame_step s (MouseMove cx cy) = mousemove_handler cx cy s"
| "frame_step s (Resize w h r) = resize_handler w h r s"
| "frame_step s (Visibility hidden) = visibility_handler hidden s"

fun frame_run :: "frame_state \<Rightarrow> frame_event list \<Rightarrow> frame_state" where
  "frame_run s [] = s"
| "frame_run s (e # es) = frame_run (frame_step s e) es"

text \<open>What the browser guarantees of the events: a pointer position inside the
  viewport, and a viewport of positive size.\<close>

fun event_ok :: "frame_state \<Rightarrow> frame_event \<Rightarrow> bool" where
  "event_ok s (MouseMove cx cy) = (0 \<le> cx \<and> cx \<le> inner_w s \<and> 0 \<le> cy \<and> cy \<le> inner_h s)"
| "event_ok s (Resize w h r) = (0 < w \<and> 0 < h)"
| "event_ok s _ = True"

fun run_ok :: "frame_state \<Rightarrow> frame_event list \<Rightarrow> bool" where
  "run_ok s [] = True"
| "run_ok s (e # es) = (event_ok s e \<and> run_ok (frame_step s e) es)"

definition pointer_bounds :: "frame_state \<Rightarrow> bool" where
  "pointer_bounds s \<longleftrightarrow> 0 < inner_w s \<and> 0 < inner_h s
     \<and> \<bar>target_x s\<bar> \<le> 1 \<and> \<bar>target_y s\<bar> \<le> 1 \<and> \<bar>mouse_x s\<bar> \<le> 1 \<and> \<bar>mouse_y s\<bar> \<le> 1
     \<and> \<bar>cam_x s\<bar> \<le> 0.4 \<and> \<bar>cam_y s\<bar> \<le> 0.25"

text \<open>The module-level initial values (lines 36--40) together with what
  \<open>initThreeJS\<close> sets before starting the loop: a camera of aspect \<open>w / h\<close>, a
  renderer of size \<open>w \<times> h\<close> and pixel ratio \<open>min(devicePixelRatio, 2)\<close>, three
  rings.\<close>

definition initial_frame_state :: "real \<Rightarrow> real \<Rightarrow> real \<Rightarrow> frame_state" where
  "initial_frame_state w h r =
     \<lparr>time = 0, mouse_x = 0, mouse_y = 0, target_x = 0, target_y = 0, cam_x = 0, cam_y = 0,
      u_time = 0, u_mouse = (0, 0), rot_x = 0, rot_y = 0, ring_rot = [0, 0, 0],
      inner_w = w, inner_h = h, dpr = r, three_ready = True, cam_aspect = w / h,
      render_size = (w, h), pixel_ratio = min r 2, u_pixel_ratio = min r 2,
      st_refreshes = 0, ticker_awake = True\<rparr>"

declare mousemove_handler_def [handler_defs] resize_handler_def [handler_defs]
  visibility_handler_def [handler_defs]

lemma normalise_bound:
  fixes c w :: real
  assumes "0 \<le> c" "c \<le> w" "0 < w"
  shows "\<bar>c / w * 2 - 1\<bar> \<le> 1"
proof -
  have "0 \<le> c / w" using assms by (simp add: divide_nonneg_pos)
  moreover have "c / w \<le> 1" using assms by (simp add: divide_le_eq_1)
  moreover have "\<And>q::real. 0 \<le> q \<Longrightarrow> q \<le> 1 \<Longrightarrow> \<bar>q * 2 - 1\<bar> \<le> 1"
    by (simp add: abs_le_iff)
  ultimately show ?thesis by blast
qed

lemma scaled_bound: "\<bar>m\<bar> \<le> 1 \<Longrightarrow> 0 \<le> (k::real) \<Longrightarrow> \<bar>m * k\<bar> \<le> k"
  by (simp add: abs_mult mult_left_le_one_le)

lemma frame_step_bounds:
  "pointer_bounds s \<Longrightarrow> event_ok s e \<Longrightarrow> pointer_bounds (frame_step s e)"
proof (cases e)
  case Frame
  assume b: "pointer_bounds s"
  let ?mx = "smooth_toward mouse_smoothing (target_x s) (mouse_x s)"
  let ?my = "smooth_toward mouse_smoothing (target_y s) (mouse_y s)"
  have mx: "\<bar>?mx\<bar> \<le> 1" and my: "\<bar>?my\<bar> \<le> 1"
    using b by (auto simp: pointer_bounds_def mouse_smoothing_def intro!: smooth_toward_abs_le)
  have "\<bar>smooth_toward camera_smoothing (?mx * 0.4) (cam_x s)\<bar> \<le> 0.4"
    using b scaled_bound [OF mx, of "0.4"]
    by (intro smooth_toward_abs_le) (simp_all add: pointer_bounds_def camera_smoothing_def)
  moreover have "\<bar>smooth_toward camera_smoothing (?my * 0.25) (cam_y s)\<bar> \<le> 0.25"
    using b scaled_bound [OF my, of "0.25"]
    by (intro smooth_toward_abs_le) (simp_all add: pointer_bounds_def camera_smoothing_def)
  ultimately show ?thesis
    using Frame b mx my by (simp add: animateThreeJS_def Let_def pointer_bounds_def)
next
  case (MouseMove cx cy)
  assume b: "pointer_bounds s" and ok: "event_ok s e"
  have x: "\<bar>cx / inner_w s * 2 - 1\<bar> \<le> 1"
    using b ok MouseMove normalise_bound [of cx "inner_w s"] by (simp add: pointer_bounds_def)
  have "\<bar>cy / inner_h s * 2 - 1\<bar> \<le> 1"
    using b ok MouseMove normalise_bound [of cy "inner_h s"] by (simp add: pointer_bounds_def)
  then have y: "\<bar>- (cy / inner_h s) * 2 + 1\<bar> \<le> 1" by linarith
  show ?thesis
    using b x y MouseMove by (simp add: mousemove_handler_def pointer_bounds_def)
next
  case (Resize w h r)
  assume "pointer_bounds s" "event_ok s e"
  then show ?thesis using Resize by (simp add: resize_handler_def Let_def pointer_bounds_def)
next
  case (Visibility hd)
  assume "pointer_bounds s"
  then show ?thesis using Visibility by (simp add: visibility_handler_def pointer_bounds_def)
qed
lemma frame_run_bounds: "pointer_bounds s \<Longrightarrow> run_ok s es \<Longrightarrow> pointer_bounds (frame_run s es)"
  by (induction es arbitrary: s) (simp_all add: frame_step_bounds)

lemma ring_direction_Suc: "ring_direction (Suc i) = - ring_direction i"
proof -
  have "Suc i mod 2 = 0 \<longleftrightarrow> i mod 2 \<noteq> 0" by presburger
  then show ?thesis by (simp add: ring_direction_def)
qed

lemma frame_run_append: "frame_run s (xs @ ys) = frame_run (frame_run s xs) ys"
  by (induction xs arbitrary: s) simp_all

lemma frame_run_Suc_frames:
  "frame_run s (replicate (Suc n) Frame) = animateThreeJS (frame_run s (replicate n Frame))"
proof -
  have "replicate (Suc n) Frame = replicate n Frame @ [Frame]"
    by (simp add: replicate_append_same)
  then show ?thesis by (simp add: frame_run_append)
qed

lemma frames_keep_target:
  "target_x (frame_run s (replicate n Frame)) = target_x s
   \<and> target_y (frame_run s (replicate n Frame)) = target_y s"
  by (induction n) (simp_all add: frame_run_Suc_frames animateThreeJS_def Let_def del: replicate_Suc)

lemma frames_mouse_x:
  "mouse_x (frame_run s (replicate n Frame)) = smooth_iter n mouse_smoothing (target_x s) (mouse_x s)"
proof (induction n)
  case 0
  then show ?case by simp
next
  case (Suc n)
  have "smooth_iter (Suc n) k t x = smooth_toward k t (smooth_iter n k t x)" for k t x
    by (induction n arbitrary: x) simp_all
  with Suc frames_keep_target [of s n] show ?case
    by (simp add: frame_run_Suc_frames animateThreeJS_def Let_def del: replicate_Suc)
qed

lemma frames_time: "time (frame_run s (replicate n Frame)) = time s + real n * clock_step"
  by (induction n) (simp_all add: frame_run_Suc_frames animateThreeJS_def Let_def algebra_simps
                                 del: replicate_Suc)

subsection \<open>Properties\<close>

text \<open>
  C15 (bounds, invariant). With the pointer inside the viewport, the normalised
  pointer target and the smoothed pointer stay in \<open>[-1, 1]\<close> and the camera's offset
  stays within \<open>0.4\<close> horizontally and \<open>0.25\<close> vertically, through any interleaving
  of frames, pointer moves, resizes and visibility changes.
\<close>

theorem pointer_and_camera_bounded:
  assumes "pointer_bounds s" and "run_ok s es"
  shows "\<bar>target_x (frame_run s es)\<bar> \<le> 1 \<and> \<bar>target_y (frame_run s es)\<bar> \<le> 1
       \<and> \<bar>mouse_x (frame_run s es)\<bar> \<le> 1 \<and> \<bar>mouse_y (frame_run s es)\<bar> \<le> 1
       \<and> \<bar>cam_x (frame_run s es)\<bar> \<le> 0.4 \<and> \<bar>cam_y (frame_run s es)\<bar> \<le> 0.25"
  using frame_run_bounds [OF assms] by (simp add: pointer_bounds_def)

theorem pointer_and_camera_bounded_witness:
  "pointer_bounds (initial_frame_state 1280 720 1)
   \<and> run_ok (initial_frame_state 1280 720 1) [MouseMove 1280 0, Frame, Frame]
   \<and> \<bar>cam_x (frame_run (initial_frame_state 1280 720 1) [MouseMove 1280 0, Frame, Frame])\<bar> \<le> 0.4"
proof -
  have b: "pointer_bounds (initial_frame_state 1280 720 1)"
    by (simp add: pointer_bounds_def initial_frame_state_def)
  have ok: "run_ok (initial_frame_state 1280 720 1) [MouseMove 1280 0, Frame, Frame]"
    by (simp add: initial_frame_state_def mousemove_handler_def)
  show ?thesis
    using b ok pointer_and_camera_bounded [OF b ok] by simp
qed

text \<open>
  C16 (functional, convergence). While the pointer rests, every frame shrinks the
  distance between the smoothed pointer and its target by the factor 0.96, so after
  \<open>n\<close> frames it is \<open>0.96^n\<close> of what it was; the animation clock advances by
  exactly 0.005 per frame, and after each frame the shader's \<open>uTime\<close> uniform holds
  the clock.
\<close>

theorem pointer_smoothing_converges:
  "target_x s - mouse_x (frame_run s (replicate n Frame)) = 0.96 ^ n * (target_x s - mouse_x s)
   \<and> time (frame_run s (replicate n Frame)) = time s + real n * 0.005
   \<and> u_time (frame_run s (replicate (Suc n) Frame)) = time (frame_run s (replicate (Suc n) Frame))"
proof -
  have "target_x s - mouse_x (frame_run s (replicate n Frame))
        = (1 - mouse_smoothing) ^ n * (target_x s - mouse_x s)"
    by (simp add: frames_mouse_x smooth_iter_gap)
  moreover have "time (frame_run s (replicate n Frame)) = time s + real n * 0.005"
    by (simp add: frames_time clock_step_def)
  moreover have "u_time (frame_run s (replicate (Suc n) Frame))
                 = time (frame_run s (replicate (Suc n) Frame))"
    by (simp only: frame_run_Suc_frames) (simp add: animateThreeJS_def Let_def)
  ultimately show ?thesis by (simp add: mouse_smoothing_def)
qed

text \<open>
  After every frame the particle cloud's tilt \<open>rotation.x\<close> stays
  within 0.08 rad, its \<open>rotation.y\<close> is 0.03 times the clock, and consecutive
  rings turn the same amount in opposite directions.
\<close>

theorem frame_rotations:
  "\<bar>rot_x (animateThreeJS s)\<bar> \<le> 0.08
   \<and> rot_y (animateThreeJS s) = time (animateThreeJS s) * 0.03
   \<and> map (\<lambda>i. ring_rot (animateThreeJS s) ! i + ring_rot (animateThreeJS s) ! Suc i)
         [0..<length (ring_rot s) - 1]
     = replicate (length (ring_rot s) - 1) 0"
proof -
  have "\<bar>sin ((time s + clock_step) * 0.08) * 0.08\<bar> \<le> 0.08"
    using abs_sin_le_one [of "(time s + clock_step) * 0.08"] by (simp add: abs_mult)
  moreover have "map (\<lambda>i. ring_rot (animateThreeJS s) ! i + ring_rot (animateThreeJS s) ! Suc i)
         [0..<length (ring_rot s) - 1] = replicate (length (ring_rot s) - 1) 0"
  proof (rule nth_equalityI)
    fix i
    assume "i < length (map (\<lambda>i. ring_rot (animateThreeJS s) ! i + ring_rot (animateThreeJS s) ! Suc i)
         [0..<length (ring_rot s) - 1])"
    then have "Suc i < length (ring_rot s)" by simp
    then show "map (\<lambda>i. ring_rot (animateThreeJS s) ! i + ring_rot (animateThreeJS s) ! Suc i)
         [0..<length (ring_rot s) - 1] ! i = replicate (length (ring_rot s) - 1) 0 ! i"
      by (simp add: animateThreeJS_def Let_def ring_direction_Suc nth_upt)
  qed simp
  ultimately show ?thesis by (simp add: animateThreeJS_def Let_def)
qed

end
