(* ===== verification/Cursor.thy ===== *)
theory Cursor
  imports Prelude
begin

text \<open>
  The custom cursor of \<^verbatim>\<open>src/script.js\<close> (\<open>initCursor\<close> and \<open>updateCursor\<close>, lines
  208--248). Its state is the last pointer position (\<open>cursorX\<close>, \<open>cursorY\<close>), the
  glow's smoothed position, the \<open>left\<close>/\<open>top\<close> styles written to the two elements
  (\<open>None\<close> until written) and whether the cursor carries the class \<open>hover\<close>.

  The hover class is driven by \<open>mouseenter\<close>/\<open>mouseleave\<close> listeners on every
  element matching \<open>a, button, .card, .bento-cell, .nav-link\<close>. A pointer position
  is the path of elements under the pointer, innermost first. Moving from path
  \<open>p\<close> to path \<open>q\<close> the browser fires \<open>mouseleave\<close> on the elements of \<open>p\<close> that
  are not in \<open>q\<close>, innermost first, then \<open>mouseenter\<close> on those of \<open>q\<close> not in
  \<open>p\<close>, outermost first; only the listeners on hover elements act.
\<close>

record cursor_state =
  cursorX :: real
  cursorY :: real
  cursorGlowX :: real
  cursorGlowY :: real
  cursor_style :: "(real \<times> real) option"
  glow_style :: "(real \<times> real) option"
  hover_class :: bool

definition glow_smoothing :: real where "glow_smoothing = 0.08"

definition cursor_mousemove :: "real \<Rightarrow> real \<Rightarrow> cursor_state \<Rightarrow> cursor_state" where
  "cursor_mousemove cx cy s = s\<lparr>cursorX := cx, cursorY := cy\<rparr>"

text \<open>One call of \<open>updateCursor\<close>: \<open>None\<close> when it returns at its guard without
  rescheduling itself (no \<open>.cursor\<close> element), so that the loop stops.\<close>

definition updateCursor :: "bool \<Rightarrow> bool \<Rightarrow> cursor_state \<Rightarrow> cursor_state option" where
  "updateCursor has_cursor has_glow s =
     (if \<not> has_cursor then None
      else let gx = smooth_toward glow_smoothing (cursorX s) (cursorGlowX s);
               gy = smooth_toward glow_smoothing (cursorY s) (cursorGlowY s);
               s1 = s\<lparr>cursor_style := Some (cursorX s, cursorY s),
                      cursorGlowX := gx, cursorGlowY := gy\<rparr>
           in Some (if has_glow then s1\<lparr>glow_style := Some (gx, gy)\<rparr> else s1))"

text \<open>\<open>n\<close> animation frames of the cursor loop.\<close>

fun cursor_frames :: "nat \<Rightarrow> bool \<Rightarrow> bool \<Rightarrow> cursor_state \<Rightarrow> cursor_state" where
  "cursor_frames 0 c g s = s"
| "cursor_frames (Suc n) c g s =
     (case updateCursor c g s of None \<Rightarrow> s | Some s' \<Rightarrow> cursor_frames n c g s')"

definition hover_leave :: "cursor_state \<Rightarrow> cursor_state" where
  "hover_leave s = s\<lparr>hover_class := False\<rparr>"

definition hover_enter :: "cursor_state \<Rightarrow> cursor_state" where
  "hover_enter s = s\<lparr>hover_class := True\<rparr>"

definition pointer_move :: "nat list \<Rightarrow> nat list \<Rightarrow> nat list \<Rightarrow> cursor_state \<Rightarrow> cursor_state" where
  "pointer_move hover_els p q s =
     (let leaving = filter (\<lambda>e. e \<notin> set q) p;
          entering = rev (filter (\<lambda>e. e \<notin> set p) q);
          s1 = fold (\<lambda>e st. if e \<in> set hover_els then hover_leave st else st) leaving s
      in fold (\<lambda>e st. if e \<in> set hover_els then hover_enter st else st) entering s1)"

text \<open>A pointer path holds at most one hover element (no hover target nested in
  another).\<close>

definition single_hover :: "nat list \<Rightarrow> nat list \<Rightarrow> bool" where
  "single_hover hs p \<longleftrightarrow> (\<forall>x \<in> set p. \<forall>y \<in> set p. x \<in> set hs \<longrightarrow> y \<in> set hs \<longrightarrow> x = y)"

declare cursor_mousemove_def [handler_defs] hover_leave_def [handler_defs]
  hover_enter_def [handler_defs]

lemma fold_hover_leave:
  "hover_class (fold (\<lambda>e st. if e \<in> set hs then hover_leave st else st) xs s)
   = (if list_ex (\<lambda>e. e \<in> set hs) xs then False else hover_class s)"
  by (induction xs arbitrary: s) (simp_all add: hover_leave_def)

lemma fold_hover_enter:
  "hover_class (fold (\<lambda>e st. if e \<in> set hs then hover_enter st else st) xs s)
   = (if list_ex (\<lambda>e. e \<in> set hs) xs then True else hover_class s)"
  by (induction xs arbitrary: s) (simp_all add: hover_enter_def)

lemma pointer_move_hover:
  "hover_class (pointer_move hs p q s)
   = (if list_ex (\<lambda>e. e \<in> set hs \<and> e \<notin> set p) q then True
      else if list_ex (\<lambda>e. e \<in> set hs \<and> e \<notin> set q) p then False
      else hover_class s)"
  by (auto simp: pointer_move_def Let_def fold_hover_leave fold_hover_enter list_ex_iff)

lemma cursor_frames_absent: "cursor_frames n False g s = s"
  by (cases n) (simp_all add: updateCursor_def)

lemma cursor_frames_Suc:
  "cursor_frames (Suc n) True g s = cursor_frames n True g (the (updateCursor True g s))"
  by (simp add: updateCursor_def Let_def)

lemma cursor_frames_pointer:
  "cursorX (cursor_frames n True g s) = cursorX s \<and> cursorY (cursor_frames n True g s) = cursorY s"
  by (induction n arbitrary: s) (simp_all add: cursor_frames_Suc updateCursor_def Let_def)

lemma cursor_frames_glow:
  "cursorX s - cursorGlowX (cursor_frames n True g s) = (1 - glow_smoothing) ^ n * (cursorX s - cursorGlowX s)"
proof (induction n arbitrary: s)
  case 0
  then show ?case by simp
next
  case (Suc n)
  let ?s' = "the (updateCursor True g s)"
  let ?k = "1 - glow_smoothing"
  have x: "cursorX ?s' = cursorX s"
    by (simp add: updateCursor_def Let_def)
  have y: "cursorX ?s' - cursorGlowX ?s' = ?k * (cursorX s - cursorGlowX s)"
    by (simp add: updateCursor_def Let_def smooth_toward_gap)
  have "cursorX ?s' - cursorGlowX (cursor_frames n True g ?s') = ?k ^ n * (cursorX ?s' - cursorGlowX ?s')"
    by (rule Suc.IH)
  then have "cursorX ?s' - cursorGlowX (cursor_frames n True g ?s') = ?k ^ n * (?k * (cursorX s - cursorGlowX s))"
    unfolding y .
  then have "cursorX s - cursorGlowX (cursor_frames n True g ?s') = ?k ^ Suc n * (cursorX s - cursorGlowX s)"
    unfolding x by (simp add: mult.assoc mult.left_commute)
  then show ?case
    unfolding cursor_frames_Suc .
qed

lemma cursor_frames_style:
  "cursor_style (cursor_frames (Suc n) True g s) = Some (cursorX s, cursorY s)"
proof (induction n arbitrary: s)
  case 0
  then show ?case by (simp add: updateCursor_def Let_def)
next
  case (Suc n)
  have "cursorX (the (updateCursor True g s)) = cursorX s"
       "cursorY (the (updateCursor True g s)) = cursorY s"
    by (simp_all add: updateCursor_def Let_def)
  with Suc.IH [of "the (updateCursor True g s)"] show ?case
    by (simp only: cursor_frames_Suc)
qed

subsection \<open>Properties\<close>

text \<open>
  C17 (code bug). With one hover target nested in another (a link \<open>a\<close> inside a
  \<open>.card\<close> \<open>c\<close>), moving the pointer off the link onto the card fires
  \<open>mouseleave\<close> on the link only, and its listener removes \<open>hover\<close> from the cursor
  although the pointer is still over the card, a hover target.
\<close>

theorem nested_hover_target_drops_hover:
  assumes "a \<in> set hs" and "c \<in> set hs" and "a \<noteq> c" and "a \<notin> set rest"
  shows "\<not> hover_class (pointer_move hs (a # c # rest) (c # rest) s)
         \<and> list_ex (\<lambda>e. e \<in> set hs) (c # rest)"
  using assms by (auto simp: pointer_move_hover list_ex_iff)

theorem nested_hover_target_drops_hover_witness:
  "(1::nat) \<in> set [1, 2] \<and> (2::nat) \<in> set [1, 2] \<and> (1::nat) \<noteq> 2 \<and> (1::nat) \<notin> set [0]
   \<and> \<not> hover_class (pointer_move [1, 2] [1, 2, 0] [2, 0]
         \<lparr>cursorX = 0, cursorY = 0, cursorGlowX = 0, cursorGlowY = 0, cursor_style = None,
          glow_style = None, hover_class = True\<rparr>)"
  using nested_hover_target_drops_hover [of 1 "[1, 2]" 2 "[0]"
      "\<lparr>cursorX = 0, cursorY = 0, cursorGlowX = 0, cursorGlowY = 0, cursor_style = None,
        glow_style = None, hover_class = True\<rparr>"]
  by simp

text \<open>
  C18 (invariant). Where hover targets are not nested, the listeners keep the
  cursor's \<open>hover\<close> class exactly in step with the pointer: if it reflected whether
  the pointer was over a hover target before a move, it does after the move.
\<close>

theorem hover_class_tracks_pointer:
  assumes "single_hover hs p" and "single_hover hs q"
    and "hover_class s = list_ex (\<lambda>e. e \<in> set hs) p"
  shows "hover_class (pointer_move hs p q s) = list_ex (\<lambda>e. e \<in> set hs) q"
  using assms unfolding single_hover_def pointer_move_hover list_ex_iff
  by (simp split: if_split) blast

theorem hover_class_tracks_pointer_witness:
  "single_hover [1, 2] [1, 0] \<and> single_hover [1, 2] [2, 0]
   \<and> hover_class \<lparr>cursorX = 0, cursorY = 0, cursorGlowX = 0, cursorGlowY = 0, cursor_style = None,
          glow_style = None, hover_class = True\<rparr> = list_ex (\<lambda>e. e \<in> set [1, 2]) [1::nat, 0]
   \<and> hover_class (pointer_move [1, 2] [1, 0] [2, 0]
         \<lparr>cursorX = 0, cursorY = 0, cursorGlowX = 0, cursorGlowY = 0, cursor_style = None,
          glow_style = None, hover_class = True\<rparr>) = list_ex (\<lambda>e. e \<in> set [1, 2]) [2::nat, 0]"
proof -
  have h: "single_hover [1, 2] [1::nat, 0]" "single_hover [1, 2] [2::nat, 0]"
    by (simp_all add: single_hover_def)
  show ?thesis
    using h hover_class_tracks_pointer [OF h,
        of "\<lparr>cursorX = 0, cursorY = 0, cursorGlowX = 0, cursorGlowY = 0, cursor_style = None,
             glow_style = None, hover_class = True\<rparr>"]
    by simp
qed

text \<open>
  C19 (functional, convergence). While a \<open>.cursor\<close> element exists, after every frame
  it sits exactly at the last pointer position, and the glow's distance to the
  pointer shrinks by the factor 0.92 per frame; without a \<open>.cursor\<close> element the
  loop returns at once and never reschedules, changing nothing.
\<close>

theorem cursor_loop:
  "cursor_style (cursor_frames (Suc n) True g s) = Some (cursorX s, cursorY s)
   \<and> cursorX s - cursorGlowX (cursor_frames n True g s) = 0.92 ^ n * (cursorX s - cursorGlowX s)
   \<and> cursor_frames n False g s = s"
  using cursor_frames_style [of n g s] cursor_frames_glow [of s n g] cursor_frames_absent [of n g s]
  by (simp add: glow_smoothing_def)

end
