(* ===== verification/Magnetic.thy ===== *)
theory Magnetic
  imports Prelude
begin

text \<open>
  The magnetic buttons of \<^verbatim>\<open>src/script.js\<close> (\<open>initMagneticButtons\<close>, lines
  253--279). Every pointer move over a \<open>.btn-magnetic\<close> element starts a 300 ms
  \<open>power2.out\<close> tween of the button's \<open>x\<close>/\<open>y\<close> offset to a quarter of the pointer's
  offset from the button's centre; leaving it starts a 500 ms elastic tween back to
  \<open>(0, 0)\<close>. A tween is recorded by its start time, duration and end values.

  GSAP 3 does not overwrite a running tween of the same properties by default: the
  tweens run side by side, and once all have finished the offset is the end value
  of the tween that finished last (of two finishing together, the one started
  later, which renders last). \<open>settled_offset\<close> computes that value with the
  Prelude's \<open>last_finished\<close>.
\<close>

record rect =
  r_left :: real
  r_top :: real
  r_width :: real
  r_height :: real

record offset_tween =
  ot_start :: ms
  ot_dur :: ms
  ot_x :: real
  ot_y :: real
  ot_ease :: string

datatype mag_event = MagMove ms real real | MagLeave ms

definition magnetic_pull :: real where "magnetic_pull = 0.25"

definition mag_mousemove :: "rect \<Rightarrow> ms \<Rightarrow> real \<Rightarrow> real \<Rightarrow> offset_tween" where
  "mag_mousemove r t cx cy =
     (let x = cx - r_left r - r_width r / 2;
          y = cy - r_top r - r_height r / 2
      in \<lparr>ot_start = t, ot_dur = 300, ot_x = x * magnetic_pull, ot_y = y * magnetic_pull,
          ot_ease = ''power2.out''\<rparr>)"

definition mag_mouseleave :: "ms \<Rightarrow> offset_tween" where
  "mag_mouseleave t =
     \<lparr>ot_start = t, ot_dur = 500, ot_x = 0, ot_y = 0, ot_ease = ''elastic.out(1, 0.5)''\<rparr>"

fun mag_handler :: "rect \<Rightarrow> mag_event \<Rightarrow> offset_tween" where
  "mag_handler r (MagMove t cx cy) = mag_mousemove r t cx cy"
| "mag_handler r (MagLeave t) = mag_mouseleave t"

definition mag_tweens :: "rect \<Rightarrow> mag_event list \<Rightarrow> offset_tween list" where
  "mag_tweens r es = map (mag_handler r) es"

definition settled_offset :: "real \<times> real \<Rightarrow> ms \<Rightarrow> offset_tween list \<Rightarrow> real \<times> real" where
  "settled_offset v e tws = last_finished v e (map (\<lambda>tw. (ot_start tw, ot_dur tw, (ot_x tw, ot_y tw))) tws)"

text \<open>The time stamp of an event.\<close>

fun mag_time :: "mag_event \<Rightarrow> ms" where
  "mag_time (MagMove t cx cy) = t"
| "mag_time (MagLeave t) = t"

definition inside :: "rect \<Rightarrow> real \<Rightarrow> real \<Rightarrow> bool" where
  "inside r cx cy \<longleftrightarrow> r_left r \<le> cx \<and> cx \<le> r_left r + r_width r
                     \<and> r_top r \<le> cy \<and> cy \<le> r_top r + r_height r"

lemma half_span_bound:
  fixes c l w :: real
  assumes "l \<le> c" "c \<le> l + w"
  shows "\<bar>(c - l - w / 2) * 0.25\<bar> \<le> w / 8"
proof -
  have "- (w / 2) \<le> c - l - w / 2" "c - l - w / 2 \<le> w / 2" using assms by simp_all
  moreover have "\<And>q::real. - (w / 2) \<le> q \<Longrightarrow> q \<le> w / 2 \<Longrightarrow> \<bar>q * 0.25\<bar> \<le> w / 8"
    by (simp add: abs_le_iff)
  ultimately show ?thesis by blast
qed

lemma settled_offset_last:
  "e \<le> ot_start tw + ot_dur tw \<Longrightarrow> list_all (\<lambda>t. ot_start t + ot_dur t \<le> ot_start tw + ot_dur tw) tws
   \<Longrightarrow> settled_offset v e (tws @ [tw]) = (ot_x tw, ot_y tw)"
  using last_finished_last [of e "ot_start tw" "ot_dur tw" "map (\<lambda>tw. (ot_start tw, ot_dur tw, (ot_x tw, ot_y tw))) tws" v]
  by (simp add: settled_offset_def list_all_iff split_beta)

subsection \<open>Properties\<close>

text \<open>
  C20 (bounds). While the pointer is over the button, the offset a move tweens it to
  is at most an eighth of the button's width horizontally and an eighth of its
  height vertically.
\<close>

theorem magnetic_offset_bounded:
  assumes "inside r cx cy"
  shows "\<bar>ot_x (mag_mousemove r t cx cy)\<bar> \<le> r_width r / 8
       \<and> \<bar>ot_y (mag_mousemove r t cx cy)\<bar> \<le> r_height r / 8"
  using assms half_span_bound [of "r_left r" cx "r_width r"]
    half_span_bound [of "r_top r" cy "r_height r"]
  by (simp add: inside_def mag_mousemove_def magnetic_pull_def Let_def)

theorem magnetic_offset_bounded_witness:
  "inside \<lparr>r_left = 10, r_top = 20, r_width = 120, r_height = 40\<rparr> 100 30
   \<and> \<bar>ot_x (mag_mousemove \<lparr>r_left = 10, r_top = 20, r_width = 120, r_height = 40\<rparr> 0 100 30)\<bar>
       \<le> 120 / 8"
proof -
  have i: "inside \<lparr>r_left = 10, r_top = 20, r_width = 120, r_height = 40\<rparr> 100 30"
    by (simp add: inside_def)
  show ?thesis using i magnetic_offset_bounded [OF i, of 0] by simp
qed



lemma mag_tween_end: "ot_start (mag_handler r ev) + ot_dur (mag_handler r ev) \<le> mag_time ev + 500"
  by (cases ev) (simp_all add: mag_mousemove_def mag_mouseleave_def Let_def)

lemma mag_tweens_end_by:
  "list_all (\<lambda>ev. mag_time ev \<le> t) es
   \<Longrightarrow> list_all (\<lambda>tw. ot_start tw + ot_dur tw \<le> t + 500) (map (mag_handler r) es)"
proof -
  assume a: "list_all (\<lambda>ev. mag_time ev \<le> t) es"
  have "ot_start (mag_handler r ev) + ot_dur (mag_handler r ev) \<le> t + 500" if "ev \<in> set es" for ev
  proof -
    have "mag_time ev \<le> t" using a that by (simp add: list_all_iff)
    then show ?thesis using mag_tween_end [of r ev] by linarith
  qed
  then show ?thesis by (simp add: list_all_iff)
qed

lemma settled_offset_dominant:
  "e \<le> ot_start tw + ot_dur tw
   \<Longrightarrow> list_all (\<lambda>t. ot_start t + ot_dur t \<le> ot_start tw + ot_dur tw) pre
   \<Longrightarrow> list_all (\<lambda>t. ot_start t + ot_dur t < ot_start tw + ot_dur tw) post
   \<Longrightarrow> settled_offset v e (pre @ tw # post) = (ot_x tw, ot_y tw)"
  using last_finished_dominant [of e "ot_start tw" "ot_dur tw"
      "map (\<lambda>tw. (ot_start tw, ot_dur tw, (ot_x tw, ot_y tw))) pre"
      "map (\<lambda>tw. (ot_start tw, ot_dur tw, (ot_x tw, ot_y tw))) post" v]
  by (simp add: settled_offset_def list_all_iff split_beta)

text \<open>
  C22 (code bug). Because a new tween does not overwrite the running ones, a
  pointer that leaves the button at \<open>t\<close> and moves over it again within 200 ms
  has its move tweens (300 ms) finish before the leave tween (500 ms): after any
  earlier history, whatever the positions of those moves, the button settles at
  \<open>(0, 0)\<close>, although the pointer rests over it and the last move asks for an
  offset a quarter of the pointer's distance from the centre. A move 200 ms or
  more after the leave finishes last and wins.
\<close>

theorem magnetic_reentry_snaps_back:
  assumes "0 \<le> t" and "list_all (\<lambda>ev. mag_time ev \<le> t) es"
    and "list_all (\<lambda>(t', cx, cy). t \<le> t' \<and> t' < t + 200) mvs"
  shows "settled_offset (0, 0) 0
           (mag_tweens r (es @ MagLeave t # map (\<lambda>(t', cx, cy). MagMove t' cx cy) mvs)) = (0, 0)
         \<and> (t + 200 \<le> t' \<longrightarrow>
            settled_offset (0, 0) 0 (mag_tweens r (es @ [MagLeave t, MagMove t' cx cy]))
              = ((cx - r_left r - r_width r / 2) * 0.25, (cy - r_top r - r_height r / 2) * 0.25))"
proof
  have pre: "list_all (\<lambda>tw. ot_start tw + ot_dur tw \<le> ot_start (mag_mouseleave t) + ot_dur (mag_mouseleave t))
      (map (mag_handler r) es)"
    using mag_tweens_end_by [OF assms(2), of r] by (simp add: mag_mouseleave_def)
  have post: "list_all (\<lambda>tw. ot_start tw + ot_dur tw < ot_start (mag_mouseleave t) + ot_dur (mag_mouseleave t))
      (map (mag_handler r) (map (\<lambda>(t', cx, cy). MagMove t' cx cy) mvs))"
    using assms(3) by (auto simp: list_all_iff mag_mouseleave_def mag_mousemove_def Let_def)
  show "settled_offset (0, 0) 0
      (mag_tweens r (es @ MagLeave t # map (\<lambda>(t', cx, cy). MagMove t' cx cy) mvs)) = (0, 0)"
    using settled_offset_dominant [OF _ pre post] assms(1)
    by (simp add: mag_tweens_def mag_mouseleave_def)
next
  show "t + 200 \<le> t' \<longrightarrow>
      settled_offset (0, 0) 0 (mag_tweens r (es @ [MagLeave t, MagMove t' cx cy]))
        = ((cx - r_left r - r_width r / 2) * 0.25, (cy - r_top r - r_height r / 2) * 0.25)"
  proof
    assume late: "t + 200 \<le> t'"
    have "list_all (\<lambda>tw. ot_start tw + ot_dur tw \<le> t + 500) (map (mag_handler r) (es @ [MagLeave t]))"
      using mag_tweens_end_by [of t "es @ [MagLeave t]" r] assms(2) by simp
    then have "list_all (\<lambda>tw. ot_start tw + ot_dur tw \<le> ot_start (mag_mousemove r t' cx cy) + ot_dur (mag_mousemove r t' cx cy))
        (map (mag_handler r) (es @ [MagLeave t]))"
      using late by (auto simp: list_all_iff mag_mousemove_def Let_def)
    then show "settled_offset (0, 0) 0 (mag_tweens r (es @ [MagLeave t, MagMove t' cx cy]))
        = ((cx - r_left r - r_width r / 2) * 0.25, (cy - r_top r - r_height r / 2) * 0.25)"
      using settled_offset_last [of 0 "mag_mousemove r t' cx cy" "map (mag_handler r) (es @ [MagLeave t])"] assms(1) late
      by (simp add: mag_tweens_def mag_mousemove_def magnetic_pull_def Let_def)
  qed
qed

theorem magnetic_reentry_snaps_back_witness:
  "settled_offset (0, 0) 0 (mag_tweens \<lparr>r_left = 0, r_top = 0, r_width = 100, r_height = 40\<rparr>
       ([MagMove 0 90 20] @ MagLeave 50 # map (\<lambda>(t', cx, cy). MagMove t' cx cy) [(150, 90, 20)])) = (0, 0)
   \<and> settled_offset (0, 0) 0 (mag_tweens \<lparr>r_left = 0, r_top = 0, r_width = 100, r_height = 40\<rparr>
       ([MagMove 0 90 20] @ [MagLeave 50, MagMove 250 90 20])) = (10, 0)"
proof -
  have h: "0 \<le> (50::ms)" "list_all (\<lambda>ev. mag_time ev \<le> 50) [MagMove 0 90 20]"
    "list_all (\<lambda>(t', cx, cy). (50::ms) \<le> t' \<and> t' < 50 + 200) [(150::ms, 90::real, 20::real)]"
    by simp_all
  show ?thesis
    using magnetic_reentry_snaps_back [OF h, of "\<lparr>r_left = 0, r_top = 0, r_width = 100, r_height = 40\<rparr>" 250 90 20]
    by simp
qed

end
