(* ===== verification/ScrollReveal.thy ===== *)
theory ScrollReveal
  imports Prelude
begin

text \<open>
  The scroll-triggered reveals of \<^verbatim>\<open>src/script.js\<close> (\<open>initScrollAnimations\<close>, lines
  383--505, without the parallax tweens of lines 472--483). Each \<open>.reveal\<close>,
  \<open>.reveal-left\<close>, \<open>.reveal-right\<close>, \<open>.reveal-scale\<close> and \<open>.reveal-fade\<close> element and
  each \<open>.cards-stagger\<close> group gets a \<open>gsap.fromTo\<close> tween bound to a ScrollTrigger
  with \<open>toggleActions: 'play none none reverse'\<close>: crossing the start position
  forwards (\<open>onEnter\<close>) plays the tween, crossing it backwards (\<open>onLeaveBack\<close>)
  reverses it, and the two actions bound to the end position are \<open>none\<close>. The
  trigger starts when the element's top reaches 85 per cent of the viewport height
  (80 for card groups), that is at scroll position \<open>elem_top - pct / 100 * vh\<close>;
  the trigger is active once the scroll position is strictly past it (its progress
  is then positive), so a position exactly at the start counts as before it.

  The tween's state is its play head (ms into the tween, \<open>0 \<le> p \<le> duration\<close>),
  whether it was ever played (a \<open>fromTo\<close> with a ScrollTrigger renders its \<open>from\<close>
  values at once and waits), its direction, and which side of the start the last
  scroll position was on. A card group is one tween over its \<open>n\<close> cards, staggered
  by 150 ms: card \<open>k\<close> is at \<open>p - 150 k\<close> of its own 800 ms.
\<close>

datatype reveal_variant = Reveal | RevealLeft | RevealRight | RevealScale | RevealFade | CardsStagger nat

record reveal_vals =
  rv_opacity :: real
  rv_x :: real
  rv_y :: real
  rv_scale :: real

record reveal_state =
  playhead :: real
  played :: bool
  reversed :: bool
  past_start :: bool

datatype reveal_event = ScrollTo real | Advance real

fun reveal_from :: "reveal_variant \<Rightarrow> reveal_vals" where
  "reveal_from Reveal = \<lparr>rv_opacity = 0, rv_x = 0, rv_y = 50, rv_scale = 1\<rparr>"
| "reveal_from RevealLeft = \<lparr>rv_opacity = 0, rv_x = -50, rv_y = 0, rv_scale = 1\<rparr>"
| "reveal_from RevealRight = \<lparr>rv_opacity = 0, rv_x = 50, rv_y = 0, rv_scale = 1\<rparr>"
| "reveal_from RevealScale = \<lparr>rv_opacity = 0, rv_x = 0, rv_y = 0, rv_scale = 0.95\<rparr>"
| "reveal_from RevealFade = \<lparr>rv_opacity = 0, rv_x = 0, rv_y = 0, rv_scale = 1\<rparr>"
| "reveal_from (CardsStagger n) = \<lparr>rv_opacity = 0, rv_x = 0, rv_y = 60, rv_scale = 1\<rparr>"

definition reveal_to :: reveal_vals where
  "reveal_to = \<lparr>rv_opacity = 1, rv_x = 0, rv_y = 0, rv_scale = 1\<rparr>"

text \<open>Duration of one target's tween, and of the whole tween with its stagger.\<close>

fun target_duration :: "reveal_variant \<Rightarrow> real" where
  "target_duration RevealFade = 1200"
| "target_duration (CardsStagger n) = 800"
| "target_duration v = 1000"

fun reveal_duration :: "reveal_variant \<Rightarrow> real" where
  "reveal_duration (CardsStagger n) = 800 + 150 * real (n - 1)"
| "reveal_duration v = target_duration v"

fun start_pct :: "reveal_variant \<Rightarrow> real" where
  "start_pct (CardsStagger n) = 80"
| "start_pct v = 85"

definition trigger_start :: "reveal_variant \<Rightarrow> real \<Rightarrow> real \<Rightarrow> real" where
  "trigger_start v elem_top vh = elem_top - start_pct v / 100 * vh"

text \<open>GSAP's \<open>power4.out\<close> (the quintic \<open>1 - (1 - t)^5\<close>) and \<open>power2.out\<close> (the cubic
  \<open>1 - (1 - t)^3\<close>): GSAP's \<open>powerN\<close> eases have exponent \<open>N + 1\<close>.\<close>

fun ease :: "reveal_variant \<Rightarrow> real \<Rightarrow> real" where
  "ease RevealFade t = 1 - (1 - t) ^ 3"
| "ease v t = 1 - (1 - t) ^ 5"

definition interpolate :: "real \<Rightarrow> reveal_vals \<Rightarrow> reveal_vals \<Rightarrow> reveal_vals" where
  "interpolate q a b =
     \<lparr>rv_opacity = rv_opacity a + (rv_opacity b - rv_opacity a) * q,
      rv_x = rv_x a + (rv_x b - rv_x a) * q,
      rv_y = rv_y a + (rv_y b - rv_y a) * q,
      rv_scale = rv_scale a + (rv_scale b - rv_scale a) * q\<rparr>"

text \<open>What target \<open>k\<close> of the tween shows at play head \<open>p\<close> (\<open>k = 0\<close> for a single
  element).\<close>

definition rendered :: "reveal_variant \<Rightarrow> nat \<Rightarrow> real \<Rightarrow> reveal_vals" where
  "rendered v k p =
     (let d = target_duration v;
          local = max 0 (min d (p - 150 * real k))
      in interpolate (ease v (local / d)) (reveal_from v) reveal_to)"

definition reveal_initial :: reveal_state where
  "reveal_initial = \<lparr>playhead = 0, played = False, reversed = False, past_start = False\<rparr>"

text \<open>A ScrollTrigger update at scroll position \<open>y\<close>.\<close>

definition scroll_update :: "real \<Rightarrow> real \<Rightarrow> reveal_state \<Rightarrow> reveal_state" where
  "scroll_update start y s =
     (if start < y \<and> \<not> past_start s then s\<lparr>played := True, reversed := False, past_start := True\<rparr>
      else if \<not> start < y \<and> past_start s then s\<lparr>reversed := True, past_start := False\<rparr>
      else s)"

definition advance :: "real \<Rightarrow> real \<Rightarrow> reveal_state \<Rightarrow> reveal_state" where
  "advance dur dt s =
     (if \<not> played s then s
      else if reversed s then s\<lparr>playhead := max 0 (playhead s - dt)\<rparr>
      else s\<lparr>playhead := min dur (playhead s + dt)\<rparr>)"

fun reveal_step :: "real \<Rightarrow> real \<Rightarrow> reveal_state \<Rightarrow> reveal_event \<Rightarrow> reveal_state" where
  "reveal_step start dur s (ScrollTo y) = scroll_update start y s"
| "reveal_step start dur s (Advance dt) = advance dur dt s"

fun reveal_run :: "real \<Rightarrow> real \<Rightarrow> reveal_state \<Rightarrow> reveal_event list \<Rightarrow> reveal_state" where
  "reveal_run start dur s [] = s"
| "reveal_run start dur s (e # es) = reveal_run start dur (reveal_step start dur s e) es"

text \<open>Creating the trigger evaluates the current scroll position once.\<close>

definition reveal_created :: "reveal_variant \<Rightarrow> real \<Rightarrow> real \<Rightarrow> real \<Rightarrow> reveal_event list \<Rightarrow> reveal_state" where
  "reveal_created v elem_top vh y0 es =
     reveal_run (trigger_start v elem_top vh) (reveal_duration v)
       (scroll_update (trigger_start v elem_top vh) y0 reveal_initial) es"

definition reveal_inv :: "real \<Rightarrow> reveal_state \<Rightarrow> bool" where
  "reveal_inv dur s \<longleftrightarrow> 0 \<le> playhead s \<and> playhead s \<le> dur
     \<and> (past_start s \<longleftrightarrow> played s \<and> \<not> reversed s) \<and> (\<not> played s \<longrightarrow> playhead s = 0)"

fun advance_ok :: "reveal_event \<Rightarrow> bool" where
  "advance_ok (Advance dt) = (0 \<le> dt)" | "advance_ok (ScrollTo y) = True"

text \<open>The scroll position the trigger last saw.\<close>

fun last_scroll :: "real \<Rightarrow> reveal_event list \<Rightarrow> real" where
  "last_scroll y [] = y"
| "last_scroll y (ScrollTo y' # es) = last_scroll y' es"
| "last_scroll y (Advance dt # es) = last_scroll y es"

declare scroll_update_def [handler_defs] advance_def [handler_defs]

lemma reveal_step_inv:
  "0 \<le> dur \<Longrightarrow> advance_ok e \<Longrightarrow> reveal_inv dur s \<Longrightarrow> reveal_inv dur (reveal_step start dur s e)"
  by (cases e) (auto simp: reveal_inv_def scroll_update_def advance_def)

lemma reveal_run_inv:
  "0 \<le> dur \<Longrightarrow> list_all advance_ok es \<Longrightarrow> reveal_inv dur s \<Longrightarrow> reveal_inv dur (reveal_run start dur s es)"
  by (induction es arbitrary: s) (simp_all add: reveal_step_inv)

lemma advances_playhead:
  assumes "reveal_inv dur s" "list_all (\<lambda>d. 0 \<le> d) ds"
  shows "playhead (reveal_run start dur s (map Advance ds))
         = (if past_start s then min dur (playhead s + sum_list ds)
            else if played s then max 0 (playhead s - sum_list ds) else playhead s)
         \<and> past_start (reveal_run start dur s (map Advance ds)) = past_start s
         \<and> played (reveal_run start dur s (map Advance ds)) = played s
         \<and> reversed (reveal_run start dur s (map Advance ds)) = reversed s"
  using assms
proof (induction ds arbitrary: s)
  case Nil
  then show ?case by (simp add: reveal_inv_def)
next
  case (Cons d ds)
  have inv': "reveal_inv dur (advance dur d s)"
    using Cons.prems reveal_step_inv [of dur "Advance d" s] by (auto simp: reveal_inv_def)
  have "0 \<le> sum_list ds" using Cons.prems(2) by (simp add: sum_list_nonneg list_all_iff)
  with Cons.IH [OF inv'] Cons.prems show ?case
    by (auto simp: advance_def reveal_inv_def)
qed
lemma reveal_run_append:
  "reveal_run start dur s (xs @ ys) = reveal_run start dur (reveal_run start dur s xs) ys"
  by (induction xs arbitrary: s) simp_all

lemma reveal_run_past_start:
  "past_start s = (start < y) \<Longrightarrow> past_start (reveal_run start dur s es) = (start < last_scroll y es)"
proof (induction es arbitrary: s y)
  case Nil
  then show ?case by simp
next
  case (Cons e es)
  then show ?case
    by (cases e) (auto simp: scroll_update_def advance_def)
qed

lemma reveal_duration_pos: "0 < reveal_duration v"
  by (cases v) simp_all

lemma reveal_created_inv:
  "list_all advance_ok es \<Longrightarrow> reveal_inv (reveal_duration v) (reveal_created v t vh y0 es)"
  unfolding reveal_created_def
  using reveal_duration_pos [of v]
  by (intro reveal_run_inv) (simp_all add: reveal_inv_def scroll_update_def reveal_initial_def)

lemma interpolate_0 [simp]: "interpolate 0 a b = a"
  by (simp add: interpolate_def)

lemma interpolate_1 [simp]: "interpolate 1 a b = b"
  by (simp add: interpolate_def)

lemma ease_0 [simp]: "ease v 0 = 0"
  by (cases v) simp_all

lemma ease_1 [simp]: "ease v 1 = 1"
  by (cases v) simp_all

lemma target_duration_pos: "0 < target_duration v"
  by (cases v) simp_all

lemma rendered_hidden: "rendered v k 0 = reveal_from v"
  using target_duration_pos [of v] by (simp add: rendered_def Let_def)

lemma rendered_shown:
  assumes "k = 0 \<or> (\<exists>n. v = CardsStagger n \<and> k < n)"
  shows "rendered v k (reveal_duration v) = reveal_to"
proof -
  have "target_duration v \<le> reveal_duration v - 150 * real k"
    using assms by (cases v) (auto simp: of_nat_diff)
  then have "max 0 (min (target_duration v) (reveal_duration v - 150 * real k)) = target_duration v"
    using target_duration_pos [of v] by simp
  then show ?thesis
    using target_duration_pos [of v] by (simp add: rendered_def Let_def)
qed

lemma ease_mono:
  assumes "0 \<le> a" "a \<le> b" "b \<le> 1"
  shows "ease v a \<le> ease v b"
proof -
  have "(1 - b) ^ 3 \<le> (1 - a) ^ 3" "(1 - b) ^ 5 \<le> (1 - a) ^ 5"
    using assms by (simp_all add: power_mono)
  then show ?thesis by (cases v) simp_all
qed

lemma scroll_update_past_start [simp]: "past_start (scroll_update start y s) \<longleftrightarrow> start < y"
  by (simp add: scroll_update_def)

lemma reveal_scrolls_sorted:
  "sorted (y0 # ys) \<Longrightarrow> (past_start s \<longleftrightarrow> start < y0) \<Longrightarrow> (past_start s \<longrightarrow> played s) \<Longrightarrow> \<not> reversed s
   \<Longrightarrow> \<not> reversed (reveal_run start dur s (map ScrollTo ys))
     \<and> (played (reveal_run start dur s (map ScrollTo ys)) \<longleftrightarrow> played s \<or> (\<exists>y\<in>set ys. start < y))"
proof (induction ys arbitrary: s y0)
  case Nil
  then show ?case by simp
next
  case (Cons y ys)
  let ?s = "scroll_update start y s"
  have "sorted (y # ys)" "y0 \<le> y" using Cons.prems(1) by simp_all
  moreover have "past_start ?s \<longleftrightarrow> start < y" by simp
  moreover have "past_start ?s \<longrightarrow> played ?s" "\<not> reversed ?s"
    using Cons.prems \<open>y0 \<le> y\<close> by (auto simp: scroll_update_def)
  moreover have "played ?s \<longleftrightarrow> played s \<or> start < y"
    using Cons.prems \<open>y0 \<le> y\<close> by (auto simp: scroll_update_def)
  ultimately show ?case using Cons.IH [of y ?s] by auto
qed

subsection \<open>Properties\<close>

text \<open>
  C23 (invariant). Whatever the scroll positions and however much time passes, a
  reveal tween's play head stays within its duration, the tween plays forwards
  exactly while the last scroll position seen is past the trigger's start, and it
  is reversed (or never yet played) exactly while it is before the start.
\<close>

theorem reveal_state_consistent:
  assumes "list_all advance_ok es"
  shows "0 \<le> playhead (reveal_created v t vh y0 es)
       \<and> playhead (reveal_created v t vh y0 es) \<le> reveal_duration v
       \<and> (past_start (reveal_created v t vh y0 es)
            \<longleftrightarrow> played (reveal_created v t vh y0 es) \<and> \<not> reversed (reveal_created v t vh y0 es))
       \<and> (past_start (reveal_created v t vh y0 es) \<longleftrightarrow> trigger_start v t vh < last_scroll y0 es)"
proof -
  have "reveal_inv (reveal_duration v) (reveal_created v t vh y0 es)"
    using assms by (rule reveal_created_inv)
  moreover have "past_start (reveal_created v t vh y0 es) \<longleftrightarrow> trigger_start v t vh < last_scroll y0 es"
    unfolding reveal_created_def
    by (rule reveal_run_past_start) (simp add: scroll_update_def reveal_initial_def)
  ultimately show ?thesis by (simp add: reveal_inv_def)
qed

theorem reveal_state_consistent_witness:
  "list_all advance_ok [ScrollTo 900, Advance 400, ScrollTo 100, Advance 100]
   \<and> past_start (reveal_created Reveal 1200 800 0 [ScrollTo 900, Advance 400, ScrollTo 100, Advance 100])
     = (trigger_start Reveal 1200 800 < last_scroll 0 [ScrollTo 900, Advance 400, ScrollTo 100, Advance 100])"
proof -
  have ok: "list_all advance_ok [ScrollTo 900, Advance 400, ScrollTo 100, Advance (100::real)]" by simp
  show ?thesis using ok reveal_state_consistent [OF ok, of Reveal 1200 800 0] by blast
qed

text \<open>
  C24 (liveness). After any history, once the page is scrolled to \<open>y\<close> and the
  tween has had its full duration, the element (or each card of a group) shows its
  visible state (opacity 1, no offset, scale 1) if \<open>y\<close> is past the trigger's
  start, and its hidden \<open>from\<close> state otherwise: the reveal is bound to the scroll
  position and reverses when the element is scrolled back above the threshold.
\<close>

theorem reveal_follows_scroll:
  assumes "list_all advance_ok es" and "list_all (\<lambda>d. 0 \<le> d) ds"
    and "reveal_duration v \<le> sum_list ds"
    and "k = 0 \<or> (\<exists>n. v = CardsStagger n \<and> k < n)"
  shows "rendered v k (playhead (reveal_created v t vh y0 (es @ ScrollTo y # map Advance ds)))
         = (if trigger_start v t vh < y then reveal_to else reveal_from v)"
proof -
  let ?st = "trigger_start v t vh" and ?d = "reveal_duration v"
  let ?s1 = "scroll_update ?st y (reveal_created v t vh y0 es)"
  have inv1: "reveal_inv ?d ?s1"
    using reveal_created_inv [OF assms(1), of v t vh y0] reveal_duration_pos [of v]
      reveal_step_inv [of ?d "ScrollTo y"] by simp
  have past: "past_start ?s1 = (?st < y)"
    using inv1 by (auto simp: scroll_update_def reveal_inv_def)
  have run: "reveal_created v t vh y0 (es @ ScrollTo y # map Advance ds)
             = reveal_run ?st ?d ?s1 (map Advance ds)"
    by (simp add: reveal_created_def reveal_run_append)
  have "playhead (reveal_run ?st ?d ?s1 (map Advance ds)) = (if ?st < y then ?d else 0)"
    using advances_playhead [OF inv1 assms(2), of ?st] inv1 past assms(3)
    by (auto simp: reveal_inv_def)
  then show ?thesis
    using run rendered_hidden rendered_shown [OF assms(4)] by simp
qed

theorem reveal_follows_scroll_witness:
  "list_all advance_ok [ScrollTo 900, Advance 1000]
   \<and> list_all (\<lambda>d. 0 \<le> d) [600, 600 :: real]
   \<and> reveal_duration Reveal \<le> sum_list [600, 600]
   \<and> ((0::nat) = 0 \<or> (\<exists>n. Reveal = CardsStagger n \<and> (0::nat) < n))
   \<and> rendered Reveal 0 (playhead (reveal_created Reveal 1200 800 0
        ([ScrollTo 900, Advance 1000] @ ScrollTo 100 # map Advance [600, 600]))) = reveal_from Reveal"
proof -
  have a: "list_all advance_ok [ScrollTo 900, Advance (1000::real)]" by simp
  have b: "list_all (\<lambda>d. 0 \<le> d) [600, 600 :: real]" by simp
  have c: "reveal_duration Reveal \<le> sum_list [600, 600 :: real]" by simp
  have d: "(0::nat) = 0 \<or> (\<exists>n. Reveal = CardsStagger n \<and> (0::nat) < n)" by simp
  show ?thesis
    using a b c d reveal_follows_scroll [OF a b c d, of 1200 800 0 100]
    by (simp add: trigger_start_def)
qed

text \<open>
  C25 (ordering). In a staggered card group the cards appear in document order: at
  every instant of the group's tween, forwards or reversed, a card is never more
  opaque than the card before it.
\<close>

theorem cards_reveal_in_order:
  "rv_opacity (rendered (CardsStagger n) (Suc k) p) \<le> rv_opacity (rendered (CardsStagger n) k p)"
proof -
  let ?l = "\<lambda>k. max 0 (min 800 (p - 150 * real k)) / (800::real)"
  have "0 \<le> ?l (Suc k)" "?l (Suc k) \<le> ?l k" "?l k \<le> 1"
    by (auto simp: divide_right_mono)
  then have "ease (CardsStagger n) (?l (Suc k)) \<le> ease (CardsStagger n) (?l k)"
    by (rule ease_mono)
  then show ?thesis
    by (simp add: rendered_def Let_def interpolate_def reveal_to_def)
qed

end
