(* ===== verification/Scene.thy ===== *)
theory Scene
  imports FrameLoop
begin

text \<open>
  The scene that \<open>initThreeJS\<close> of \<^verbatim>\<open>src/script.js\<close> builds (lines 42--158) and
  what the camera of the frame loop sees of it. The particle loop draws five
  \<open>Math.random()\<close> values per particle, in the order of the source (radius,
  azimuth, polar angle, colour, size), and writes the particle into three typed
  arrays at indices \<open>3 i\<close>, \<open>3 i + 1\<close>, \<open>3 i + 2\<close> (positions, colours) and \<open>i\<close>
  (sizes); a draw is a real in \<open>[0, 1)\<close>, and the \<open>Float32Array\<close> rounding is not
  modelled; the source runs the loop for \<open>particleCount = 2000\<close> particles, the model
  for any list of draws. Colours are the hex literals' sRGB channels divided by 255.

  The three sonar rings are meshes of \<open>RingGeometry(0.5, 0.52, 32)\<close>: their vertices
  lie at distance 0.5 or 0.52 from the ring's axis, scaled by the ring's scale and
  turned about the \<open>z\<close> axis by the frame loop. The camera stays at \<open>z = 5\<close>, follows
  \<open>cam_x\<close>/\<open>cam_y\<close> of the frame loop, and is turned towards the origin
  (\<open>camera.lookAt(scene.position)\<close>) every frame before rendering.

  Fog is Three.js's linear \<open>THREE.Fog(0x050505, 1, 18)\<close>, applied by the ring
  material (\<open>MeshBasicMaterial\<close> has \<open>fog: true\<close>; the particles' \<open>ShaderMaterial\<close>
  does not): a fragment's colour is mixed towards the fog colour by
  \<open>smoothstep(near, far, depth)\<close>, where \<open>depth\<close> is its distance from the camera
  along the viewing direction, interpolated linearly from the vertices.

  The particle shaders (lines 97--131) are modelled as functions: the vertex
  shader's floating offset, its point size, and the fragment shader's opacity
  over a sprite; the object transform, clipping and blending that the renderer
  applies to them are in the theory Render.
\<close>

type_synonym vec3 = "real \<times> real \<times> real"
type_synonym rgb = "real \<times> real \<times> real"

text \<open>\<open>new THREE.Color(hex)\<close> read as sRGB channels in \<open>[0, 1]\<close>.\<close>

definition hex_rgb :: "nat \<Rightarrow> rgb" where
  "hex_rgb h = (real (h div 65536 mod 256) / 255, real (h div 256 mod 256) / 255, real (h mod 256) / 255)"

definition gold_color :: rgb where "gold_color = hex_rgb 13938487"
definition white_color :: rgb where "white_color = hex_rgb 16119280"
definition clear_color :: rgb where "clear_color = hex_rgb 328965"
definition fog_color :: rgb where "fog_color = hex_rgb 328965"
definition fog_near :: real where "fog_near = 1"
definition fog_far :: real where "fog_far = 18"
definition camera_z :: real where "camera_z = 5"

subsection \<open>Particles\<close>

record particle =
  p_pos :: vec3
  p_color :: rgb
  p_size :: real

definition make_particle :: "real \<times> real \<times> real \<times> real \<times> real \<Rightarrow> particle" where
  "make_particle d =
     (case d of (r1, r2, r3, r4, r5) \<Rightarrow>
       let radius = r1 * 12 + 3;
           theta = r2 * pi * 2;
           phi = arccos (2 * r3 - 1)
       in \<lparr>p_pos = (radius * sin phi * cos theta, radius * sin phi * sin theta, radius * cos phi - 8),
           p_color = (if r4 > 0.75 then gold_color else white_color),
           p_size = r5 * 2.5 + 0.5\<rparr>)"

definition triple_list :: "real \<times> real \<times> real \<Rightarrow> real list" where
  "triple_list v = (case v of (a, b, c) \<Rightarrow> [a, b, c])"

text \<open>One iteration of the particle loop: the writes of particle \<open>i\<close> into the
  three arrays.\<close>

definition write_particle :: "nat \<Rightarrow> particle \<Rightarrow> real list \<times> real list \<times> real list
                                \<Rightarrow> real list \<times> real list \<times> real list" where
  "write_particle i p bufs =
     (case bufs of (pos, col, sz) \<Rightarrow>
       (case p_pos p of (x, y, z) \<Rightarrow> pos[i * 3 := x, i * 3 + 1 := y, i * 3 + 2 := z],
        case p_color p of (r, g, b) \<Rightarrow> col[i * 3 := r, i * 3 + 1 := g, i * 3 + 2 := b],
        sz[i := p_size p]))"

text \<open>The loop \<open>for (let i = 0; i < particleCount; i++)\<close> over zero-filled arrays
  (\<open>new Float32Array(n)\<close>), the \<open>i\<close>-th particle made of the \<open>i\<close>-th five draws.\<close>

definition particle_buffers :: "(real \<times> real \<times> real \<times> real \<times> real) list
                                \<Rightarrow> real list \<times> real list \<times> real list" where
  "particle_buffers ds =
     fold (\<lambda>i. write_particle i (make_particle (ds ! i))) [0..<length ds]
       (replicate (length ds * 3) 0, replicate (length ds * 3) 0, replicate (length ds) 0)"

text \<open>The reference layout: the particles' coordinates and channels concatenated.\<close>

definition buffer_layout :: "particle list \<Rightarrow> real list \<times> real list \<times> real list" where
  "buffer_layout ps =
     (concat (map (triple_list \<circ> p_pos) ps), concat (map (triple_list \<circ> p_color) ps), map p_size ps)"

text \<open>How Three.js reads such an array back: \<open>BufferAttribute(array, 3)\<close> has
  \<open>count = array.length / 3\<close> items, and \<open>getX(i)\<close>, \<open>getY(i)\<close>, \<open>getZ(i)\<close> read
  \<open>array[3 i]\<close>, \<open>array[3 i + 1]\<close>, \<open>array[3 i + 2]\<close>.\<close>

definition attr_count :: "real list \<Rightarrow> nat" where
  "attr_count arr = length arr div 3"

definition attr_item :: "real list \<Rightarrow> nat \<Rightarrow> real \<times> real \<times> real" where
  "attr_item arr i = (arr ! (i * 3), arr ! (i * 3 + 1), arr ! (i * 3 + 2))"

subsection \<open>Rings and camera\<close>

record ring_mesh =
  ring_z :: real
  ring_scale :: real
  ring_opacity :: real

definition make_ring :: "nat \<Rightarrow> ring_mesh" where
  "make_ring i = \<lparr>ring_z = -8 - real i * 3, ring_scale = 1 + real i * 0.8,
                  ring_opacity = 0.06 - real i * 0.015\<rparr>"

definition rings_init :: "ring_mesh list" where
  "rings_init = map make_ring [0..<3]"

text \<open>A vertex of ring \<open>rg\<close> at distance \<open>r\<close> from its axis and angle \<open>a\<close>, with the
  ring turned by \<open>rot\<close> (\<open>ring.rotation.z\<close>).\<close>

definition ring_vertex :: "ring_mesh \<Rightarrow> real \<Rightarrow> real \<Rightarrow> real \<Rightarrow> vec3" where
  "ring_vertex rg rot r a =
     (ring_scale rg * r * cos (a + rot), ring_scale rg * r * sin (a + rot), ring_z rg)"

definition camera_pos :: "frame_state \<Rightarrow> vec3" where
  "camera_pos s = (cam_x s, cam_y s, camera_z)"

text \<open>Depth of a point in front of a camera at \<open>c\<close> looking at the origin: the
  component of \<open>c - p\<close> along the unit vector \<open>c / |c|\<close> (minus the view-space
  \<open>z\<close> that Three.js's fog reads).\<close>

definition view_depth :: "vec3 \<Rightarrow> vec3 \<Rightarrow> real" where
  "view_depth c p =
     (case c of (cx, cy, cz) \<Rightarrow> case p of (px, py, pz) \<Rightarrow>
       ((cx - px) * cx + (cy - py) * cy + (cz - pz) * cz) / sqrt (cx\<^sup>2 + cy\<^sup>2 + cz\<^sup>2))"

text \<open>GLSL \<open>smoothstep\<close> and the fog of Three.js's \<open>fog_fragment\<close> chunk.\<close>

definition smoothstep :: "real \<Rightarrow> real \<Rightarrow> real \<Rightarrow> real" where
  "smoothstep e0 e1 x = (let t = min 1 (max 0 ((x - e0) / (e1 - e0))) in t * t * (3 - 2 * t))"

definition fog_factor :: "real \<Rightarrow> real" where
  "fog_factor depth = smoothstep fog_near fog_far depth"

definition mix_rgb :: "rgb \<Rightarrow> rgb \<Rightarrow> real \<Rightarrow> rgb" where
  "mix_rgb c d f = (case c of (r, g, b) \<Rightarrow> case d of (r', g', b') \<Rightarrow>
     (r * (1 - f) + r' * f, g * (1 - f) + g' * f, b * (1 - f) + b' * f))"

definition dist_sq :: "vec3 \<Rightarrow> vec3 \<Rightarrow> real" where
  "dist_sq p q = (case p of (x, y, z) \<Rightarrow> case q of (x', y', z') \<Rightarrow> (x - x')\<^sup>2 + (y - y')\<^sup>2 + (z - z')\<^sup>2)"

text \<open>A transparent fragment of opacity \<open>alpha\<close> blended over a pixel (normal
  blending): the same mix.\<close>

definition blend_over :: "real \<Rightarrow> rgb \<Rightarrow> rgb \<Rightarrow> rgb" where
  "blend_over alpha src dst = mix_rgb dst src alpha"

subsection \<open>The particle shaders\<close>

text \<open>The vertex shader's floating offset (\<open>uIntensity = 1.0\<close>): each coordinate is
  shifted by the original value of the other, and \<open>z\<close> is left alone.\<close>

definition u_intensity :: real where "u_intensity = 1"

definition vertex_float :: "real \<Rightarrow> vec3 \<Rightarrow> vec3" where
  "vertex_float u_t p =
     (case p of (x, y, z) \<Rightarrow>
        (x + cos (u_t * 0.2 + y * 0.2) * 0.1 * u_intensity,
         y + sin (u_t * 0.3 + x * 0.2) * 0.1 * u_intensity, z))"

text \<open>\<open>gl_PointSize = size * uPixelRatio * (200.0 / -mvPosition.z)\<close>, with the depth
  \<open>-mvPosition.z\<close> given.\<close>

definition point_size :: "real \<Rightarrow> real \<Rightarrow> real \<Rightarrow> real" where
  "point_size sz ratio depth = sz * ratio * (200 / depth)"

text \<open>The fragment shader's opacity at distance \<open>d\<close> from the sprite's centre.\<close>

definition fragment_alpha :: "real \<Rightarrow> real" where
  "fragment_alpha d = (1 - smoothstep 0.3 0.5 d) * 0.5"

subsection \<open>Lemmas\<close>

lemma update3_replicate:
  "length xs = j \<Longrightarrow> (xs @ replicate (Suc (Suc (Suc k))) z0)[j := a, Suc j := b, Suc (Suc j) := c]
     = (xs @ [a, b, c]) @ replicate k z0"
  by (simp add: list_update_append)

lemma update1_replicate:
  "length xs = j \<Longrightarrow> (xs @ replicate (Suc k) z0)[j := a] = (xs @ [a]) @ replicate k z0"
  by (simp add: list_update_append)

lemma length_triple_list [simp]: "length (triple_list v) = 3"
  by (simp add: triple_list_def split: prod.splits)

lemma length_concat_triples: "length (concat (map (\<lambda>x. triple_list (f x)) xs)) = length xs * 3"
  by (induction xs) simp_all

lemma write_particle_append:
  assumes "length pos = i * 3" "length col = i * 3" "length sz = i"
  shows "write_particle i p (pos @ replicate (Suc k * 3) 0, col @ replicate (Suc k * 3) 0, sz @ replicate (Suc k) 0)
         = ((pos @ triple_list (p_pos p)) @ replicate (k * 3) 0, (col @ triple_list (p_color p)) @ replicate (k * 3) 0,
            (sz @ [p_size p]) @ replicate k 0)"
proof -
  have r: "Suc k * 3 = Suc (Suc (Suc (k * 3)))" by simp
  show ?thesis
    using assms update3_replicate [of pos "i * 3" "k * 3"] update3_replicate [of col "i * 3" "k * 3"]
      update1_replicate [of sz i k]
    unfolding r by (simp add: write_particle_def triple_list_def split: prod.splits)
qed

lemma particle_buffers_prefix:
  "m \<le> length ds \<Longrightarrow>
   fold (\<lambda>i. write_particle i (make_particle (ds ! i))) [0..<m]
     (replicate (length ds * 3) 0, replicate (length ds * 3) 0, replicate (length ds) 0)
   = (concat (map (triple_list \<circ> p_pos) (map make_particle (take m ds))) @ replicate ((length ds - m) * 3) 0,
      concat (map (triple_list \<circ> p_color) (map make_particle (take m ds))) @ replicate ((length ds - m) * 3) 0,
      map p_size (map make_particle (take m ds)) @ replicate (length ds - m) 0)"
proof (induction m)
  case 0
  then show ?case by simp
next
  case (Suc m)
  then have m: "m < length ds" by simp
  have k: "length ds - m = Suc (length ds - Suc m)" using m by simp
  have t: "take (Suc m) ds = take m ds @ [ds ! m]" using m by (simp add: take_Suc_conv_app_nth)
  let ?ps = "map make_particle (take m ds)"
  have l: "length (concat (map (triple_list \<circ> p_pos) ?ps)) = m * 3"
          "length (concat (map (triple_list \<circ> p_color) ?ps)) = m * 3"
          "length (map p_size ?ps) = m"
    using m length_concat_triples [of p_pos ?ps] length_concat_triples [of p_color ?ps]
    by (simp_all add: comp_def min_absorb2)
  show ?case
    using Suc.IH m write_particle_append [OF l, of "make_particle (ds ! m)" "length ds - Suc m"]
    by (simp add: k t comp_def)
qed

lemma nth_concat_triples:
  "i < length xs \<Longrightarrow> k < 3
   \<Longrightarrow> concat (map (\<lambda>x. triple_list (f x)) xs) ! (i * 3 + k) = triple_list (f (xs ! i)) ! k"
proof (induction xs arbitrary: i)
  case Nil
  then show ?case by simp
next
  case (Cons x xs)
  show ?case
  proof (cases i)
    case 0
    then show ?thesis using Cons.prems by (simp add: nth_append)
  next
    case (Suc j)
    then have "concat (map (\<lambda>x. triple_list (f x)) (x # xs)) ! (i * 3 + k)
               = concat (map (\<lambda>x. triple_list (f x)) xs) ! (j * 3 + k)"
      by (simp add: nth_append)
    then show ?thesis using Cons.IH [of j] Cons.prems Suc by simp
  qed
qed

lemma attr_item_triples:
  "i < length xs \<Longrightarrow> attr_item (concat (map (\<lambda>x. triple_list (f x)) xs)) i = f (xs ! i)"
  using nth_concat_triples [of i xs 0 f] nth_concat_triples [of i xs 1 f] nth_concat_triples [of i xs 2 f]
  by (simp add: attr_item_def triple_list_def split: prod.splits)

lemma smoothstep_bounds: "e0 < e1 \<Longrightarrow> 0 \<le> smoothstep e0 e1 x \<and> smoothstep e0 e1 x \<le> 1"
proof -
  assume "e0 < e1"
  define t where "t = min 1 (max 0 ((x - e0) / (e1 - e0)))"
  have t: "0 \<le> t" "t \<le> 1" unfolding t_def by simp_all
  have "t * t * (3 - 2 * t) = 1 - (1 - t) * (1 - t) * (1 + 2 * t)" by (simp add: algebra_simps)
  moreover have "0 \<le> (1 - t) * (1 - t) * (1 + 2 * t)" using t by simp
  moreover have "(1 - t) * (1 - t) * (1 + 2 * t) \<le> 1 * 1 * (1 + 2 * t) - t * t * (1 + 2 * t) * 0"
  proof -
    have "(1 - t) * (1 - t) \<le> 1" using t by (simp add: mult_le_one)
    then show ?thesis using t by (simp add: mult_right_le_one_le)
  qed
  moreover have "0 \<le> t * t * (3 - 2 * t)" using t by simp
  ultimately show ?thesis unfolding smoothstep_def Let_def t_def [symmetric] by linarith
qed

lemma vertex_float_offset:
  "\<bar>fst (vertex_float u_t p) - fst p\<bar> \<le> 0.1 \<and> \<bar>fst (snd (vertex_float u_t p)) - fst (snd p)\<bar> \<le> 0.1
   \<and> snd (snd (vertex_float u_t p)) = snd (snd p)"
  by (cases p) (simp add: vertex_float_def u_intensity_def abs_mult)

lemma fragment_alpha_shape:
  "0 \<le> fragment_alpha d \<and> fragment_alpha d \<le> 0.5
   \<and> (d \<le> 0.3 \<longrightarrow> fragment_alpha d = 0.5) \<and> (0.5 \<le> d \<longrightarrow> fragment_alpha d = 0)"
  using smoothstep_bounds [of "0.3" "0.5" d]
  by (simp add: fragment_alpha_def smoothstep_def Let_def)

lemma point_size_bound:
  assumes "0 \<le> sz" "sz < 3" "0 < ratio" "ratio \<le> 2" "0 < depth"
  shows "point_size sz ratio depth \<le> 1200 / depth"
proof -
  have "sz * ratio \<le> 3 * 2" using assms by (intro mult_mono) simp_all
  then have "sz * ratio * (200 / depth) \<le> 6 * (200 / depth)" using assms by (intro mult_right_mono) simp_all
  then show ?thesis by (simp add: point_size_def)
qed

lemma fog_factor_far: "fog_far \<le> d \<Longrightarrow> fog_factor d = 1"
  by (simp add: fog_factor_def smoothstep_def fog_near_def fog_far_def Let_def)

lemma mix_rgb_one [simp]: "mix_rgb c d 1 = d"
  by (simp add: mix_rgb_def split: prod.splits)

lemma blend_over_same [simp]: "blend_over a c c = c"
  by (simp add: blend_over_def mix_rgb_def split: prod.splits; simp add: algebra_simps)

lemma depth_beyond_far:
  fixes cx cy px py :: real
  assumes "\<bar>cx\<bar> \<le> 0.4" "\<bar>cy\<bar> \<le> 0.25" "\<bar>px\<bar> \<le> 1.352" "\<bar>py\<bar> \<le> 1.352"
  shows "18 < view_depth (cx, cy, 5) (px, py, -14)"
proof -
  have a: "\<bar>px * cx\<bar> \<le> 1.352 * 0.4" "\<bar>py * cy\<bar> \<le> 1.352 * 0.25"
    unfolding abs_mult using assms by (intro mult_mono; simp)+
  have b: "px * cx \<le> 1" "py * cy \<le> 1"
    using a abs_ge_self [of "px * cx"] abs_ge_self [of "py * cy"] by simp_all
  have e: "(cx - px) * cx + (cy - py) * cy + (5 - -14) * 5 = cx * cx + cy * cy + 95 - px * cx - py * cy"
    by (simp add: algebra_simps)
  have n: "93 \<le> (cx - px) * cx + (cy - py) * cy + (5 - -14) * 5"
    unfolding e using b zero_le_square [of cx] zero_le_square [of cy] by linarith
  have c: "\<bar>cx\<bar> * \<bar>cx\<bar> \<le> 0.4 * 0.4" "\<bar>cy\<bar> * \<bar>cy\<bar> \<le> 0.25 * 0.25"
    using assms by (intro mult_mono; simp)+
  have "cx\<^sup>2 + cy\<^sup>2 + 5\<^sup>2 < 5.1\<^sup>2"
    using c by (simp add: power2_eq_square abs_mult_self_eq)
  then have s: "sqrt (cx\<^sup>2 + cy\<^sup>2 + 5\<^sup>2) < 5.1"
    using real_sqrt_less_iff [of "cx\<^sup>2 + cy\<^sup>2 + 5\<^sup>2" "5.1\<^sup>2"] by simp
  have "0 < cx\<^sup>2 + cy\<^sup>2 + 5\<^sup>2"
    by (intro add_nonneg_pos add_nonneg_nonneg zero_le_power2) simp
  then have p: "0 < sqrt (cx\<^sup>2 + cy\<^sup>2 + 5\<^sup>2)" by simp
  from n s p show ?thesis
    by (simp add: view_depth_def pos_less_divide_eq)
qed

lemma ring_vertex_bound:
  assumes "0 \<le> r" "r \<le> 0.52"
  shows "\<bar>fst (ring_vertex (make_ring 2) rot r a)\<bar> \<le> 1.352
       \<and> \<bar>fst (snd (ring_vertex (make_ring 2) rot r a))\<bar> \<le> 1.352
       \<and> snd (snd (ring_vertex (make_ring 2) rot r a)) = -14"
proof -
  have "\<bar>2.6 * r * cos (a + rot)\<bar> \<le> 2.6 * 0.52 * 1" "\<bar>2.6 * r * sin (a + rot)\<bar> \<le> 2.6 * 0.52 * 1"
    unfolding abs_mult using assms abs_cos_le_one abs_sin_le_one by (intro mult_mono; simp)+
  then show ?thesis by (simp add: ring_vertex_def make_ring_def)
qed

lemma third_ring_depth:
  assumes "pointer_bounds s" "0 \<le> r" "r \<le> 0.52"
  shows "fog_far < view_depth (camera_pos s) (ring_vertex (make_ring 2) rot r a)"
proof -
  obtain px py pz where v: "ring_vertex (make_ring 2) rot r a = (px, py, pz)" by (cases "ring_vertex (make_ring 2) rot r a") auto
  have "\<bar>px\<bar> \<le> 1.352" "\<bar>py\<bar> \<le> 1.352" "pz = -14"
    using ring_vertex_bound [OF assms(2,3), of rot a] v by simp_all
  moreover have "\<bar>cam_x s\<bar> \<le> 0.4" "\<bar>cam_y s\<bar> \<le> 0.25" using assms(1) by (simp_all add: pointer_bounds_def)
  ultimately show ?thesis
    using depth_beyond_far [of "cam_x s" "cam_y s" px py] v by (simp add: camera_pos_def camera_z_def fog_far_def)
qed

lemma spherical_norm:
  fixes R p t :: real
  shows "(R * sin p * cos t)\<^sup>2 + (R * sin p * sin t)\<^sup>2 + (R * cos p)\<^sup>2 = R\<^sup>2"
  by (simp add: power_mult_distrib flip: distrib_left)

lemma rest_depth: "view_depth (camera_pos (initial_frame_state w h d)) (px, py, pz) = 5 - pz"
  by (simp add: view_depth_def camera_pos_def camera_z_def initial_frame_state_def)

subsection \<open>Properties\<close>

text \<open>
  C27 (equivalence). The particle loop, writing each particle's coordinates,
  colour channels and size into zero-filled typed arrays at indices \<open>3 i\<close> to
  \<open>3 i + 2\<close> and \<open>i\<close>, fills them exactly with the particles' data laid out one after
  the other: no write lands on another particle's slot and no slot stays zero.
\<close>

theorem particle_buffers_layout:
  "particle_buffers ds = buffer_layout (map make_particle ds)"
  using particle_buffers_prefix [of "length ds" ds] by (simp add: particle_buffers_def buffer_layout_def)

text \<open>
  Reading the filled arrays back as Three.js does, through
  \<open>BufferAttribute(positions, 3)\<close>, \<open>BufferAttribute(colors, 3)\<close> and
  \<open>BufferAttribute(sizes, 1)\<close>, gives one item per particle, and item \<open>i\<close> is
  exactly the position, colour and size of the particle made from the
  \<open>i\<close>-th draws.
\<close>

theorem particle_buffers_roundtrip:
  assumes "i < length ds"
  shows "attr_count (fst (particle_buffers ds)) = length ds
       \<and> attr_item (fst (particle_buffers ds)) i = p_pos (make_particle (ds ! i))
       \<and> attr_item (fst (snd (particle_buffers ds))) i = p_color (make_particle (ds ! i))
       \<and> snd (snd (particle_buffers ds)) ! i = p_size (make_particle (ds ! i))"
proof -
  have b: "particle_buffers ds
      = (concat (map (\<lambda>d. triple_list (p_pos (make_particle d))) ds),
         concat (map (\<lambda>d. triple_list (p_color (make_particle d))) ds), map (\<lambda>d. p_size (make_particle d)) ds)"
    using particle_buffers_prefix [of "length ds" ds] by (simp add: particle_buffers_def comp_def)
  show ?thesis
    using assms attr_item_triples [of i ds "\<lambda>d. p_pos (make_particle d)"]
      attr_item_triples [of i ds "\<lambda>d. p_color (make_particle d)"]
      length_concat_triples [of "\<lambda>d. p_pos (make_particle d)" ds]
    by (simp add: b attr_count_def)
qed

theorem particle_buffers_roundtrip_witness:
  "(1::nat) < length [(0::real, 0::real, 0::real, 0::real, 0::real), (0.5, 0, 1, 0.9, 0.2)]
   \<and> snd (snd (particle_buffers [(0, 0, 0, 0, 0), (0.5, 0, 1, 0.9, 0.2)])) ! 1 = 1"
  using particle_buffers_roundtrip [of 1 "[(0, 0, 0, 0, 0), (0.5, 0, 1, 0.9, 0.2)]"]
  by (simp add: make_particle_def Let_def)

text \<open>
  C28 (bounds). Every particle lies on the sphere of radius \<open>12 r1 + 3\<close> around the
  cloud's centre \<open>(0, 0, -8)\<close>, so in the shell between radius 3 and 15; its height
  above the centre is that radius times \<open>2 r3 - 1\<close>, linear in the polar draw.
\<close>

theorem particle_in_shell:
  assumes "0 \<le> r1" "r1 < 1" "0 \<le> r3" "r3 \<le> 1"
  shows "dist_sq (p_pos (make_particle (r1, r2, r3, r4, r5))) (0, 0, -8) = (r1 * 12 + 3)\<^sup>2
       \<and> 3 \<le> r1 * 12 + 3 \<and> r1 * 12 + 3 < 15
       \<and> snd (snd (p_pos (make_particle (r1, r2, r3, r4, r5)))) + 8 = (r1 * 12 + 3) * (2 * r3 - 1)"
  using assms spherical_norm [of "r1 * 12 + 3" "arccos (2 * r3 - 1)" "r2 * pi * 2"]
  by (simp add: make_particle_def dist_sq_def Let_def)

theorem particle_in_shell_witness:
  "(0::real) \<le> 0.5 \<and> (0.5::real) < 1 \<and> (0::real) \<le> 1 \<and> (1::real) \<le> 1
   \<and> dist_sq (p_pos (make_particle (0.5, 0.25, 1, 0.9, 0.1))) (0, 0, -8) = 81"
  using particle_in_shell [of "0.5" 1 "0.25" "0.9" "0.1"] by simp

text \<open>
  A particle is gold exactly when its colour draw exceeds 0.75
  (a quarter of the draws) and white otherwise, and its size lies in
  \<open>[0.5, 3)\<close>.
\<close>

theorem particle_color_size:
  assumes "0 \<le> r5" "r5 < 1"
  shows "(p_color (make_particle (r1, r2, r3, r4, r5)) = gold_color \<longleftrightarrow> 0.75 < r4)
       \<and> 0.5 \<le> p_size (make_particle (r1, r2, r3, r4, r5)) \<and> p_size (make_particle (r1, r2, r3, r4, r5)) < 3"
  using assms by (simp add: make_particle_def Let_def gold_color_def white_color_def hex_rgb_def)

theorem particle_color_size_witness:
  "(0::real) \<le> 0.2 \<and> (0.2::real) < 1
   \<and> p_color (make_particle (0, 0, 0, 0.8, 0.2)) = gold_color
   \<and> p_size (make_particle (0, 0, 0, 0.8, 0.2)) = 1"
  using particle_color_size [of "0.2" 0 0 0 "0.8"] by (simp add: make_particle_def Let_def)

text \<open>
  The three rings sit at depths \<open>z = -8, -11, -14\<close>, scaled by 1,
  1.8 and 2.6, with opacities 0.06, 0.045 and 0.03. Seen from the camera at rest,
  every vertex of a ring lies at view depth 13, 16 and 19, so the fog covers the
  rings by \<open>3888/4913\<close> (about 79 per cent), \<open>4725/4913\<close> (about 96 per cent) and
  entirely.
\<close>

theorem rings_under_fog:
  "rings_init = [\<lparr>ring_z = -8, ring_scale = 1, ring_opacity = 0.06\<rparr>,
                 \<lparr>ring_z = -11, ring_scale = 1.8, ring_opacity = 0.045\<rparr>,
                 \<lparr>ring_z = -14, ring_scale = 2.6, ring_opacity = 0.03\<rparr>]
   \<and> fog_factor (view_depth (camera_pos (initial_frame_state w h d)) (ring_vertex (rings_init ! 0) rot r a)) = 3888 / 4913
   \<and> fog_factor (view_depth (camera_pos (initial_frame_state w h d)) (ring_vertex (rings_init ! 1) rot r a)) = 4725 / 4913
   \<and> fog_factor (view_depth (camera_pos (initial_frame_state w h d)) (ring_vertex (rings_init ! 2) rot r a)) = 1"
  by (simp add: rings_init_def make_ring_def ring_vertex_def rest_depth fog_factor_def smoothstep_def
      fog_near_def fog_far_def Let_def upt_rec)

end
