(* ===== verification/SmoothScroll.thy ===== *)
theory SmoothScroll
  imports Prelude
begin

text \<open>
  The smooth scrolling of \<^verbatim>\<open>src/script.js\<close> (\<open>initLenis\<close>, lines 11--31). The page
  scroll is driven by Lenis with \<open>duration: 1.2\<close> and the easing
  \<open>t => Math.min(1, 1.001 - Math.pow(2, -10 * t))\<close>; Lenis is advanced by GSAP's
  ticker (\<open>lenis.raf(time * 1000)\<close>, GSAP's time being in seconds and Lenis's in
  ms, with lag smoothing off so that the ticker's time is the real elapsed time),
  and every scroll update Lenis emits calls \<open>ScrollTrigger.update\<close>.

  Lenis itself is a library; the model follows its documented behaviour for a
  scroll animation configured with a duration and an easing: \<open>raf(time)\<close> advances
  the running animation by \<open>(time - lastTime) / 1000\<close> seconds, the animation's
  linear progress is its elapsed time over the duration clamped to \<open>[0, 1]\<close>, the
  value is \<open>from + (to - from) * easing(progress)\<close>, and the animation completes,
  at exactly \<open>to\<close>, once the progress reaches 1. Each update emits one \<open>scroll\<close>
  event carrying the new position; a run returns the positions emitted.
\<close>

definition lenis_duration :: real where "lenis_duration = 1.2"

definition lenis_easing :: "real \<Rightarrow> real" where
  "lenis_easing t = min 1 (1.001 - 2 powr (-10 * t))"

record lenis_anim =
  anim_from :: real
  anim_to :: real
  anim_time :: real
  anim_value :: real
  anim_running :: bool

record lenis =
  l_anim :: lenis_anim
  l_last :: "real option"

text \<open>A scroll animation from \<open>a\<close> to \<open>b\<close> (a wheel gesture or \<open>scrollTo\<close>).\<close>

definition start_scroll :: "real \<Rightarrow> real \<Rightarrow> lenis_anim" where
  "start_scroll a b = \<lparr>anim_from = a, anim_to = b, anim_time = 0, anim_value = a, anim_running = True\<rparr>"

text \<open>The eased progress after \<open>e\<close> seconds.\<close>

definition eased_progress :: "real \<Rightarrow> real" where
  "eased_progress e =
     (let lp = min 1 (max 0 (e / lenis_duration)) in if 1 \<le> lp then 1 else lenis_easing lp)"

definition anim_advance :: "real \<Rightarrow> lenis_anim \<Rightarrow> lenis_anim \<times> real option" where
  "anim_advance dt a =
     (if \<not> anim_running a then (a, None)
      else let t = anim_time a + dt;
               v = anim_from a + (anim_to a - anim_from a) * eased_progress t
           in (a\<lparr>anim_time := t, anim_value := v, anim_running := (t < lenis_duration)\<rparr>, Some v))"

definition lenis_raf :: "real \<Rightarrow> lenis \<Rightarrow> lenis \<times> real option" where
  "lenis_raf now l =
     (let dt = now - (case l_last l of None \<Rightarrow> now | Some t \<Rightarrow> t);
          (a, ev) = anim_advance (dt * 0.001) (l_anim l)
      in (l\<lparr>l_anim := a, l_last := Some now\<rparr>, ev))"

text \<open>The callback added to \<open>gsap.ticker\<close>, called with the ticker's time in seconds.\<close>

definition ticker_tick :: "real \<Rightarrow> lenis \<Rightarrow> lenis \<times> real option" where
  "ticker_tick time l = lenis_raf (time * 1000) l"

fun lenis_run :: "lenis \<Rightarrow> real list \<Rightarrow> lenis \<times> real list" where
  "lenis_run l [] = (l, [])"
| "lenis_run l (t # ts) =
     (let (l1, ev) = ticker_tick t l;
          (l2, ys) = lenis_run l1 ts
      in (l2, (case ev of None \<Rightarrow> ys | Some y \<Rightarrow> y # ys)))"

subsection \<open>Lemmas\<close>

lemma lenis_easing_mono: "s \<le> t \<Longrightarrow> lenis_easing s \<le> lenis_easing t"
  unfolding lenis_easing_def by (intro min.mono order.refl diff_left_mono powr_mono) auto

lemma lenis_easing_le_1: "lenis_easing t \<le> 1"
  by (simp add: lenis_easing_def)

lemma lenis_easing_0: "lenis_easing 0 = 0.001"
  by (simp add: lenis_easing_def)

lemma lenis_easing_1: "lenis_easing 1 = 1"
  by (simp add: lenis_easing_def powr_minus powr_numeral)

lemma eased_progress_mono: "e \<le> e' \<Longrightarrow> eased_progress e \<le> eased_progress e'"
  unfolding eased_progress_def Let_def
  using lenis_easing_mono [of "min 1 (max 0 (e / lenis_duration))" "min 1 (max 0 (e' / lenis_duration))"]
    lenis_easing_le_1 [of "min 1 (max 0 (e / lenis_duration))"]
  by (auto simp: lenis_duration_def divide_right_mono)

lemma eased_progress_bounds: "0 \<le> eased_progress e \<and> eased_progress e \<le> 1"
proof -
  have "lenis_easing 0 \<le> lenis_easing (min 1 (max 0 (e / lenis_duration)))"
    by (rule lenis_easing_mono) simp
  then show ?thesis
    using lenis_easing_le_1 [of "min 1 (max 0 (e / lenis_duration))"]
    by (auto simp: eased_progress_def Let_def lenis_easing_0)
qed

lemma eased_progress_done: "lenis_duration \<le> e \<Longrightarrow> eased_progress e = 1"
  by (simp add: eased_progress_def lenis_duration_def)

text \<open>The value of an animation from \<open>a\<close> to \<open>b\<close> at ticker time \<open>t\<close>, started at \<open>t0\<close>.\<close>

definition scroll_curve :: "real \<Rightarrow> real \<Rightarrow> real \<Rightarrow> real \<Rightarrow> real" where
  "scroll_curve a b t0 t = a + (b - a) * eased_progress (t - t0)"

lemma lenis_run_step:
  "lenis_run l (t # ts)
   = (fst (lenis_run (fst (ticker_tick t l)) ts),
      case snd (ticker_tick t l) of None \<Rightarrow> snd (lenis_run (fst (ticker_tick t l)) ts)
      | Some y \<Rightarrow> y # snd (lenis_run (fst (ticker_tick t l)) ts))"
  by (simp add: split_beta)

lemma lenis_run_stopped:
  "\<not> anim_running (l_anim l) \<Longrightarrow> snd (lenis_run l ts) = [] \<and> l_anim (fst (lenis_run l ts)) = l_anim l"
  by (induction ts arbitrary: l)
     (simp_all add: ticker_tick_def lenis_raf_def anim_advance_def Let_def split: prod.splits)

lemma ticker_tick_running:
  assumes "anim_running (l_anim l)" "l_last l = Some ((t0 + anim_time (l_anim l)) * 1000)"
  shows "ticker_tick t l
         = (l\<lparr>l_anim := (l_anim l)\<lparr>anim_time := t - t0,
                 anim_value := scroll_curve (anim_from (l_anim l)) (anim_to (l_anim l)) t0 t,
                 anim_running := (t < t0 + lenis_duration)\<rparr>, l_last := Some (t * 1000)\<rparr>,
            Some (scroll_curve (anim_from (l_anim l)) (anim_to (l_anim l)) t0 t))"
proof -
  have "anim_time (l_anim l) + (t * 1000 - (t0 + anim_time (l_anim l)) * 1000) * 0.001 = t - t0"
    by (simp add: algebra_simps)
  moreover have "t - t0 < lenis_duration \<longleftrightarrow> t < t0 + lenis_duration" by linarith
  ultimately show ?thesis
    using assms by (simp add: ticker_tick_def lenis_raf_def anim_advance_def scroll_curve_def Let_def)
qed

lemma lenis_run_emits:
  assumes "anim_running (l_anim l)" "l_last l = Some ((t0 + anim_time (l_anim l)) * 1000)"
  shows "snd (lenis_run l ts)
         = map (scroll_curve (anim_from (l_anim l)) (anim_to (l_anim l)) t0)
             (takeWhile (\<lambda>t. t < t0 + lenis_duration) ts @ take 1 (dropWhile (\<lambda>t. t < t0 + lenis_duration) ts))"
  using assms
proof (induction ts arbitrary: l)
  case Nil
  then show ?case by simp
next
  case (Cons t ts)
  define l1 where "l1 = fst (ticker_tick t l)"
  have tick: "ticker_tick t l = (l1, Some (scroll_curve (anim_from (l_anim l)) (anim_to (l_anim l)) t0 t))"
    and a: "anim_from (l_anim l1) = anim_from (l_anim l)" "anim_to (l_anim l1) = anim_to (l_anim l)"
    and r: "anim_running (l_anim l1) \<longleftrightarrow> t < t0 + lenis_duration"
    and last: "l_last l1 = Some ((t0 + anim_time (l_anim l1)) * 1000)"
    using ticker_tick_running [OF Cons.prems, of t] by (simp_all add: l1_def)
  show ?case
  proof (cases "t < t0 + lenis_duration")
    case True
    then have "snd (lenis_run l1 ts)
         = map (scroll_curve (anim_from (l_anim l)) (anim_to (l_anim l)) t0)
             (takeWhile (\<lambda>t. t < t0 + lenis_duration) ts @ take 1 (dropWhile (\<lambda>t. t < t0 + lenis_duration) ts))"
      using Cons.IH [of l1] r last a by simp
    with True tick show ?thesis by (simp add: lenis_run_step del: lenis_run.simps(2))
  next
    case False
    then have "snd (lenis_run l1 ts) = []" using lenis_run_stopped [of l1 ts] r by simp
    with False tick show ?thesis by (simp add: lenis_run_step del: lenis_run.simps(2))
  qed
qed

lemma lenis_run_final:
  assumes "anim_running (l_anim l)" "l_last l = Some ((t0 + anim_time (l_anim l)) * 1000)"
    and "list_ex (\<lambda>t. t0 + lenis_duration \<le> t) ts"
  shows "anim_value (l_anim (fst (lenis_run l ts))) = anim_to (l_anim l)
       \<and> \<not> anim_running (l_anim (fst (lenis_run l ts)))"
  using assms
proof (induction ts arbitrary: l)
  case Nil
  then show ?case by simp
next
  case (Cons t ts)
  define l1 where "l1 = fst (ticker_tick t l)"
  have tick: "ticker_tick t l = (l1, Some (scroll_curve (anim_from (l_anim l)) (anim_to (l_anim l)) t0 t))"
    and a: "anim_to (l_anim l1) = anim_to (l_anim l)"
    and v: "anim_value (l_anim l1) = scroll_curve (anim_from (l_anim l)) (anim_to (l_anim l)) t0 t"
    and r: "anim_running (l_anim l1) \<longleftrightarrow> t < t0 + lenis_duration"
    and last: "l_last l1 = Some ((t0 + anim_time (l_anim l1)) * 1000)"
    using ticker_tick_running [OF Cons.prems(1,2), of t] by (simp_all add: l1_def)
  show ?case
  proof (cases "t < t0 + lenis_duration")
    case True
    then have "list_ex (\<lambda>t. t0 + lenis_duration \<le> t) ts" using Cons.prems(3) by simp
    then show ?thesis using Cons.IH [of l1] True r last a tick by (simp add: lenis_run_step del: lenis_run.simps(2))
  next
    case False
    then have "anim_value (l_anim l1) = anim_to (l_anim l)"
      using v eased_progress_done [of "t - t0"] by (simp add: scroll_curve_def)
    then show ?thesis
      using lenis_run_stopped [of l1 ts] False r tick by (simp add: lenis_run_step del: lenis_run.simps(2))
  qed
qed

lemma scroll_curve_mono: "a \<le> b \<Longrightarrow> t \<le> t' \<Longrightarrow> scroll_curve a b t0 t \<le> scroll_curve a b t0 t'"
  unfolding scroll_curve_def using eased_progress_mono [of "t - t0" "t' - t0"]
  by (simp add: mult_left_mono)

lemma scroll_curve_between: "a \<le> b \<Longrightarrow> a \<le> scroll_curve a b t0 t \<and> scroll_curve a b t0 t \<le> b"
proof -
  assume ab: "a \<le> b"
  have e: "0 \<le> eased_progress (t - t0)" "eased_progress (t - t0) \<le> 1" using eased_progress_bounds by simp_all
  have "(b - a) * eased_progress (t - t0) \<le> (b - a) * 1" using ab e by (intro mult_left_mono) simp_all
  then show ?thesis using ab e by (simp add: scroll_curve_def)
qed

lemma takeWhile_take1:
  "takeWhile P xs @ take 1 (dropWhile P xs) = take (Suc (length (takeWhile P xs))) xs"
  by (induction xs) auto

lemma lenis_scroll_sorted:
  assumes "a \<le> b" "sorted ts"
  shows "sorted (snd (lenis_run \<lparr>l_anim = start_scroll a b, l_last = Some (t0 * 1000)\<rparr> ts))
       \<and> list_all (\<lambda>y. a \<le> y \<and> y \<le> b) (snd (lenis_run \<lparr>l_anim = start_scroll a b, l_last = Some (t0 * 1000)\<rparr> ts))"
proof -
  let ?l = "\<lparr>l_anim = start_scroll a b, l_last = Some (t0 * 1000)\<rparr>"
  let ?us = "take (Suc (length (takeWhile (\<lambda>t. t < t0 + lenis_duration) ts))) ts"
  have e: "snd (lenis_run ?l ts) = map (scroll_curve a b t0) ?us"
    using lenis_run_emits [of ?l t0 ts] unfolding takeWhile_take1 by (simp add: start_scroll_def)
  have "sorted ?us" using assms(2) by (simp add: sorted_wrt_take)
  then have "sorted (map (scroll_curve a b t0) ?us)"
    unfolding sorted_map by (rule sorted_wrt_mono_rel [rotated]) (simp add: scroll_curve_mono [OF assms(1)])
  moreover have "list_all (\<lambda>y. a \<le> y \<and> y \<le> b) (map (scroll_curve a b t0) ?us)"
    using scroll_curve_between [OF assms(1)] by (simp add: list_all_iff)
  ultimately show ?thesis by (simp only: e)
qed

lemma lenis_easing_saturates: "lenis_easing t = 1 \<longleftrightarrow> log 2 1000 / 10 \<le> t"
proof -
  have "lenis_easing t = 1 \<longleftrightarrow> 2 powr (-10 * t) \<le> 0.001" by (auto simp: lenis_easing_def min_def)
  also have "\<dots> \<longleftrightarrow> -10 * t \<le> log 2 0.001" using le_log_iff [of 2 "0.001" "-10 * t"] by simp
  also have "log 2 0.001 = - log 2 1000" by (simp add: log_divide)
  finally show ?thesis by auto
qed

lemma lenis_scroll_last:
  assumes "list_ex (\<lambda>t. t0 + lenis_duration \<le> t) ts"
  shows "snd (lenis_run \<lparr>l_anim = start_scroll a b, l_last = Some (t0 * 1000)\<rparr> ts) \<noteq> []
       \<and> last (snd (lenis_run \<lparr>l_anim = start_scroll a b, l_last = Some (t0 * 1000)\<rparr> ts)) = b"
proof -
  let ?l = "\<lparr>l_anim = start_scroll a b, l_last = Some (t0 * 1000)\<rparr>"
  let ?P = "\<lambda>t. t < t0 + lenis_duration"
  have ne: "dropWhile ?P ts \<noteq> []" using assms by (auto simp: list_ex_iff dropWhile_eq_Nil_conv not_less)
  then have h: "\<not> ?P (hd (dropWhile ?P ts))" by (rule hd_dropWhile)
  have t1: "take 1 (dropWhile ?P ts) = [hd (dropWhile ?P ts)]" using ne by (cases "dropWhile ?P ts") simp_all
  have e: "snd (lenis_run ?l ts) = map (scroll_curve a b t0) (takeWhile ?P ts @ [hd (dropWhile ?P ts)])"
    using lenis_run_emits [of ?l t0 ts] t1 by (simp add: start_scroll_def)
  have "scroll_curve a b t0 (hd (dropWhile ?P ts)) = b"
    using h eased_progress_done [of "hd (dropWhile ?P ts) - t0"] by (simp add: scroll_curve_def)
  then show ?thesis by (simp add: e)
qed

subsection \<open>Properties\<close>

text \<open>
  C31 (functional, spec gap). The easing of \<open>initLenis\<close> is monotone and never
  exceeds 1, but it does not start at 0: \<open>easing(0) = 0.001\<close>, so the first frame
  of every smooth scroll already covers a thousandth of the distance; it reaches 1
  exactly from \<open>t = log2(1000) / 10 \<approx> 0.9966\<close> on, and \<open>easing(1) = 1\<close>.
\<close>

theorem lenis_easing_shape:
  "mono lenis_easing \<and> lenis_easing 0 = 0.001 \<and> lenis_easing 1 = 1 \<and> lenis_easing t \<le> 1
   \<and> (lenis_easing t = 1 \<longleftrightarrow> log 2 1000 / 10 \<le> t)"
  by (simp add: monoI lenis_easing_mono lenis_easing_0 lenis_easing_1 lenis_easing_le_1 lenis_easing_saturates)

text \<open>
  C32 (liveness). A smooth scroll from \<open>a\<close> down to \<open>b\<close> driven by GSAP's ticker
  emits scroll positions that only move forwards and stay between \<open>a\<close> and \<open>b\<close>,
  and once the ticker has run 1.2 s past the start the scroll has stopped exactly
  at \<open>b\<close>.
\<close>

theorem lenis_scroll_settles:
  assumes "a \<le> b" and "sorted ts" and "list_ex (\<lambda>t. t0 + lenis_duration \<le> t) ts"
  shows "sorted (snd (lenis_run \<lparr>l_anim = start_scroll a b, l_last = Some (t0 * 1000)\<rparr> ts))
       \<and> list_all (\<lambda>y. a \<le> y \<and> y \<le> b) (snd (lenis_run \<lparr>l_anim = start_scroll a b, l_last = Some (t0 * 1000)\<rparr> ts))
       \<and> anim_value (l_anim (fst (lenis_run \<lparr>l_anim = start_scroll a b, l_last = Some (t0 * 1000)\<rparr> ts))) = b
       \<and> \<not> anim_running (l_anim (fst (lenis_run \<lparr>l_anim = start_scroll a b, l_last = Some (t0 * 1000)\<rparr> ts)))"
  using lenis_scroll_sorted [OF assms(1,2), of t0]
    lenis_run_final [of "\<lparr>l_anim = start_scroll a b, l_last = Some (t0 * 1000)\<rparr>" t0 ts] assms(3)
  by (simp add: start_scroll_def)

theorem lenis_scroll_settles_witness:
  "(0::real) \<le> 100 \<and> sorted [0.5 :: real, 1, 1.5] \<and> list_ex (\<lambda>t. 0 + lenis_duration \<le> t) [0.5 :: real, 1, 1.5]
   \<and> anim_value (l_anim (fst (lenis_run \<lparr>l_anim = start_scroll 0 100, l_last = Some (0 * 1000)\<rparr> [0.5, 1, 1.5]))) = 100"
proof -
  have h: "sorted [0.5 :: real, 1, 1.5]" "list_ex (\<lambda>t. 0 + lenis_duration \<le> t) [0.5 :: real, 1, 1.5]"
    by (simp_all add: lenis_duration_def)
  show ?thesis using h lenis_scroll_settles [of 0 100 "[0.5, 1, 1.5]" 0] by simp
qed

end
