(* ===== verification/Parallax.thy ===== *)
theory Parallax
  imports Prelude
begin

text \<open>
  The scroll-scrubbed tweens of \<^verbatim>\<open>src/script.js\<close>: the \<open>.parallax-text\<close> headings
  (\<open>initScrollAnimations\<close>, lines 472--483) and the hero banner and title
  (\<open>initHeroAnimations\<close>, 559--587), and the endless scroll-line tween (549--556).

  A scrubbed tween with \<open>ease: 'none'\<close> maps the scroll progress of its trigger,
  \<open>(y - start) / (end - start)\<close> clamped to \<open>[0, 1]\<close>, linearly onto its properties,
  from the values they had when the tween recorded them to the values of the
  call. With the element's top at \<open>el_top\<close>, its height \<open>h\<close> and the viewport's
  height \<open>vh\<close>, \<open>start: 'top bottom'\<close> is the scroll position at which the
  element's top meets the viewport's bottom (\<open>el_top - vh\<close>), \<open>'top top'\<close> the one
  at which it meets the viewport's top (\<open>el_top\<close>), \<open>end: 'bottom top'\<close> the one
  at which its bottom does (\<open>el_top + h\<close>). With \<open>scrub: n\<close> ScrollTrigger does not jump to the new progress: on
  every scroll update it starts a tween of the play head from where it is to the
  new progress, lasting \<open>n\<close> seconds with the \<open>power3\<close> (out) ease; the model
  records that catch-up tween as library behaviour.

  The start values of a \<open>.to()\<close> tween are the values its properties have when it
  first renders. A \<open>.parallax-text\<close> heading has no other tween of \<open>yPercent\<close>,
  so it starts from 0. The hero banner and title are also animated by the hero
  entrance (\<open>opacity\<close>, \<open>scale\<close>), which starts 200 ms after the scrubbed tweens are
  created, and ScrollTrigger renders a scrubbed tween when it is created: their
  recorded start values are the elements' styles before the entrance, which the
  stylesheet (not part of \<^verbatim>\<open>src/\<close>) sets. The model takes them as parameters.
\<close>

record scrub_tween =
  px_start :: real
  px_end :: real
  px_scrub :: real
  px_props :: "(string \<times> real \<times> real) list"

definition scroll_progress :: "real \<Rightarrow> real \<Rightarrow> real \<Rightarrow> real" where
  "scroll_progress s e y = min 1 (max 0 ((y - s) / (e - s)))"

definition power3_out :: "real \<Rightarrow> real" where
  "power3_out x = 1 - (1 - x) ^ 4"

definition scrub_catchup :: "real \<Rightarrow> real \<Rightarrow> real \<Rightarrow> real \<Rightarrow> real" where
  "scrub_catchup n p0 target dt = p0 + (target - p0) * power3_out (min 1 (max 0 (dt / n)))"

definition parallax_text :: "real \<Rightarrow> real \<Rightarrow> real \<Rightarrow> scrub_tween" where
  "parallax_text el_top h vh =
     \<lparr>px_start = el_top - vh, px_end = el_top + h, px_scrub = 1.5, px_props = [(''yPercent'', 0, -25)]\<rparr>"

text \<open>The banner's recorded \<open>(yPercent, scale, opacity)\<close> and the title's recorded
  \<open>(yPercent, opacity)\<close> are the parameters \<open>(y0, s0, o0)\<close> and \<open>(y0, o0)\<close>.\<close>

definition hero_banner_parallax :: "real \<Rightarrow> real \<Rightarrow> real \<times> real \<times> real \<Rightarrow> scrub_tween" where
  "hero_banner_parallax el_top h st =
     (case st of (y0, s0, o0) \<Rightarrow>
       \<lparr>px_start = el_top, px_end = el_top + h, px_scrub = 1,
        px_props = [(''yPercent'', y0, -20), (''scale'', s0, 0.95), (''opacity'', o0, 0.5)]\<rparr>)"

definition hero_title_parallax :: "real \<Rightarrow> real \<Rightarrow> real \<times> real \<Rightarrow> scrub_tween" where
  "hero_title_parallax el_top h st =
     (case st of (y0, o0) \<Rightarrow>
       \<lparr>px_start = el_top, px_end = el_top + h, px_scrub = 1,
        px_props = [(''yPercent'', y0, -30), (''opacity'', o0, 0.3)]\<rparr>)"

text \<open>The hero's scrubbed tweens, each created only when its element exists.\<close>

definition hero_parallax :: "bool \<Rightarrow> bool \<Rightarrow> real \<Rightarrow> real \<Rightarrow> real \<times> real \<times> real \<Rightarrow> real \<times> real
    \<Rightarrow> scrub_tween list" where
  "hero_parallax has_banner has_title el_top h bst tst =
     (if has_banner then [hero_banner_parallax el_top h bst] else [])
     @ (if has_title then [hero_title_parallax el_top h tst] else [])"

definition parallax_values :: "scrub_tween \<Rightarrow> real \<Rightarrow> (string \<times> real) list" where
  "parallax_values tw p = map (\<lambda>(n, a, b). (n, a + (b - a) * p)) (px_props tw)"

text \<open>The values rendered \<open>dt\<close> seconds after the last scroll update moved the
  page to \<open>y\<close>, the play head having been at \<open>p0\<close>.\<close>

definition parallax_render :: "scrub_tween \<Rightarrow> real \<Rightarrow> real \<Rightarrow> real \<Rightarrow> (string \<times> real) list" where
  "parallax_render tw p0 y dt =
     parallax_values tw (scrub_catchup (px_scrub tw) p0 (scroll_progress (px_start tw) (px_end tw) y) dt)"

subsection \<open>The scroll line\<close>

text \<open>\<open>repeat: -1, yoyo: true, duration: 1.5\<close>: the tween of \<open>scaleY\<close> from 1 to 0.5
  runs forwards and backwards alternately, forever; \<open>power2.inOut\<close> is
  the cubic \<open>4 x^3\<close> below one half and \<open>1 - 4 (1 - x)^3\<close> above.\<close>

definition power2_inout :: "real \<Rightarrow> real" where
  "power2_inout x = (if x < 0.5 then 4 * x ^ 3 else 1 - 4 * (1 - x) ^ 3)"

definition scroll_line_scale :: "real \<Rightarrow> real" where
  "scroll_line_scale t =
     (let k = \<lfloor>t / 1.5\<rfloor>; x = (t - 1.5 * k) / 1.5;
          p = (if even k then x else 1 - x)
      in 1 + (0.5 - 1) * power2_inout p)"

subsection \<open>Lemmas\<close>

lemma scroll_progress_bounds: "0 \<le> scroll_progress s e y \<and> scroll_progress s e y \<le> 1"
  by (simp add: scroll_progress_def)

lemma scroll_progress_mono:
  "s < e \<Longrightarrow> y \<le> y' \<Longrightarrow> scroll_progress s e y \<le> scroll_progress s e y'"
  unfolding scroll_progress_def by (intro min.mono max.mono order.refl divide_right_mono) simp_all

lemma scroll_progress_ends:
  "s < e \<Longrightarrow> y \<le> s \<Longrightarrow> scroll_progress s e y = 0"
  "s < e \<Longrightarrow> e \<le> y \<Longrightarrow> scroll_progress s e y = 1"
  by (simp_all add: scroll_progress_def divide_nonpos_pos)

lemma power3_out_bounds: "0 \<le> x \<Longrightarrow> x \<le> 1 \<Longrightarrow> 0 \<le> power3_out x \<and> power3_out x \<le> 1"
  by (simp add: power3_out_def power_le_one)

lemma scrub_catchup_done: "0 < n \<Longrightarrow> n \<le> dt \<Longrightarrow> scrub_catchup n p0 target dt = target"
  by (simp add: scrub_catchup_def power3_out_def)

lemma scrub_catchup_between:
  assumes "p0 \<le> target"
  shows "p0 \<le> scrub_catchup n p0 target dt \<and> scrub_catchup n p0 target dt \<le> target"
proof -
  let ?e = "power3_out (min 1 (max 0 (dt / n)))"
  have e: "0 \<le> ?e" "?e \<le> 1" using power3_out_bounds [of "min 1 (max 0 (dt / n))"] by simp_all
  have "(target - p0) * ?e \<le> (target - p0) * 1" using assms e by (intro mult_left_mono) simp_all
  then show ?thesis using assms e by (simp add: scrub_catchup_def)
qed

lemma power2_inout_bounds:
  fixes p :: real
  assumes "0 \<le> p" "p \<le> 1"
  shows "0 \<le> power2_inout p \<and> power2_inout p \<le> 1"
proof (cases "p < 0.5")
  case True
  then have "p ^ 3 \<le> (1 / 2) ^ 3" using assms by (intro power_mono) simp_all
  then have "4 * p ^ 3 \<le> 1 / 2" by (simp add: power_divide)
  moreover have "0 \<le> p ^ 3" using assms by simp
  ultimately show ?thesis using True by (simp add: power2_inout_def)
next
  case False
  then have "(1 - p) ^ 3 \<le> (1 / 2) ^ 3" using assms by (intro power_mono) simp_all
  then have "4 * (1 - p) ^ 3 \<le> 1 / 2" by (simp add: power_divide)
  moreover have "0 \<le> (1 - p) ^ 3" using assms by simp
  ultimately show ?thesis using False by (simp add: power2_inout_def)
qed

lemma scroll_line_bounds: "0.5 \<le> scroll_line_scale t \<and> scroll_line_scale t \<le> 1"
proof -
  define k where "k = \<lfloor>t / 1.5\<rfloor>"
  define x where "x = (t - 1.5 * k) / 1.5"
  have "real_of_int k \<le> t / 1.5" "t / 1.5 < real_of_int k + 1" unfolding k_def by linarith+
  then have x: "0 \<le> x" "x < 1" unfolding x_def by (simp_all add: field_simps)
  have "\<And>p. 0 \<le> p \<Longrightarrow> p \<le> 1 \<Longrightarrow> 0 \<le> power2_inout p \<and> power2_inout p \<le> 1"
    by (rule power2_inout_bounds)
  then have "0 \<le> power2_inout (if even k then x else 1 - x) \<and> power2_inout (if even k then x else 1 - x) \<le> 1"
    using x by auto
  moreover have "scroll_line_scale t = 1 - 0.5 * power2_inout (if even k then x else 1 - x)"
    unfolding scroll_line_scale_def Let_def k_def x_def by simp
  ultimately show ?thesis by simp
qed

lemma scroll_line_period: "scroll_line_scale (t + 3) = scroll_line_scale t"
proof -
  have "\<lfloor>(t + 3) / 1.5\<rfloor> = \<lfloor>t / 1.5\<rfloor> + 2"
  proof -
    have "(t + 3) / 1.5 = t / 1.5 + of_int 2" by simp
    then show ?thesis by (simp only: floor_add_int [symmetric])
  qed
  then show ?thesis by (simp add: scroll_line_scale_def Let_def algebra_simps)
qed

lemma parallax_render_settled:
  "0 < px_scrub tw \<Longrightarrow> px_scrub tw \<le> dt
   \<Longrightarrow> parallax_render tw p0 y dt = parallax_values tw (scroll_progress (px_start tw) (px_end tw) y)"
  by (simp add: parallax_render_def scrub_catchup_done)

subsection \<open>Properties\<close>

text \<open>
  C26 (liveness). Once the page has rested at scroll position \<open>y\<close> for the scrub
  time (1.5 s for the headings, 1 s for the hero), every scrubbed tween shows
  exactly the values of the scroll progress \<open>p\<close> of \<open>y\<close> through its trigger,
  wherever its play head was: a \<open>.parallax-text\<close> heading is raised by
  \<open>25 p\<close> per cent; the hero banner and title move linearly from the values they
  recorded to those of the call. Past the bottom of the hero the banner rests at
  \<open>-20%\<close>, \<open>0.95\<close> and \<open>0.5\<close> and the title at \<open>-30%\<close> and \<open>0.3\<close>, whatever was
  recorded; above the hero's top they show exactly the recorded values, so a
  page scrolled back to the top shows the banner and title with the styles they
  had before the entrance, not the entrance's end values.
\<close>

theorem parallax_follows_scroll:
  assumes "1.5 \<le> dt"
  shows "parallax_render (parallax_text el_top h vh) p0 y dt
           = [(''yPercent'', -25 * scroll_progress (el_top - vh) (el_top + h) y)]
       \<and> parallax_render (hero_banner_parallax el_top h' (y0, s0, o0)) p0 y dt
           = [(''yPercent'', y0 + (-20 - y0) * scroll_progress el_top (el_top + h') y),
              (''scale'', s0 + (0.95 - s0) * scroll_progress el_top (el_top + h') y),
              (''opacity'', o0 + (0.5 - o0) * scroll_progress el_top (el_top + h') y)]
       \<and> parallax_render (hero_title_parallax el_top h' (y1, o1)) p0 y dt
           = [(''yPercent'', y1 + (-30 - y1) * scroll_progress el_top (el_top + h') y),
              (''opacity'', o1 + (0.3 - o1) * scroll_progress el_top (el_top + h') y)]
       \<and> (0 < h' \<and> el_top + h' \<le> y \<longrightarrow>
            parallax_render (hero_banner_parallax el_top h' (y0, s0, o0)) p0 y dt
              = [(''yPercent'', -20), (''scale'', 0.95), (''opacity'', 0.5)]
            \<and> parallax_render (hero_title_parallax el_top h' (y1, o1)) p0 y dt
              = [(''yPercent'', -30), (''opacity'', 0.3)])
       \<and> (0 < h' \<and> y \<le> el_top \<longrightarrow>
            parallax_render (hero_banner_parallax el_top h' (y0, s0, o0)) p0 y dt
              = [(''yPercent'', y0), (''scale'', s0), (''opacity'', o0)]
            \<and> parallax_render (hero_title_parallax el_top h' (y1, o1)) p0 y dt
              = [(''yPercent'', y1), (''opacity'', o1)])"
proof -
  have t: "parallax_render (parallax_text el_top h vh) p0 y dt
           = parallax_values (parallax_text el_top h vh) (scroll_progress (el_top - vh) (el_top + h) y)"
    using assms parallax_render_settled [of "parallax_text el_top h vh" dt p0 y] by (simp add: parallax_text_def)
  have b: "parallax_render (hero_banner_parallax el_top h' (y0, s0, o0)) p0 y dt
           = parallax_values (hero_banner_parallax el_top h' (y0, s0, o0)) (scroll_progress el_top (el_top + h') y)"
    using assms parallax_render_settled [of "hero_banner_parallax el_top h' (y0, s0, o0)" dt p0 y]
    by (simp add: hero_banner_parallax_def)
  have c: "parallax_render (hero_title_parallax el_top h' (y1, o1)) p0 y dt
           = parallax_values (hero_title_parallax el_top h' (y1, o1)) (scroll_progress el_top (el_top + h') y)"
    using assms parallax_render_settled [of "hero_title_parallax el_top h' (y1, o1)" dt p0 y]
    by (simp add: hero_title_parallax_def)
  have e: "0 < h' \<and> el_top + h' \<le> y \<longrightarrow> scroll_progress el_top (el_top + h') y = 1"
    using scroll_progress_ends(2) [of el_top "el_top + h'" y] by simp
  have z: "0 < h' \<and> y \<le> el_top \<longrightarrow> scroll_progress el_top (el_top + h') y = 0"
    using scroll_progress_ends(1) [of el_top "el_top + h'" y] by simp
  show ?thesis
    using t b c e z by (simp add: parallax_values_def parallax_text_def hero_banner_parallax_def
        hero_title_parallax_def algebra_simps)
qed

theorem parallax_follows_scroll_witness:
  "(1.5::real) \<le> 2
   \<and> parallax_render (hero_banner_parallax 0 800 (0, 1.1, 0)) 0 1000 2
       = [(''yPercent'', -20), (''scale'', 0.95), (''opacity'', 0.5)]
   \<and> parallax_render (hero_banner_parallax 0 800 (0, 1.1, 0)) 0.4 0 2
       = [(''yPercent'', 0), (''scale'', 1.1), (''opacity'', 0)]"
proof -
  have h: "(1.5::real) \<le> 2" by simp
  have c: "0 < (800::real) \<and> 0 + 800 \<le> (1000::real)" "0 < (800::real) \<and> (0::real) \<le> 0" by simp_all
  show ?thesis
    using h c parallax_follows_scroll [OF h, of 0 100 600 0 1000 800 0 "1.1" 0]
      parallax_follows_scroll [OF h, of 0 100 600 "0.4" 0 800 0 "1.1" 0]
    by blast
qed

end
