(* ===== verification/Render.thy ===== *)
theory Render
  imports Scene
begin

text \<open>
  What the renderer makes of the scene of \<^verbatim>\<open>src/script.js\<close> each frame
  (\<open>renderer.render(scene, camera)\<close>, line 202): the particle cloud's object
  transform, the camera's clipping range, and how the rings and the particle
  sprites are composed into one pixel through the depth buffer.

  \<^item> The frame loop sets \<open>particles.rotation.y = time * 0.03\<close> and
    \<open>particles.rotation.x = sin(time * 0.08) * 0.08\<close> (lines 187--190). Three.js
    turns the object about its own origin, with Euler order \<open>XYZ\<close>: the world
    position of a vertex \<open>v\<close> is \<open>R\<^sub>x (R\<^sub>y v)\<close> (\<open>rotation.z\<close> stays 0, the position
    and scale of the \<open>Points\<close> object are never set). The particle positions are
    centred on \<open>(0, 0, -8)\<close> (line 75), not on the object's origin.
  \<^item> \<open>PerspectiveCamera(75, aspect, 0.1, 1000)\<close> (line 47): a point at view depth
    \<open>d\<close> (\<open>-mvPosition.z\<close>, \<open>Scene.view_depth\<close> for the camera turned to the origin)
    is kept by the clipper when its normalised depth, from the projection matrix
    of \<open>Matrix4.makePerspective\<close>, lies in \<open>[-1, 1]\<close> and its \<open>w\<close> is positive.
  \<^item> The particle material is \<open>transparent\<close>, with \<open>depthWrite: false\<close> and
    \<open>THREE.AdditiveBlending\<close> (lines 133--135): a fragment of colour \<open>c\<close> and
    opacity \<open>a\<close> (\<open>gl_FragColor = vec4(vColor, alpha)\<close>, line 130) adds \<open>a c\<close> to
    the pixel (source factor \<open>SRC_ALPHA\<close>, destination factor \<open>ONE\<close>), and the
    8-bit colour buffer clamps each channel to \<open>[0, 1]\<close>. The rings'
    \<open>MeshBasicMaterial\<close> is transparent too but keeps normal blending and
    \<open>depthWrite: true\<close>; the renderer draws transparent objects back to front.
\<close>

subsection \<open>The particle cloud's transform\<close>

definition euler_rot_x :: "real \<Rightarrow> vec3 \<Rightarrow> vec3" where
  "euler_rot_x a p = (case p of (x, y, z) \<Rightarrow> (x, y * cos a - z * sin a, y * sin a + z * cos a))"

definition euler_rot_y :: "real \<Rightarrow> vec3 \<Rightarrow> vec3" where
  "euler_rot_y a p = (case p of (x, y, z) \<Rightarrow> (x * cos a + z * sin a, y, - x * sin a + z * cos a))"

definition particles_world :: "frame_state \<Rightarrow> vec3 \<Rightarrow> vec3" where
  "particles_world s p = euler_rot_x (rot_x s) (euler_rot_y (rot_y s) p)"

text \<open>The centre of the spherical shell the particle loop fills, in the object's
  coordinates.\<close>

definition cloud_centre :: vec3 where
  "cloud_centre = (0, 0, -8)"

text \<open>Where particle \<open>p\<close> is drawn: the vertex shader's floating offset, then the
  object transform.\<close>

definition particle_world :: "frame_state \<Rightarrow> particle \<Rightarrow> vec3" where
  "particle_world s p = particles_world s (vertex_float (u_time s) (p_pos p))"

subsection \<open>Clipping by the perspective camera\<close>

definition camera_near :: real where "camera_near = 0.1"
definition camera_far :: real where "camera_far = 1000"

text \<open>Normalised device depth of a point at view depth \<open>d\<close>: clip \<open>z\<close> is
  \<open>-(f + n) / (f - n) z - 2 f n / (f - n)\<close> for view \<open>z = -d\<close>, and clip \<open>w = d\<close>.\<close>

definition ndc_depth :: "real \<Rightarrow> real" where
  "ndc_depth d =
     ((camera_far + camera_near) / (camera_far - camera_near) * d
      - 2 * camera_far * camera_near / (camera_far - camera_near)) / d"

definition depth_clipped :: "real \<Rightarrow> bool" where
  "depth_clipped d \<longleftrightarrow> d \<le> 0 \<or> ndc_depth d < -1 \<or> 1 < ndc_depth d"

subsection \<open>Additive blending\<close>

definition clamp01 :: "real \<Rightarrow> real" where
  "clamp01 x = min 1 (max 0 x)"

definition additive_blend :: "rgb \<times> real \<Rightarrow> rgb \<Rightarrow> rgb" where
  "additive_blend f dst =
     (case f of ((r, g, b), a) \<Rightarrow> case dst of (r', g', b') \<Rightarrow>
        (clamp01 (r' + r * a), clamp01 (g' + g * a), clamp01 (b' + b * a)))"

subsection \<open>The depth buffer and the draw order\<close>

text \<open>One pixel of the frame: its colour and the depth stored for it (the view
  depth; the buffer stores a monotone function of it, which orders fragments in
  the same way). A fragment passes Three.js's default depth test
  \<open>LessEqualDepth\<close> when it is no deeper than the stored depth; it is then blended
  by its material's blending, and it stores its depth if the material writes
  depth. The clear resets the pixel to the clear colour and the far plane.
  The rings' \<open>MeshBasicMaterial\<close> (lines 143--148) keeps the defaults
  \<open>depthWrite: true\<close> and normal blending and is fogged; the particles'
  \<open>ShaderMaterial\<close> has \<open>depthWrite: false\<close>, additive blending and no fog.
  Three.js draws transparent objects (all four here) back to front by the depth
  of their origins, ties in the order they were added (the particles at line 139,
  then the rings at 156): \<open>draw_order\<close>, a stable sort.\<close>

datatype blend_mode = NormalBlending | AdditiveBlending

record fragment =
  fr_color :: rgb
  fr_alpha :: real
  fr_depth :: real
  fr_mode :: blend_mode
  fr_depth_write :: bool

record pixel =
  px_color :: rgb
  px_depth :: real

definition blend_with :: "blend_mode \<Rightarrow> rgb \<Rightarrow> real \<Rightarrow> rgb \<Rightarrow> rgb" where
  "blend_with m c a dst =
     (case m of NormalBlending \<Rightarrow> blend_over a c dst | AdditiveBlending \<Rightarrow> additive_blend (c, a) dst)"

definition draw_fragment :: "fragment \<Rightarrow> pixel \<Rightarrow> pixel" where
  "draw_fragment f px =
     (if fr_depth f \<le> px_depth px
      then \<lparr>px_color = blend_with (fr_mode f) (fr_color f) (fr_alpha f) (px_color px),
            px_depth = (if fr_depth_write f then fr_depth f else px_depth px)\<rparr>
      else px)"

definition render_pixel :: "fragment list \<Rightarrow> pixel \<Rightarrow> pixel" where
  "render_pixel fs px = fold draw_fragment fs px"

definition cleared_pixel :: pixel where
  "cleared_pixel = \<lparr>px_color = clear_color, px_depth = camera_far\<rparr>"

definition ring_fragment :: "frame_state \<Rightarrow> nat \<Rightarrow> real \<Rightarrow> real \<Rightarrow> fragment" where
  "ring_fragment s i r a =
     (let rg = make_ring i; d = view_depth (camera_pos s) (ring_vertex rg (ring_rot s ! i) r a)
      in \<lparr>fr_color = mix_rgb gold_color fog_color (fog_factor d), fr_alpha = ring_opacity rg,
          fr_depth = d, fr_mode = NormalBlending, fr_depth_write = True\<rparr>)"

definition point_fragment :: "frame_state \<Rightarrow> particle \<Rightarrow> real \<Rightarrow> fragment" where
  "point_fragment s p rd =
     \<lparr>fr_color = p_color p, fr_alpha = fragment_alpha rd,
      fr_depth = view_depth (camera_pos s) (particle_world s p), fr_mode = AdditiveBlending,
      fr_depth_write = False\<rparr>"

datatype scene_object = ParticlesObj | RingObj nat

fun object_depth :: "frame_state \<Rightarrow> scene_object \<Rightarrow> real" where
  "object_depth s ParticlesObj = view_depth (camera_pos s) (0, 0, 0)"
| "object_depth s (RingObj i) = view_depth (camera_pos s) (0, 0, ring_z (make_ring i))"

definition draw_order :: "frame_state \<Rightarrow> scene_object list" where
  "draw_order s = sort_key (\<lambda>ob. - object_depth s ob) [ParticlesObj, RingObj 0, RingObj 1, RingObj 2]"

definition pixel_fragments :: "(scene_object \<Rightarrow> fragment list) \<Rightarrow> scene_object list \<Rightarrow> fragment list" where
  "pixel_fragments frags os = concat (map frags os)"

subsection \<open>Vectors\<close>

definition dot3 :: "vec3 \<Rightarrow> vec3 \<Rightarrow> real" where
  "dot3 p q = (case p of (x, y, z) \<Rightarrow> case q of (x', y', z') \<Rightarrow> x * x' + y * y' + z * z')"

definition sub3 :: "vec3 \<Rightarrow> vec3 \<Rightarrow> vec3" where
  "sub3 p q = (case p of (x, y, z) \<Rightarrow> case q of (x', y', z') \<Rightarrow> (x - x', y - y', z - z'))"

subsection \<open>Lemmas\<close>

lemma view_depth_shift:
  "0 < dot3 c c \<Longrightarrow> view_depth c p = view_depth c q - dot3 (sub3 p q) c / sqrt (dot3 c c)"
  by (cases c; cases p; cases q)
     (simp add: view_depth_def dot3_def sub3_def power2_eq_square diff_divide_distrib [symmetric]
        algebra_simps)

lemma cloud_centre_world:
  "particles_world s cloud_centre
   = (- 8 * sin (rot_y s), 8 * cos (rot_y s) * sin (rot_x s), - 8 * cos (rot_y s) * cos (rot_x s))"
  by (simp add: particles_world_def euler_rot_x_def euler_rot_y_def cloud_centre_def)

lemma cos_lower: "1 - x\<^sup>2 / 2 \<le> cos (x :: real)"
proof -
  have "cos x = 1 - 2 * (sin (x / 2))\<^sup>2" using cos_double_sin [of "x / 2"] by simp
  moreover have "(sin (x / 2))\<^sup>2 \<le> (x / 2)\<^sup>2"
    by (metis abs_le_square_iff abs_sin_x_le_abs_x)
  ultimately show ?thesis by (simp add: power_divide)
qed

lemma abs_mult_le:
  fixes a b :: real
  shows "\<bar>a\<bar> \<le> p \<Longrightarrow> \<bar>b\<bar> \<le> q \<Longrightarrow> \<bar>a * b\<bar> \<le> p * q"
  unfolding abs_mult by (rule mult_mono) auto

lemma sq_bound: "0.81 \<le> (c::real)\<^sup>2 \<Longrightarrow> s\<^sup>2 + c\<^sup>2 = 1 \<Longrightarrow> s\<^sup>2 \<le> 0.44\<^sup>2"
  by (simp add: power2_eq_square)

lemma sin_when_cos_low: "cos (ph::real) \<le> -0.9 \<Longrightarrow> \<bar>sin ph\<bar> \<le> 0.44"
proof -
  assume a: "cos ph \<le> -0.9"
  have "0.9 * 0.9 \<le> (- cos ph) * (- cos ph)" using a by (intro mult_mono) simp_all
  then have "0.81 \<le> (cos ph)\<^sup>2" by (simp add: power2_eq_square)
  then have "(sin ph)\<^sup>2 \<le> 0.44\<^sup>2" using sin_cos_squared_add [of ph] by (rule sq_bound)
  then show ?thesis by (simp add: abs_le_square_iff [symmetric])
qed

lemma half_sq_bound: "(ta::real)\<^sup>2 \<le> 4/625 \<Longrightarrow> 1 - ta\<^sup>2 / 2 \<le> c \<Longrightarrow> 99/100 \<le> c"
  by linarith

lemma tilt_sq: "\<bar>ta::real\<bar> \<le> 0.08 \<Longrightarrow> ta\<^sup>2 \<le> 4/625"
proof -
  assume "\<bar>ta\<bar> \<le> 0.08"
  then have "\<bar>ta\<bar> * \<bar>ta\<bar> \<le> 0.08 * 0.08" by (intro mult_mono) simp_all
  then show ?thesis by (simp add: power2_eq_square)
qed

lemma cos_when_small: "\<bar>ta\<bar> \<le> 0.08 \<Longrightarrow> 0.99 \<le> cos (ta::real)"
  using half_sq_bound [OF tilt_sq cos_lower] by simp

lemma centre_behind_camera:
  assumes b: "pointer_bounds s" and tilt: "\<bar>rot_x s\<bar> \<le> 0.08" and spin: "cos (rot_y s) \<le> -0.9"
  shows "view_depth (camera_pos s) (particles_world s cloud_centre) < 0"
proof -
  define cx cy ph ta where "cx = cam_x s" and "cy = cam_y s" and "ph = rot_y s" and "ta = rot_x s"
  have c: "\<bar>cx\<bar> \<le> 0.4" "\<bar>cy\<bar> \<le> 0.25" using b by (simp_all add: pointer_bounds_def cx_def cy_def)
  have "0.9 * 0.99 \<le> (- cos ph) * cos ta"
    using spin cos_when_small [OF tilt] by (intro mult_mono) (simp_all add: ph_def ta_def)
  then have z: "7.128 \<le> - (8 * cos ph * cos ta)" by simp
  have sph: "\<bar>- 8 * sin ph\<bar> \<le> 8 * 0.44" using sin_when_cos_low [OF spin] by (simp add: ph_def)
  have "\<bar>8 * cos ph * sin ta\<bar> \<le> 8 * 1 * 0.08"
    unfolding abs_mult using abs_cos_le_one [of ph] abs_sin_x_le_abs_x [of ta] tilt
    by (intro mult_mono) (simp_all add: ta_def)
  then have y: "\<bar>8 * cos ph * sin ta\<bar> \<le> 0.64" by simp
  have n: "(cx - - 8 * sin ph) * cx + (cy - 8 * cos ph * sin ta) * cy + (5 - - 8 * cos ph * cos ta) * 5 < 0"
  proof -
    have "\<bar>(- 8 * sin ph) * cx\<bar> \<le> 8 * 0.44 * 0.4" by (rule abs_mult_le [OF sph c(1)])
    moreover have "\<bar>(8 * cos ph * sin ta) * cy\<bar> \<le> 0.64 * 0.25" by (rule abs_mult_le [OF y c(2)])
    moreover have "\<bar>cx * cx\<bar> \<le> 0.4 * 0.4" "\<bar>cy * cy\<bar> \<le> 0.25 * 0.25" using c abs_mult_le by blast+
    ultimately show ?thesis using z by (simp add: algebra_simps abs_le_iff)
  qed
  have "0 < sqrt (cx\<^sup>2 + cy\<^sup>2 + 5\<^sup>2)" by (simp add: add_nonneg_pos)
  with n show ?thesis
    by (simp add: view_depth_def camera_pos_def camera_z_def cloud_centre_world cx_def cy_def ph_def ta_def
        divide_less_0_iff)
qed
lemma spin_returns:
  "\<exists>n\<ge>m. 0 < n \<and> cos (real n * 0.00015) \<le> -0.9"
proof -
  define a where "a = pi * real_of_int (2 * int m + 1)"
  define n where "n = nat \<lfloor>a / 0.00015\<rfloor>"
  have a_ge: "real m + 1 \<le> a / 0.00015"
  proof -
    have "(2 * real m + 1) * 1 \<le> (2 * real m + 1) * pi" using pi_ge_two by (intro mult_left_mono) simp_all
    then show ?thesis by (simp add: a_def algebra_simps)
  qed
  define x where "x = a / 0.00015"
  have fl: "int m + 1 \<le> \<lfloor>x\<rfloor>" using a_ge by (simp add: le_floor_iff x_def)
  then have rn: "real n = of_int \<lfloor>x\<rfloor>" by (simp add: n_def x_def)
  have nm: "m < n" using fl by (simp add: n_def x_def)
  define e where "e = a - real n * 0.00015"
  have "real n \<le> x" "x < real n + 1" using rn floor_correct [of x] by linarith+
  then have e0: "0 \<le> e" and e1: "e < 0.00015" unfolding e_def x_def by (simp_all add: field_simps)
  have "cos (real n * 0.00015) = cos (a - e)" by (simp add: e_def)
  also have "\<dots> = - cos e"
  proof -
    have ca: "cos a = -1" unfolding a_def cos_npi_int by simp
    have sa: "sin a = 0" unfolding a_def by (rule sin_npi_int)
    show ?thesis by (simp add: cos_diff ca sa)
  qed
  finally have ce: "cos (real n * 0.00015) = - cos e" .
  have "e * e \<le> 0.00015 * 0.00015" using e0 e1 by (intro mult_mono) simp_all
  then have "0.9 \<le> cos e" using cos_lower [of e] by (simp add: power2_eq_square)
  then show ?thesis using nm ce by (intro exI [of _ n]) simp
qed

lemma depth_clipped_iff:
  "0 < d \<Longrightarrow> depth_clipped d \<longleftrightarrow> d < camera_near \<or> camera_far < d"
  by (simp add: depth_clipped_def ndc_depth_def camera_near_def camera_far_def field_simps)

lemma depth_behind_clipped: "d < 0 \<Longrightarrow> depth_clipped d"
  by (simp add: depth_clipped_def)

lemma frames_rotation:
  "rot_y (frame_run s (replicate (Suc n) Frame)) = (time s + real (Suc n) * clock_step) * 0.03
   \<and> \<bar>rot_x (frame_run s (replicate (Suc n) Frame))\<bar> \<le> 0.08"
proof -
  let ?t = "time (frame_run s (replicate n Frame)) + clock_step"
  have "rot_y (frame_run s (replicate (Suc n) Frame)) = ?t * 0.03"
    "rot_x (frame_run s (replicate (Suc n) Frame)) = sin (?t * 0.08) * 0.08"
    by (simp_all add: frame_run_Suc_frames animateThreeJS_def Let_def del: replicate_Suc)
  moreover have "\<bar>sin (?t * 0.08) * 0.08\<bar> \<le> 0.08"
    using abs_sin_le_one [of "?t * 0.08"] by (simp add: abs_mult)
  ultimately show ?thesis using frames_time [of s n] by (simp add: algebra_simps)
qed

lemma camera_dot_pos: "0 < dot3 (camera_pos s) (camera_pos s)"
  by (simp add: dot3_def camera_pos_def camera_z_def add_nonneg_pos)

lemma beyond_centre_depth:
  "0 \<le> dot3 (sub3 q (particles_world s cloud_centre)) (camera_pos s)
   \<Longrightarrow> view_depth (camera_pos s) q \<le> view_depth (camera_pos s) (particles_world s cloud_centre)"
  using view_depth_shift [OF camera_dot_pos, of s q "particles_world s cloud_centre"] camera_dot_pos [of s]
  by simp

lemma particle_color: "p_color (make_particle d) \<in> {gold_color, white_color}"
  by (cases d) (simp add: make_particle_def Let_def)

lemma object_depth_order:
  assumes "pointer_bounds s"
  shows "object_depth s ParticlesObj < object_depth s (RingObj 0)
       \<and> object_depth s (RingObj 0) < object_depth s (RingObj 1)
       \<and> object_depth s (RingObj 1) < object_depth s (RingObj 2)"
proof -
  let ?n = "sqrt ((cam_x s)\<^sup>2 + (cam_y s)\<^sup>2 + 5\<^sup>2)"
  have n: "0 < ?n" by (simp add: add_nonneg_pos)
  have "object_depth s (RingObj i) = object_depth s ParticlesObj + 5 * (8 + 3 * real i) / ?n" for i
    by (simp add: view_depth_def camera_pos_def camera_z_def make_ring_def add_divide_distrib algebra_simps)
  then show ?thesis using n by (simp add: divide_strict_right_mono)
qed

lemma draw_order_rings_first:
  "pointer_bounds s \<Longrightarrow> draw_order s = [RingObj 2, RingObj 1, RingObj 0, ParticlesObj]"
  using object_depth_order [of s] by (simp add: draw_order_def)

lemma depth_within_20:
  fixes cx cy px py :: real
  assumes "\<bar>cx\<bar> \<le> 0.4" "\<bar>cy\<bar> \<le> 0.25" "\<bar>px\<bar> \<le> 1.352" "\<bar>py\<bar> \<le> 1.352"
  shows "view_depth (cx, cy, 5) (px, py, -14) < 20"
proof -
  have a: "\<bar>px * cx\<bar> \<le> 1.352 * 0.4" "\<bar>py * cy\<bar> \<le> 1.352 * 0.25"
    using abs_mult_le assms by blast+
  have c: "\<bar>cx * cx\<bar> \<le> 0.4 * 0.4" "\<bar>cy * cy\<bar> \<le> 0.25 * 0.25"
    using abs_mult_le assms by blast+
  have n: "(cx - px) * cx + (cy - py) * cy + (5 - -14) * 5 < 100"
    using a c by (simp add: algebra_simps abs_le_iff)
  have "sqrt (5\<^sup>2) \<le> sqrt (cx\<^sup>2 + cy\<^sup>2 + 5\<^sup>2)" by (rule real_sqrt_le_mono) simp
  then have s: "5 \<le> sqrt (cx\<^sup>2 + cy\<^sup>2 + 5\<^sup>2)" by (simp only: real_sqrt_abs)
  have "(cx - px) * cx + (cy - py) * cy + (5 - -14) * 5 < 20 * sqrt (cx\<^sup>2 + cy\<^sup>2 + 5\<^sup>2)"
    using n s by linarith
  moreover have "0 < sqrt (cx\<^sup>2 + cy\<^sup>2 + 5\<^sup>2)" using s by linarith
  ultimately show ?thesis by (simp add: view_depth_def pos_divide_less_eq)
qed

lemma third_ring_fragment:
  assumes "pointer_bounds s" "0 \<le> r" "r \<le> 0.52"
  shows "fog_far < fr_depth (ring_fragment s 2 r a) \<and> fr_depth (ring_fragment s 2 r a) < 20
       \<and> fr_color (ring_fragment s 2 r a) = clear_color
       \<and> fr_mode (ring_fragment s 2 r a) = NormalBlending \<and> fr_depth_write (ring_fragment s 2 r a)"
proof -
  let ?v = "ring_vertex (make_ring 2) (ring_rot s ! 2) r a"
  obtain px py pz where v: "?v = (px, py, pz)" by (cases ?v) auto
  have "\<bar>px\<bar> \<le> 1.352" "\<bar>py\<bar> \<le> 1.352" "pz = -14"
    using ring_vertex_bound [OF assms(2,3), of "ring_rot s ! 2" a] v by simp_all
  moreover have "\<bar>cam_x s\<bar> \<le> 0.4" "\<bar>cam_y s\<bar> \<le> 0.25" using assms(1) by (simp_all add: pointer_bounds_def)
  ultimately have up: "view_depth (camera_pos s) ?v < 20"
    using depth_within_20 [of "cam_x s" "cam_y s" px py] v by (simp add: camera_pos_def camera_z_def)
  have lo: "fog_far < view_depth (camera_pos s) ?v" by (rule third_ring_depth [OF assms])
  then have "fog_factor (view_depth (camera_pos s) ?v) = 1" by (intro fog_factor_far) simp
  with up lo show ?thesis by (simp add: ring_fragment_def Let_def fog_color_def clear_color_def)
qed

lemma draw_behind: "px_depth px < fr_depth f \<Longrightarrow> draw_fragment f px = px"
  by (simp add: draw_fragment_def)

lemma render_all_behind:
  "list_all (\<lambda>f. px_depth px < fr_depth f) fs \<Longrightarrow> render_pixel fs px = px"
  by (induction fs) (simp_all add: render_pixel_def draw_behind)

subsection \<open>Properties\<close>

text \<open>
  C29 (safety, finding). The particle cloud does not stay in front of the camera.
  At start-up its centre is 13 units in front of it, well inside the clipping
  range \<open>[0.1, 1000]\<close>. But \<open>rotation.y = time * 0.03\<close> grows without bound
  and turns the cloud about the object's origin, not about its own centre
  \<open>(0, 0, -8)\<close>: however long the page has run, a later frame comes whose
  cloud centre lies behind the camera, whatever the pointer did, and there every
  particle drawn beyond the centre as seen from the camera (at least the far half
  of the cloud) is clipped.
\<close>

theorem particle_cloud_orbits_behind_camera:
  assumes "0 < w" "0 < h"
  shows "view_depth (camera_pos (initial_frame_state w h r))
           (particles_world (initial_frame_state w h r) cloud_centre) = 13
         \<and> \<not> depth_clipped 13
         \<and> (\<forall>m. \<exists>n\<ge>m. let s = frame_run (initial_frame_state w h r) (replicate n Frame)
               in view_depth (camera_pos s) (particles_world s cloud_centre) < 0
                  \<and> (\<forall>p. 0 \<le> dot3 (sub3 (particle_world s p) (particles_world s cloud_centre)) (camera_pos s)
                       \<longrightarrow> depth_clipped (view_depth (camera_pos s) (particle_world s p))))"
proof (intro conjI allI)
  let ?ini = "initial_frame_state w h r"
  show "view_depth (camera_pos ?ini) (particles_world ?ini cloud_centre) = 13"
    by (simp add: cloud_centre_world rest_depth) (simp add: initial_frame_state_def)
  show "\<not> depth_clipped 13" by (simp add: depth_clipped_iff camera_near_def camera_far_def)
  fix m
  obtain n where n: "m \<le> n" "0 < n" and c: "cos (real n * 0.00015) \<le> -0.9"
    using spin_returns [of m] by blast
  then obtain k where k: "n = Suc k" by (cases n) simp_all
  let ?s = "frame_run ?ini (replicate n Frame)"
  have b: "pointer_bounds ?s"
  proof -
    have "pointer_bounds ?ini" using assms by (simp add: pointer_bounds_def initial_frame_state_def)
    moreover have "run_ok ?ini (replicate n Frame)"
    proof -
      have "run_ok s (replicate j Frame)" for s j by (induction j arbitrary: s) simp_all
      then show ?thesis .
    qed
    ultimately show ?thesis by (rule frame_run_bounds)
  qed
  have rot: "rot_y ?s = real n * 0.00015" "\<bar>rot_x ?s\<bar> \<le> 0.08"
    using frames_rotation [of ?ini k] k by (simp_all add: initial_frame_state_def clock_step_def)
  have d: "view_depth (camera_pos ?s) (particles_world ?s cloud_centre) < 0"
    using centre_behind_camera [OF b rot(2)] rot(1) c by simp
  have "\<forall>p. 0 \<le> dot3 (sub3 (particle_world ?s p) (particles_world ?s cloud_centre)) (camera_pos ?s)
            \<longrightarrow> depth_clipped (view_depth (camera_pos ?s) (particle_world ?s p))"
    using beyond_centre_depth d depth_behind_clipped by (meson le_less_trans)
  with n d show "\<exists>n\<ge>m. let s = frame_run ?ini (replicate n Frame)
               in view_depth (camera_pos s) (particles_world s cloud_centre) < 0
                  \<and> (\<forall>p. 0 \<le> dot3 (sub3 (particle_world s p) (particles_world s cloud_centre)) (camera_pos s)
                       \<longrightarrow> depth_clipped (view_depth (camera_pos s) (particle_world s p)))"
    by (auto simp: Let_def)
qed

theorem particle_cloud_orbits_behind_camera_witness:
  "\<exists>n\<ge>100000. view_depth (camera_pos (frame_run (initial_frame_state 1280 720 1) (replicate n Frame)))
      (particles_world (frame_run (initial_frame_state 1280 720 1) (replicate n Frame)) cloud_centre) < 0"
proof -
  have "0 < (1280::real)" "0 < (720::real)" by simp_all
  from particle_cloud_orbits_behind_camera [OF this, of 1]
  show ?thesis by (simp add: Let_def) blast
qed

text \<open>
  C30 (safety, finding). The third sonar ring hides the particles behind it.
  Whatever the pointer has done, the renderer draws the three rings before the
  particle cloud, farthest first. The third ring lies beyond the fog's far
  distance, so its colour is fogged to the clear colour and blending it leaves
  the pixel unchanged; but its material writes depth. At a pixel the third ring
  covers, the particles behind it therefore fail the depth test: the pixel stays
  at the clear colour, where without the ring any of those particles near its
  sprite's centre would have lit it. The invisible ring draws a dark ring into
  the particle field.
\<close>

theorem third_ring_hides_particles:
  assumes "pointer_bounds s" and "0 \<le> r" and "r \<le> 0.52"
    and "frags (RingObj 2) = [ring_fragment s 2 r a]" and "frags (RingObj 1) = []" and "frags (RingObj 0) = []"
    and "frags ParticlesObj = map (\<lambda>(d, rd). point_fragment s (make_particle d) rd) ps"
    and "list_all (\<lambda>(d, rd). fr_depth (ring_fragment s 2 r a) < fr_depth (point_fragment s (make_particle d) rd)) ps"
  shows "draw_order s = [RingObj 2, RingObj 1, RingObj 0, ParticlesObj]
       \<and> render_pixel (pixel_fragments frags (draw_order s)) cleared_pixel
           = \<lparr>px_color = clear_color, px_depth = fr_depth (ring_fragment s 2 r a)\<rparr>
       \<and> list_all (\<lambda>(d, rd). rd \<le> 0.3 \<and> fr_depth (point_fragment s (make_particle d) rd) \<le> camera_far
            \<longrightarrow> px_color (render_pixel [point_fragment s (make_particle d) rd] cleared_pixel) \<noteq> clear_color) ps"
proof (intro conjI)
  show o: "draw_order s = [RingObj 2, RingObj 1, RingObj 0, ParticlesObj]"
    by (rule draw_order_rings_first [OF assms(1)])
  let ?f = "ring_fragment s 2 r a"
  have rf: "fog_far < fr_depth ?f" "fr_depth ?f < 20" "fr_color ?f = clear_color"
    "fr_mode ?f = NormalBlending" "fr_depth_write ?f"
    using third_ring_fragment [OF assms(1-3), of a] by simp_all
  have first: "draw_fragment ?f cleared_pixel = \<lparr>px_color = clear_color, px_depth = fr_depth ?f\<rparr>"
    using rf by (simp add: draw_fragment_def cleared_pixel_def camera_far_def blend_with_def)
  have "pixel_fragments frags (draw_order s) = ?f # map (\<lambda>(d, rd). point_fragment s (make_particle d) rd) ps"
    using o assms(4-7) by (simp add: pixel_fragments_def)
  moreover have "list_all (\<lambda>g. px_depth \<lparr>px_color = clear_color, px_depth = fr_depth ?f\<rparr> < fr_depth g)
      (map (\<lambda>(d, rd). point_fragment s (make_particle d) rd) ps)"
    using assms(8) by (simp add: list_all_iff split_beta)
  ultimately show "render_pixel (pixel_fragments frags (draw_order s)) cleared_pixel
      = \<lparr>px_color = clear_color, px_depth = fr_depth ?f\<rparr>"
    using first render_all_behind by (simp add: render_pixel_def)
  show "list_all (\<lambda>(d, rd). rd \<le> 0.3 \<and> fr_depth (point_fragment s (make_particle d) rd) \<le> camera_far
      \<longrightarrow> px_color (render_pixel [point_fragment s (make_particle d) rd] cleared_pixel) \<noteq> clear_color) ps"
  proof -
    have "px_color (render_pixel [point_fragment s (make_particle d) rd] cleared_pixel) \<noteq> clear_color"
      if rd: "rd \<le> 0.3" and df: "fr_depth (point_fragment s (make_particle d) rd) \<le> camera_far" for d rd
    proof -
      have al: "fragment_alpha rd = 0.5" using fragment_alpha_shape [of rd] rd by simp
      have "p_color (make_particle d) \<in> {gold_color, white_color}" by (rule particle_color)
      then show ?thesis
        using df al
        by (auto simp: render_pixel_def draw_fragment_def point_fragment_def cleared_pixel_def blend_with_def
            additive_blend_def clamp01_def gold_color_def white_color_def clear_color_def hex_rgb_def)
    qed
    then show ?thesis by (auto simp: list_all_iff)
  qed
qed

theorem third_ring_hides_particles_witness:
  "render_pixel (pixel_fragments
      (\<lambda>ob. if ob = RingObj 2 then [ring_fragment (initial_frame_state 1280 720 1) 2 0.5 0]
             else if ob = ParticlesObj
             then map (\<lambda>(d, rd). point_fragment (initial_frame_state 1280 720 1) (make_particle d) rd)
                    [((1, 0, 0, 0.9, 0.5), 0.1)]
             else [])
      (draw_order (initial_frame_state 1280 720 1))) cleared_pixel
   = \<lparr>px_color = clear_color, px_depth = fr_depth (ring_fragment (initial_frame_state 1280 720 1) 2 0.5 0)\<rparr>"
proof -
  let ?s = "initial_frame_state 1280 720 1"
  have b: "pointer_bounds ?s" by (simp add: pointer_bounds_def initial_frame_state_def)
  have rd: "fr_depth (ring_fragment ?s 2 0.5 0) = 19"
    by (simp add: ring_fragment_def Let_def view_depth_def camera_pos_def camera_z_def initial_frame_state_def
        ring_vertex_def make_ring_def)
  have pd: "fr_depth (point_fragment ?s (make_particle (1, 0, 0, 0.9, 0.5)) 0.1) = 28"
    by (simp add: point_fragment_def particle_world_def particles_world_def euler_rot_x_def euler_rot_y_def
        vertex_float_def u_intensity_def make_particle_def Let_def view_depth_def camera_pos_def camera_z_def
        initial_frame_state_def)
  have h: "list_all (\<lambda>(d, rd). fr_depth (ring_fragment ?s 2 0.5 0) < fr_depth (point_fragment ?s (make_particle d) rd))
      [((1, 0, 0, 0.9, 0.5), 0.1)]"
    using rd pd by simp
  show ?thesis
    using third_ring_hides_particles [OF b, of "0.5" _ 0, OF _ _ _ _ _ _ h] by simp
qed

end
