(* ===== verification/Spec2Isabelle.thy ===== *)
theory Spec2Isabelle
  imports NavToggle MobileNav PageTransition Boot FrameLoop Cursor Magnetic ScrollReveal Scene SmoothScroll Parallax Render
begin

text \<open>
  Verification development of the client-side scripts of the Blind Dragon Studios
  web site: \<^verbatim>\<open>src/site.js\<close> (41 lines, the navigation toggle of the plain pages)
  and \<^verbatim>\<open>src/script.js\<close> (681 lines, the animated landing page built on GSAP,
  ScrollTrigger, Lenis and Three.js). Both scripts are collections of DOM event
  handlers over a small amount of shared state; the development models each handler
  as a function on an explicit state record, an event type per component, and a
  run function folding a list of events, so that a browser session is a finite
  sequence of events. JavaScript numbers are \<^typ>\<open>real\<close> (exact arithmetic, IEEE
  rounding is not modelled), GSAP times are integer milliseconds
  (\<^typ>\<open>ms\<close> = \<^typ>\<open>int\<close>), DOM strings are \<^typ>\<open>string\<close>.

  \<^bold>\<open>Theories and what they model.\<close>
  \<^item> \<open>Prelude\<close>: the collections \<open>handler_defs\<close> and \<open>smooth_simps\<close>, JavaScript's
    \<open>startsWith\<close> and the CSS suffix selector (\<open>starts_with\<close>, \<open>ends_with\<close>), and the
    smoothing step \<open>x += (target - x) * k\<close> (\<open>smooth_toward\<close>, \<open>smooth_iter\<close>) with its
    gap, convexity and convergence lemmas, shared by FrameLoop and Cursor, and the
    value that non-overwriting GSAP tweens of one property settle at
    (\<open>last_finished\<close>), shared by Magnetic and PageTransition.
  \<^item> \<open>NavToggle\<close>: all of \<^verbatim>\<open>site.js\<close>. State \<open>nav_dom\<close> = the attributes
    \<open>data-nav-open\<close> and \<open>aria-expanded\<close>; \<open>closeNav\<close>, \<open>openNav\<close>, \<open>isOpen\<close>, the
    toggle's click listener \<open>toggle_click\<close>, the document's \<open>keydown_handler\<close> and
    \<open>document_click\<close>, composed in bubbling order by \<open>nav_dispatch\<close>; the early
    return without a toggle in \<open>site_nav\<close>; reachable states as the inductive
    \<open>nav_reachable\<close>; the boolean machine of the specification (\<open>spec_nav_step\<close>)
    and the map \<open>classify_nav\<close> from concrete events to its actions.
  \<^item> \<open>MobileNav\<close>: \<open>initMobileNav\<close> (script.js 593--612), the \<open>active\<close> class of
    menu and button.
  \<^item> \<open>PageTransition\<close>: \<open>initPageTransitions\<close> (284--317): which links get the
    listener, which hrefs are let through, and the navigation deferred to the
    \<open>onComplete\<close> of the 600 ms cover tween, with the GSAP clock explicit
    (\<open>page_state\<close>, \<open>link_click\<close>, \<open>tick\<close>, \<open>page_run\<close>); the overlay's reveal
    tween on \<open>DOMContentLoaded\<close> (\<open>page_load_reveal\<close>), its cover tweens and the
    position they settle at (\<open>overlay_settled\<close>), and a restore from the
    back/forward cache, which runs no handler.
  \<^item> \<open>Timeline\<close>: GSAP timeline placement (\<open>place\<close>, \<open>schedule\<close>, \<open>tl_end\<close>) and the
    two sequences built with it, \<open>preloader_timeline\<close> (\<open>initPreloader\<close>, 322--378)
    and \<open>hero_timeline\<close> (\<open>initHeroAnimations\<close>, 510--546), tween by tween.
  \<^item> \<open>Boot\<close>: the first-load test on \<open>sessionStorage\<close> (672--680), \<open>initApp\<close>
    (649--670) and the control flow of \<open>initPreloader\<close>; a page load is its timed
    trace of initialiser calls, a session a list of page loads (\<open>session_run\<close>);
    exceptions as values: a \<open>SecurityError\<close> of \<open>sessionStorage\<close> and a
    \<open>ReferenceError\<close> of a missing library abort the callback that raised them
    (\<open>page_load_checked\<close>, \<open>initApp_checked\<close>, \<open>run_batch\<close>).
  \<^item> \<open>FrameLoop\<close>: the module state shared by the pointer listener, one call of
    \<open>animateThreeJS\<close> (171--203), the resize and visibility handlers (617--644), as
    the record \<open>frame_state\<close> and \<open>frame_step\<close>/\<open>frame_run\<close>.
  \<^item> \<open>Cursor\<close>: \<open>initCursor\<close> and \<open>updateCursor\<close> (208--248): the cursor loop
    (\<open>cursor_frames\<close>, stopping when no \<open>.cursor\<close> exists) and the hover class
    driven by \<open>mouseenter\<close>/\<open>mouseleave\<close> over a path of nested elements
    (\<open>pointer_move\<close>).
  \<^item> \<open>Magnetic\<close>: \<open>initMagneticButtons\<close> (253--279): the tweens its two listeners
    start and the offset they settle at under GSAP's non-overwriting default.
  \<^item> \<open>ScrollReveal\<close>: \<open>initScrollAnimations\<close> (383--505) without the parallax: the
    from/to values, durations and eases of the five reveal classes and the
    staggered card groups, and the \<open>play none none reverse\<close> trigger as a state
    machine over scroll positions and elapsed time (\<open>reveal_created\<close>).
  \<^item> \<open>Scene\<close>: the scene \<open>initThreeJS\<close> builds (42--159): particles from their five
    random draws (\<open>make_particle\<close>), the loop filling the typed arrays
    (\<open>particle_buffers\<close>) against their reference layout (\<open>buffer_layout\<close>), the
    three rings (\<open>rings_init\<close>), the camera placed by the frame loop and turned
    to the origin (\<open>camera_pos\<close>, \<open>view_depth\<close>), and the clear colour and linear
    fog as Three.js applies them (\<open>fog_factor\<close>, \<open>mix_rgb\<close>, \<open>blend_over\<close>).
  \<^item> \<open>SmoothScroll\<close>: \<open>initLenis\<close> (11--31): the easing and duration options, the
    GSAP ticker callback (\<open>ticker_tick\<close>, seconds to ms), \<open>lenis.raf\<close> and Lenis's
    duration-based scroll animation (\<open>anim_advance\<close>, modelled from Lenis's
    documented behaviour), a run emitting the positions that reach
    \<open>ScrollTrigger.update\<close> (\<open>lenis_run\<close>).
  \<^item> \<open>Parallax\<close>: the scroll-scrubbed tweens of the \<open>.parallax-text\<close> headings
    (472--483) and of the hero banner and title (559--587), with ScrollTrigger's
    scrub catch-up (\<open>parallax_render\<close>, GSAP's \<open>power3\<close> ease), the hero tweens'
    recorded start values as parameters, and the endless yoyo scroll-line tween
    (549--556, \<open>scroll_line_scale\<close>, \<open>power2.inOut\<close>, bounded and 3 s periodic).
  \<^item> \<open>Render\<close>: what \<open>renderer.render\<close> (line 202) does with the scene each
    frame: the particle cloud's object transform from \<open>rotation.x\<close> and
    \<open>rotation.y\<close> (187--190, Euler order \<open>XYZ\<close>: \<open>euler_rot_x\<close>, \<open>euler_rot_y\<close>,
    \<open>particles_world\<close>, \<open>particle_world\<close> with the vertex shader's offset), the
    depth clipping of \<open>PerspectiveCamera(75, aspect, 0.1, 1000)\<close> (\<open>ndc_depth\<close>,
    \<open>depth_clipped\<close>), and one pixel of the frame: the back-to-front order in
    which the renderer draws the four transparent objects (\<open>draw_order\<close>, a
    \<open>sort_key\<close>), the fragments of the rings (fogged, normal blending, writing
    depth: \<open>ring_fragment\<close>) and of the particles (additive, 133--135, not writing
    depth: \<open>point_fragment\<close>), and the depth test and blending that compose them
    (\<open>draw_fragment\<close>, \<open>render_pixel\<close>).

  The components interact through the page's start-up: Boot calls the
  initialisers of the other components, in \<open>initApp\<close>'s order, and defers the
  scroll reveals, hero entrance, magnetic buttons and page transitions to the end of
  the preloader timeline (5800 ms, by \<open>Timeline.preloader_timeline_end\<close>) on a
  first load of the session; FrameLoop and Cursor share the smoothing lemmas of the
  Prelude; Scene and Render read the camera position and rotations that
  FrameLoop maintains (the two Render claims span these components), and Lenis's
  scroll events drive the ScrollTrigger reveals (the property at the end of this
  theory). Apart from that the components touch disjoint parts of the DOM.

  \<^bold>\<open>What is proved\<close> (claims C1--C33): for the
  navigation toggle, refinement of the specification's machine on every covered
  event sequence, the attribute invariant on all reachable states by rule
  induction, and the two corner cases the specification does not describe; for
  the mobile menu, class synchronisation and its failure from unsynchronised
  markup; for page transitions, that an intercepted click navigates exactly when
  the cover tween completes, and that a page restored from the back/forward
  cache stays under its overlay; the hero entrance's order for every set of
  elements and its duration for every word count; that a session plays the
  preloader at most once, the timed trace of a page load, and what start-up does
  when storage is denied or a library is missing (C14); bounds on the smoothed
  pointer and camera for every event sequence and geometric convergence of the
  smoothing; the cursor loop and the hover-class behaviour with and without
  nested targets; the magnetic offsets, their bound, and the snap-back after any
  re-entry within 200 ms caused by non-overwriting tweens (C22); the reveal
  trigger's invariant, its binding to the scroll position and the cards' order;
  the scrubbed parallax settling on the scroll progress from its recorded start
  values; for the scene, that the buffer loop is equivalent to the concatenated
  layout and that particles lie in the spherical shell of radii 3 to 15; for the
  renderer, that the cloud's unbounded spin carries its centre behind the camera
  again and again (C29), and that the third ring, invisible in itself, hides
  the particles behind it because its material writes depth (C30); for Lenis,
  the shape of its easing (it starts at 0.001 and saturates before 1), and that
  a smooth scroll emits monotone positions and stops exactly at its target after
  1.2 s. Across components (below): during one smooth scroll across a reveal's
  trigger the reveal is played and never reversed (C33). Other results are kept
  as lemmas: the preloader's sequence and text writes
  (\<open>Timeline.preloader_sequence\<close>), the interception string test, the buffer
  read-back through \<open>BufferAttribute\<close>, the tilt bound and ring directions, the
  fog over the rings at rest, the particles' colour and size ranges.

  \<^bold>\<open>Bounds and fuel.\<close> No definition needs fuel: every loop of the scripts is
  either a browser-driven callback (listeners, \<open>requestAnimationFrame\<close>), modelled as
  one step applied to a finite event list whose length is arbitrary in the
  theorems, or a structural recursion over a list (timelines, paths, tweens).
  The render and cursor loops never terminate in the browser; the theorems hold for
  every number of frames. A Lenis scroll animation ends by itself: its completion
  is proved (\<open>lenis_scroll_settles\<close>) for every sorted ticker run reaching 1.2 s.
  Integers do not overflow: GSAP times are small literals.

  \<^bold>\<open>Not modelled.\<close> The Lenis options that select input handling inside the
  library (direction, multipliers, touch); the horizontal and vertical extent of
  the view frustum (\<open>fov\<close> 75 and the aspect: only the depth range of the
  projection is modelled, in Render) and rasterisation by the GPU; the
  distribution of \<open>Math.random()\<close> (draws are arbitrary reals in \<open>[0, 1)\<close>); the
  stylesheet, which sets the hero's pre-entrance styles (the parallax tweens'
  recorded start values are parameters); the easing of the preloader, hero,
  magnetic and transition tweens (recorded by name only; the reveal tweens'
  \<open>power4.out\<close> and \<open>power2.out\<close>, the scrub catch-up's \<open>power3\<close> and the scroll
  line's \<open>power2.inOut\<close> are modelled as GSAP defines them, \<open>powerN\<close> having
  exponent \<open>N + 1\<close>); the \<open>if (preloaderText)\<close> guards of the preloader's text
  writes (the element is taken to exist); GSAP's behaviour at negative timeline
  positions; floating-point rounding.
\<close>

section \<open>Properties spanning components\<close>

text \<open>
  C33 (safety, liveness). Lenis and the scroll reveals together: during one smooth
  scroll of Lenis from \<open>a\<close> down to \<open>b\<close> that crosses a reveal's trigger start
  (\<open>a \<le> start < b\<close>), the positions Lenis hands to \<open>ScrollTrigger.update\<close> never
  reverse the reveal created at \<open>a\<close>, at any point of the scroll, whatever the frame
  times of the ticker; and once the ticker passes 1.2 s the reveal has been
  played and stands past its start.
\<close>

theorem lenis_scroll_plays_reveal_once:
  assumes "a \<le> b" and "sorted ts" and "list_ex (\<lambda>t. t0 + lenis_duration \<le> t) ts"
    and "a \<le> trigger_start v el_top vh" and "trigger_start v el_top vh < b"
  shows "(\<forall>k. \<not> reversed (reveal_created v el_top vh a
              (map ScrollTo (take k (snd (lenis_run \<lparr>l_anim = start_scroll a b, l_last = Some (t0 * 1000)\<rparr> ts))))))
       \<and> played (reveal_created v el_top vh a
              (map ScrollTo (snd (lenis_run \<lparr>l_anim = start_scroll a b, l_last = Some (t0 * 1000)\<rparr> ts))))
       \<and> past_start (reveal_created v el_top vh a
              (map ScrollTo (snd (lenis_run \<lparr>l_anim = start_scroll a b, l_last = Some (t0 * 1000)\<rparr> ts))))"
proof -
  let ?ys = "snd (lenis_run \<lparr>l_anim = start_scroll a b, l_last = Some (t0 * 1000)\<rparr> ts)"
  let ?st = "trigger_start v el_top vh"
  have s0: "scroll_update ?st a reveal_initial = reveal_initial"
    using assms(4) by (simp add: scroll_update_def reveal_initial_def)
  have srt: "sorted (a # ?ys)"
    using lenis_scroll_sorted [OF assms(1,2), of t0] by (simp add: list_all_iff)
  have i: "\<not> past_start reveal_initial" "\<not> played reveal_initial" "\<not> reversed reveal_initial"
    by (simp_all add: reveal_initial_def)
  have run: "\<not> reversed (reveal_run ?st (reveal_duration v) reveal_initial (map ScrollTo zs))
      \<and> (played (reveal_run ?st (reveal_duration v) reveal_initial (map ScrollTo zs)) \<longleftrightarrow> (\<exists>y\<in>set zs. ?st < y))"
    if "sorted (a # zs)" for zs
    using reveal_scrolls_sorted [OF that, of reveal_initial ?st "reveal_duration v"] i assms(4) by simp
  have "sorted (a # take k ?ys)" for k
    using srt sorted_wrt_take [of "(\<le>)" "a # ?ys" "Suc k"] by simp
  then have nr: "\<forall>k. \<not> reversed (reveal_created v el_top vh a (map ScrollTo (take k ?ys)))"
    using run by (simp add: reveal_created_def s0)
  have last: "?ys \<noteq> []" "last ?ys = b" using lenis_scroll_last [OF assms(3), of a b] by simp_all
  then have "b \<in> set ?ys" by (metis last_in_set)
  then have pl: "played (reveal_created v el_top vh a (map ScrollTo ?ys))"
    using run [OF srt] assms(5) by (auto simp: reveal_created_def s0)
  have "past_start (reveal_created v el_top vh a (map ScrollTo ?ys)) \<longleftrightarrow> ?st < last_scroll a (map ScrollTo ?ys)"
    unfolding reveal_created_def by (rule reveal_run_past_start) simp
  moreover have "last_scroll a (map ScrollTo zs) = (if zs = [] then a else last zs)" for zs
    by (induction zs arbitrary: a) simp_all
  ultimately have "past_start (reveal_created v el_top vh a (map ScrollTo ?ys))"
    using last assms(5) by simp
  with nr pl show ?thesis by simp
qed

theorem lenis_scroll_plays_reveal_once_witness:
  "played (reveal_created Reveal 1200 800 0
      (map ScrollTo (snd (lenis_run \<lparr>l_anim = start_scroll 0 600, l_last = Some (0 * 1000)\<rparr> [0.5, 1, 1.5]))))"
proof -
  have h: "(0::real) \<le> 600" "sorted [0.5 :: real, 1, 1.5]" "list_ex (\<lambda>t. 0 + lenis_duration \<le> t) [0.5 :: real, 1, 1.5]"
    "0 \<le> trigger_start Reveal 1200 800" "trigger_start Reveal 1200 800 < 600"
    by (simp_all add: lenis_duration_def trigger_start_def)
  show ?thesis using lenis_scroll_plays_reveal_once [OF h] by simp
qed

end
